theory Spec2Isabelle
  imports Complex_Main
begin

section \<open>Values of the JavaScript runtime\<close>

text \<open>
  A JavaScript number is kept as an exact rational or one of the three non-finite
  values; rounding to a double and the sign of zero are not represented.
\<close>

datatype number = Fin rat | PosInf | NegInf | NaN

fun num_neg :: "number \<Rightarrow> number" where
  "num_neg (Fin a) = Fin (- a)"
| "num_neg PosInf = NegInf"
| "num_neg NegInf = PosInf"
| "num_neg NaN = NaN"

fun num_add :: "number \<Rightarrow> number \<Rightarrow> number" where
  "num_add (Fin a) (Fin b) = Fin (a + b)"
| "num_add NaN _ = NaN"
| "num_add _ NaN = NaN"
| "num_add PosInf NegInf = NaN"
| "num_add NegInf PosInf = NaN"
| "num_add PosInf _ = PosInf"
| "num_add NegInf _ = NegInf"
| "num_add (Fin a) b = b"

definition num_sub :: "number \<Rightarrow> number \<Rightarrow> number" where
  "num_sub a b = num_add a (num_neg b)"

definition num_sign :: "number \<Rightarrow> int" where
  "num_sign a = (case a of Fin r \<Rightarrow> (if r < 0 then - 1 else if r = 0 then 0 else 1)
                 | PosInf \<Rightarrow> 1 | NegInf \<Rightarrow> - 1 | NaN \<Rightarrow> 0)"

definition signed_inf :: "int \<Rightarrow> number" where
  "signed_inf s = (if s = 0 then NaN else if s < 0 then NegInf else PosInf)"

fun num_mul :: "number \<Rightarrow> number \<Rightarrow> number" where
  "num_mul (Fin a) (Fin b) = Fin (a * b)"
| "num_mul NaN _ = NaN"
| "num_mul _ NaN = NaN"
| "num_mul a b = signed_inf (num_sign a * num_sign b)"

fun num_div :: "number \<Rightarrow> number \<Rightarrow> number" where
  "num_div (Fin a) (Fin b) = (if b = 0 then signed_inf (num_sign (Fin a)) else Fin (a / b))"
| "num_div NaN _ = NaN"
| "num_div _ NaN = NaN"
| "num_div (Fin a) _ = Fin 0"
| "num_div a (Fin b) = signed_inf (num_sign a * (if b < 0 then - 1 else 1))"
| "num_div _ _ = NaN"

text \<open>
  A value as \<open>JSON.parse\<close> or a property read yields it. \<open>JUndefined\<close> is what
  reading a missing property gives.
\<close>

datatype jsval =
    JUndefined
  | JNull
  | JBool bool
  | JNum number
  | JStr string
  | JArr "jsval list"
  | JObj "(string \<times> jsval) list"

text \<open>
  A string-typed field of the shared schema. \<open>Raw v\<close> is a value copied from the
  wire as it came; \<open>Formatted n\<close> is the string that \<open>toFixed\<close> or \<open>toString\<close>
  produced from a number, kept as the number it denotes.
\<close>

datatype field = Raw jsval | Formatted number

datatype error =
    NetworkError
  | HttpError nat
  | SyntaxError
  | TypeError
  | InvalidResponse
  | RangeError
  | NoHealthInfo
  | MaxRetriesExceeded
  | Failure string

text \<open>
  \<open>x.toFixed(d)\<close>: the nearest multiple of \<open>10^-d\<close>, the larger one on a tie, taken
  on the absolute value; a number of absolute value \<open>10^21\<close> or more, and a non-finite
  one, is printed as \<open>toString\<close> prints it.
\<close>

definition round_half_up :: "nat \<Rightarrow> rat \<Rightarrow> rat" where
  "round_half_up d x = of_int \<lfloor>x * 10 ^ d + 1 / 2\<rfloor> / 10 ^ d"

definition toFixed :: "nat \<Rightarrow> number \<Rightarrow> field" where
  "toFixed d x =
     (case x of
        Fin r \<Rightarrow>
          (if \<bar>r\<bar> \<ge> 10 ^ 21 then Formatted (Fin r)
           else if r < 0 then Formatted (Fin (- round_half_up d (- r)))
           else Formatted (Fin (round_half_up d r)))
      | _ \<Rightarrow> Formatted x)"

definition toString :: "number \<Rightarrow> field" where
  "toString x = Formatted x"

section \<open>The environment of a call\<close>

datatype fetch_result =
    NetworkFailure
  | Response nat "jsval option"

text \<open>
  Everything a call reads from outside or leaves behind: the values \<open>Math.random\<close>
  and \<open>Date.now\<close> return (the i-th call gets the i-th value), the results of the
  i-th \<open>fetch\<close>, the delays handed to \<open>setTimeout\<close>, the number of adapter operations
  the aggregator has started, and the runtime's \<open>parseInt\<close>, \<open>parseFloat\<close>, conversion
  of a string to a number (\<open>js_Number\<close>) and printing of an array (\<open>js_String\<close>) on wire
  values. A \<open>Response\<close> carries the HTTP status and the body as \<open>response.json()\<close>
  parses it (\<open>None\<close> when it is not JSON).
\<close>

record world =
  random :: "nat \<Rightarrow> rat"
  random_used :: nat
  clock :: "nat \<Rightarrow> int"
  clock_used :: nat
  network :: "nat \<Rightarrow> fetch_result"
  network_used :: nat
  timeouts :: "nat list"
  adapter_calls :: nat
  js_parseInt :: "jsval \<Rightarrow> number"
  js_parseFloat :: "jsval \<Rightarrow> number"
  js_Number :: "jsval \<Rightarrow> number"
  js_String :: "jsval \<Rightarrow> string"

definition Math_random :: "world \<Rightarrow> rat \<times> world" where
  "Math_random w = (random w (random_used w), w\<lparr>random_used := Suc (random_used w)\<rparr>)"

definition Date_now :: "world \<Rightarrow> int \<times> world" where
  "Date_now w = (clock w (clock_used w), w\<lparr>clock_used := Suc (clock_used w)\<rparr>)"

definition fetch :: "world \<Rightarrow> fetch_result \<times> world" where
  "fetch w = (network w (network_used w), w\<lparr>network_used := Suc (network_used w)\<rparr>)"

definition setTimeout :: "nat \<Rightarrow> world \<Rightarrow> world" where
  "setTimeout delay w = w\<lparr>timeouts := timeouts w @ [delay]\<rparr>"

section \<open>The shared schema\<close>

record OrderbookEntry =
  price :: field
  quantity :: field

record Orderbook =
  symbol :: string
  bids :: "OrderbookEntry list"
  asks :: "OrderbookEntry list"
  lastUpdateId :: number

record Ticker24h =
  t_symbol :: string
  t_priceChange :: field
  t_priceChangePercent :: field
  t_weightedAvgPrice :: field
  t_prevClosePrice :: field
  t_lastPrice :: field
  t_bidPrice :: field
  t_askPrice :: field
  t_openPrice :: field
  t_highPrice :: field
  t_lowPrice :: field
  t_volume :: field
  t_quoteVolume :: field
  t_openTime :: number
  t_closeTime :: number
  t_count :: number

record Kline =
  k_openTime :: number
  k_open :: field
  k_high :: field
  k_low :: field
  k_close :: field
  k_volume :: field
  k_closeTime :: number
  k_quoteAssetVolume :: field
  k_numberOfTrades :: number
  k_takerBuyBaseAssetVolume :: field
  k_takerBuyQuoteAssetVolume :: field

section \<open>Arrays\<close>

text \<open>
  \<open>Array.from({length: n}, (_, i) => f(i))\<close> raises a RangeError when the length is not
  an array length (\<open>2^32\<close> or more), takes a negative length as 0, and otherwise calls
  \<open>f\<close> on 0, ..., n-1 in this order; \<open>f\<close> may change the state it closes over.
\<close>

definition array_length :: "int \<Rightarrow> error + nat" where
  "array_length len = (if len \<ge> 2 ^ 32 then Inl RangeError else Inr (nat len))"

fun Array_from_at :: "nat \<Rightarrow> nat \<Rightarrow> (nat \<Rightarrow> 's \<Rightarrow> 'a \<times> 's) \<Rightarrow> 's \<Rightarrow> 'a list \<times> 's" where
  "Array_from_at i 0 f s = ([], s)"
| "Array_from_at i (Suc n) f s =
     (let (x, s1) = f i s; (xs, s2) = Array_from_at (Suc i) n f s1 in (x # xs, s2))"

definition Array_from :: "nat \<Rightarrow> (nat \<Rightarrow> 's \<Rightarrow> 'a \<times> 's) \<Rightarrow> 's \<Rightarrow> 'a list \<times> 's" where
  "Array_from n f s = Array_from_at 0 n f s"

text \<open>
  \<open>Array.prototype.sort\<close> with a comparator is stable: an element moves behind
  another only when the comparator is positive on them. On the comparators used
  here (a difference of finite numbers) this is insertion into the sorted rest.
\<close>

definition is_positive :: "number \<Rightarrow> bool" where
  "is_positive n = (case n of Fin r \<Rightarrow> r > 0 | PosInf \<Rightarrow> True | _ \<Rightarrow> False)"

fun insert_by :: "('a \<Rightarrow> 'a \<Rightarrow> number) \<Rightarrow> 'a \<Rightarrow> 'a list \<Rightarrow> 'a list" where
  "insert_by cmp x [] = [x]"
| "insert_by cmp x (y # ys) =
     (if is_positive (cmp x y) then y # insert_by cmp x ys else x # y # ys)"

definition sort_by :: "('a \<Rightarrow> 'a \<Rightarrow> number) \<Rightarrow> 'a list \<Rightarrow> 'a list" where
  "sort_by cmp xs = foldr (insert_by cmp) xs []"

definition parseFloat :: "world \<Rightarrow> field \<Rightarrow> number" where
  "parseFloat w f = (case f of Formatted n \<Rightarrow> n | Raw v \<Rightarrow> js_parseFloat w v)"

section \<open>The synthetic data generator (mock-data-service.ts)\<close>

definition generateOrderbook :: "string \<Rightarrow> world \<Rightarrow> Orderbook \<times> world" where
  "generateOrderbook symb w =
     (let (r, w1) = Math_random w;
          basePrice = 45000 + (r - 1 / 2) * 10000;
          spread = basePrice * (2 / 10000);
          (bids0, w2) = Array_from 20
             (\<lambda>i v. let (a, va) = Math_random v; (b, vb) = Math_random va in
                (\<lparr>price = toFixed 2 (Fin (basePrice - spread / 2 - (of_nat i + 1) * a * 50)),
                  quantity = toFixed 4 (Fin (b * 2 + 1 / 10))\<rparr>, vb)) w1;
          (asks0, w3) = Array_from 20
             (\<lambda>i v. let (a, va) = Math_random v; (b, vb) = Math_random va in
                (\<lparr>price = toFixed 2 (Fin (basePrice + spread / 2 + (of_nat i + 1) * a * 50)),
                  quantity = toFixed 4 (Fin (b * 2 + 1 / 10))\<rparr>, vb)) w2;
          (t, w4) = Date_now w3
      in (\<lparr>symbol = symb,
           bids = sort_by (\<lambda>a b. num_sub (parseFloat w (price b)) (parseFloat w (price a))) bids0,
           asks = sort_by (\<lambda>a b. num_sub (parseFloat w (price a)) (parseFloat w (price b))) asks0,
           lastUpdateId = Fin (of_int t)\<rparr>, w4))"

definition generate24hTicker :: "string \<Rightarrow> world \<Rightarrow> Ticker24h \<times> world" where
  "generate24hTicker symb w =
     (let (r1, w1) = Math_random w;
          basePrice = 45000 + (r1 - 1 / 2) * 10000;
          (r2, w2) = Math_random w1;
          volatility = r2 * (1 / 10);
          (r3, w3) = Math_random w2;
          change = (r3 - 1 / 2) * volatility * basePrice;
          (r4, w4) = Math_random w3;
          volume = r4 * 50000 + 10000;
          openPrice = basePrice - change;
          closePrice = basePrice;
          (r5, w5) = Math_random w4;
          highPrice = max openPrice closePrice * (1 + r5 * (5 / 100));
          (r6, w6) = Math_random w5;
          lowPrice = min openPrice closePrice * (1 - r6 * (5 / 100));
          (t1, w7) = Date_now w6;
          (t2, w8) = Date_now w7;
          (r7, w9) = Math_random w8
      in (\<lparr>t_symbol = symb,
           t_priceChange = toFixed 2 (Fin change),
           t_priceChangePercent = toFixed 2 (num_mul (num_div (Fin change) (Fin openPrice)) (Fin 100)),
           t_weightedAvgPrice = toFixed 2 (Fin ((openPrice + closePrice) / 2)),
           t_prevClosePrice = toFixed 2 (Fin openPrice),
           t_lastPrice = toFixed 2 (Fin closePrice),
           t_bidPrice = toFixed 2 (Fin (closePrice - 25)),
           t_askPrice = toFixed 2 (Fin (closePrice + 25)),
           t_openPrice = toFixed 2 (Fin openPrice),
           t_highPrice = toFixed 2 (Fin highPrice),
           t_lowPrice = toFixed 2 (Fin lowPrice),
           t_volume = toFixed 2 (Fin volume),
           t_quoteVolume = toFixed 2 (Fin (volume * closePrice)),
           t_openTime = Fin (of_int (t1 - 24 * 60 * 60 * 1000)),
           t_closeTime = Fin (of_int t2),
           t_count = Fin (of_int \<lfloor>r7 * 100000 + 50000\<rfloor>)\<rparr>, w9))"

text \<open>
  The candle generator keeps \<open>currentPrice\<close> across the calls of the mapping
  function: the state of \<open>Array_from\<close> is the pair of it and the environment.
\<close>

definition generateKlines ::
  "string \<Rightarrow> string \<Rightarrow> int \<Rightarrow> world \<Rightarrow> (error + Kline list) \<times> world"
where
  "generateKlines symb interval limit w =
     (let (now, w1) = Date_now w;
          intervalMs = 24 * 60 * 60 * 1000;
          (r1, w2) = Math_random w1;
          currentPrice0 = 45000 + (r1 - 1 / 2) * 10000;
          (r2, w3) = Math_random w2;
          trend = (r2 - 1 / 2) * (2 / 1000)
      in case array_length limit of
           Inl e \<Rightarrow> (Inl e, w3)
         | Inr n \<Rightarrow>
             (let (ks, (currentPrice, w4)) = Array_from n
                    (\<lambda>i (currentPrice, v).
                       let time = now - (limit - int i - 1) * intervalMs;
                           (a, v1) = Math_random v;
                           dailyChange = trend + (a - 1 / 2) * (3 / 100);
                           open = currentPrice;
                           close = open * (1 + dailyChange);
                           (b, v2) = Math_random v1;
                           volatility = b * (5 / 100);
                           high = max open close * (1 + volatility / 2);
                           low = min open close * (1 - volatility / 2);
                           (c, v3) = Math_random v2;
                           volume = c * 20000 + 5000;
                           (d, v4) = Math_random v3
                       in (\<lparr>k_openTime = Fin (of_int time),
                             k_open = toFixed 2 (Fin open),
                             k_high = toFixed 2 (Fin high),
                             k_low = toFixed 2 (Fin low),
                             k_close = toFixed 2 (Fin close),
                             k_volume = toFixed 2 (Fin volume),
                             k_closeTime = Fin (of_int (time + intervalMs - 1)),
                             k_quoteAssetVolume = toFixed 2 (Fin (volume * close)),
                             k_numberOfTrades = Fin (of_int \<lfloor>d * 5000 + 1000\<rfloor>),
                             k_takerBuyBaseAssetVolume = toFixed 2 (Fin (volume * (55 / 100))),
                             k_takerBuyQuoteAssetVolume = toFixed 2 (Fin (volume * close * (55 / 100)))\<rparr>,
                           (close, v4)))
                    (currentPrice0, w3)
              in (Inr ks, w4)))"

section \<open>The aggregator: health records and the source selector\<close>

datatype APISource = Coinbase | Okx | Kucoin | Mock

record APIHealth =
  health_source :: APISource
  isHealthy :: bool
  lastChecked :: int
  responseTime :: "int option"
  errorCount :: nat
  consecutiveFailures :: nat

record RetryConfig =
  maxRetries :: nat
  baseDelay :: nat
  maxDelay :: nat

record APIManagerService =
  apiHealth :: "APISource \<rightharpoonup> APIHealth"
  preferredOrder :: "APISource list"
  currentSource :: APISource
  fallbackToMock :: bool
  retryConfig :: RetryConfig

definition new_health :: "APISource \<Rightarrow> APIHealth" where
  "new_health s =
     \<lparr>health_source = s, isHealthy = True, lastChecked = 0, responseTime = None,
      errorCount = 0, consecutiveFailures = 0\<rparr>"

definition constructor :: APIManagerService where
  "constructor =
     (let order = [Coinbase, Okx, Kucoin] in
      \<lparr>apiHealth = fold (\<lambda>s h. h(s \<mapsto> new_health s)) order Map.empty,
       preferredOrder = order,
       currentSource = Coinbase,
       fallbackToMock = False,
       retryConfig = \<lparr>maxRetries = 3, baseDelay = 1000, maxDelay = 10000\<rparr>\<rparr>)"

text \<open>The values of the health map; a \<open>Map\<close> holds at most one record per source.\<close>

definition health_values :: "APIManagerService \<Rightarrow> APIHealth list" where
  "health_values m = List.map_filter (apiHealth m) [Coinbase, Okx, Kucoin, Mock]"

definition checkAndEnableMockFallback :: "APIManagerService \<Rightarrow> APIManagerService" where
  "checkAndEnableMockFallback m =
     (let allUnhealthy =
            list_all (\<lambda>health. consecutiveFailures health \<ge> maxRetries (retryConfig m))
              (health_values m)
      in if allUnhealthy \<and> \<not> fallbackToMock m then m\<lparr>fallbackToMock := True\<rparr> else m)"

definition updateHealth ::
  "APISource \<Rightarrow> bool \<Rightarrow> int option \<Rightarrow> APIManagerService \<Rightarrow> world \<Rightarrow> APIManagerService \<times> world"
where
  "updateHealth src healthy rt m w =
     (case apiHealth m src of
        None \<Rightarrow> (m, w)
      | Some health \<Rightarrow>
          (let (t, w1) = Date_now w;
               health1 = health
                 \<lparr>isHealthy := healthy,
                  lastChecked := t,
                  responseTime := rt,
                  errorCount := (if healthy then 0 else errorCount health + 1),
                  consecutiveFailures := (if healthy then 0 else consecutiveFailures health + 1)\<rparr>;
               m1 = m\<lparr>apiHealth := (apiHealth m)(src \<mapsto> health1)\<rparr>
           in if consecutiveFailures health1 \<ge> maxRetries (retryConfig m1)
              then (checkAndEnableMockFallback m1, w1)
              else (m1, w1)))"

definition getCurrentSource :: "APIManagerService \<Rightarrow> APISource" where
  "getCurrentSource m = currentSource m"

definition getIsMockMode :: "APIManagerService \<Rightarrow> bool" where
  "getIsMockMode m = fallbackToMock m"

definition switchToAPI :: "APISource \<Rightarrow> APIManagerService \<Rightarrow> bool \<times> APIManagerService" where
  "switchToAPI src m =
     (if src \<in> set (preferredOrder m) then (True, m\<lparr>currentSource := src\<rparr>) else (False, m))"

definition forceSwitch :: "APISource \<Rightarrow> APIManagerService \<Rightarrow> APIManagerService" where
  "forceSwitch src m = m\<lparr>currentSource := src, fallbackToMock := False\<rparr>"

definition enableMockMode :: "APIManagerService \<Rightarrow> APIManagerService" where
  "enableMockMode m = m\<lparr>fallbackToMock := True\<rparr>"

definition disableMockMode :: "APIManagerService \<Rightarrow> APIManagerService" where
  "disableMockMode m = m\<lparr>fallbackToMock := False\<rparr>"

section \<open>The aggregator: data calls (api-manager.ts)\<close>

text \<open>
  An adapter is the object behind \<open>coinbaseAPI\<close>, \<open>okxAPI\<close> and \<open>kucoinAPI\<close>: three
  operations that read and change the environment and return a value or throw.
  The aggregator reaches its adapters through its imports, which are a parameter here.
\<close>

record adapter =
  ad_getOrderbook :: "string \<Rightarrow> int \<Rightarrow> world \<Rightarrow> (error + Orderbook) \<times> world"
  ad_get24hTicker :: "string \<Rightarrow> world \<Rightarrow> (error + Ticker24h) \<times> world"
  ad_getKlines :: "string \<Rightarrow> string \<Rightarrow> int \<Rightarrow> world \<Rightarrow> (error + Kline list) \<times> world"

record adapters =
  coinbase_api :: adapter
  okx_api :: adapter
  kucoin_api :: adapter

record 'a sourced =
  payload :: 'a
  source :: APISource

definition getAPIService :: "adapters \<Rightarrow> APISource \<Rightarrow> adapter" where
  "getAPIService A src =
     (case src of Coinbase \<Rightarrow> coinbase_api A | Okx \<Rightarrow> okx_api A | Kucoin \<Rightarrow> kucoin_api A
      | Mock \<Rightarrow> kucoin_api A)"

text \<open>Starting an adapter operation, counted in \<open>adapter_calls\<close>.\<close>

definition call_adapter :: "(world \<Rightarrow> (error + 'a) \<times> world) \<Rightarrow> world \<Rightarrow> (error + 'a) \<times> world" where
  "call_adapter operation w =
     (let (r, w1) = operation w in (r, w1\<lparr>adapter_calls := Suc (adapter_calls w1)\<rparr>))"

function retry_loop ::
  "(world \<Rightarrow> (error + 'a) \<times> world) \<Rightarrow> APISource \<Rightarrow> nat \<Rightarrow> APIManagerService \<Rightarrow> world
     \<Rightarrow> (error + 'a) \<times> APIManagerService \<times> world"
where
  "retry_loop operation src attempt m w =
     (if attempt < maxRetries (retryConfig m) then
        (case call_adapter operation w of
           (Inr result, w1) \<Rightarrow>
             (let (m2, w2) = updateHealth src True None m w1 in (Inr result, m2, w2))
         | (Inl err, w1) \<Rightarrow>
             (let (m2, w2) = updateHealth src False None m w1 in
              if int attempt = int (maxRetries (retryConfig m2)) - 1 then (Inl err, m2, w2)
              else
                (let delay = min (baseDelay (retryConfig m2) * 2 ^ attempt) (maxDelay (retryConfig m2))
                 in retry_loop operation src (attempt + 1) m2 (setTimeout delay w2))))
      else (Inl MaxRetriesExceeded, m, w))"
  by pat_completeness auto
termination
  by (relation "measure (\<lambda>(operation, src, attempt, m, w). maxRetries (retryConfig m) - attempt)")
     (auto simp: updateHealth_def checkAndEnableMockFallback_def Let_def
           split: option.splits prod.splits if_splits)

definition retryWithExponentialBackoff ::
  "(world \<Rightarrow> (error + 'a) \<times> world) \<Rightarrow> APISource \<Rightarrow> APIManagerService \<Rightarrow> world
     \<Rightarrow> (error + 'a) \<times> APIManagerService \<times> world"
where
  "retryWithExponentialBackoff operation src m w =
     (case apiHealth m src of
        None \<Rightarrow> (Inl NoHealthInfo, m, w)
      | Some health \<Rightarrow> retry_loop operation src 0 m w)"

definition getAPIForSource ::
  "adapters \<Rightarrow> APISource \<Rightarrow> APIManagerService \<Rightarrow> APIManagerService \<times> adapter \<times> APISource"
where
  "getAPIForSource A src m = (m\<lparr>currentSource := src\<rparr>, getAPIService A src, src)"

definition healthCheck ::
  "adapters \<Rightarrow> APISource \<Rightarrow> APIManagerService \<Rightarrow> world \<Rightarrow> bool \<times> APIManagerService \<times> world"
where
  "healthCheck A src m w =
     (let (startTime, w1) = Date_now w;
          api = getAPIService A src
      in case call_adapter (ad_get24hTicker api ''BTCUSDT'') w1 of
           (Inr ticker, w2) \<Rightarrow>
             (let (endTime, w3) = Date_now w2;
                  (m1, w4) = updateHealth src True (Some (endTime - startTime)) m w3
              in (True, m1, w4))
         | (Inl err, w2) \<Rightarrow>
             (let (m1, w3) = updateHealth src False None m w2 in (False, m1, w3)))"

definition testConnection ::
  "adapters \<Rightarrow> APISource \<Rightarrow> APIManagerService \<Rightarrow> world \<Rightarrow> bool \<times> APIManagerService \<times> world"
where
  "testConnection A src m w = healthCheck A src m w"

definition getOrderbook ::
  "adapters \<Rightarrow> string \<Rightarrow> int \<Rightarrow> APIManagerService \<Rightarrow> world
     \<Rightarrow> (error + Orderbook sourced) \<times> APIManagerService \<times> world"
where
  "getOrderbook A symb limit m w =
     (if fallbackToMock m then
        (let (orderbook, w1) = generateOrderbook symb w in
         (Inr \<lparr>payload = \<lparr>symbol = symbol orderbook, bids = bids orderbook, asks = asks orderbook,
                           lastUpdateId = lastUpdateId orderbook\<rparr>, source = Mock\<rparr>, m, w1))
      else
        (let (m1, api, src) = getAPIForSource A (currentSource m) m in
         case retryWithExponentialBackoff (ad_getOrderbook api symb limit) src m1 w of
           (Inr orderbook, m2, w2) \<Rightarrow>
             (Inr \<lparr>payload = \<lparr>symbol = symbol orderbook, bids = bids orderbook, asks = asks orderbook,
                               lastUpdateId = lastUpdateId orderbook\<rparr>, source = src\<rparr>, m2, w2)
         | (Inl err, m2, w2) \<Rightarrow>
             (let (orderbook, w3) = generateOrderbook symb w2 in
              (Inr \<lparr>payload = \<lparr>symbol = symbol orderbook, bids = bids orderbook,
                                asks = asks orderbook, lastUpdateId = lastUpdateId orderbook\<rparr>,
                     source = Mock\<rparr>, m2, w3))))"

definition get24hTicker ::
  "adapters \<Rightarrow> string \<Rightarrow> APIManagerService \<Rightarrow> world
     \<Rightarrow> (error + Ticker24h sourced) \<times> APIManagerService \<times> world"
where
  "get24hTicker A symb m w =
     (if fallbackToMock m then
        (let (ticker, w1) = generate24hTicker symb w in
         (Inr \<lparr>payload = ticker, source = Mock\<rparr>, m, w1))
      else
        (let (m1, api, src) = getAPIForSource A (currentSource m) m in
         case retryWithExponentialBackoff (ad_get24hTicker api symb) src m1 w of
           (Inr ticker, m2, w2) \<Rightarrow> (Inr \<lparr>payload = ticker, source = src\<rparr>, m2, w2)
         | (Inl err, m2, w2) \<Rightarrow>
             (let (ticker, w3) = generate24hTicker symb w2 in
              (Inr \<lparr>payload = ticker, source = Mock\<rparr>, m2, w3))))"

text \<open>
  In \<open>getKlines\<close> the synthetic generator is called outside any \<open>try\<close> (in mock mode)
  or inside the \<open>catch\<close> block: what it throws rejects the call.
\<close>

definition getKlines ::
  "adapters \<Rightarrow> string \<Rightarrow> string \<Rightarrow> int \<Rightarrow> APIManagerService \<Rightarrow> world
     \<Rightarrow> (error + Kline list sourced) \<times> APIManagerService \<times> world"
where
  "getKlines A symb interval limit m w =
     (if fallbackToMock m then
        (case generateKlines symb interval limit w of
           (Inr klines, w1) \<Rightarrow> (Inr \<lparr>payload = klines, source = Mock\<rparr>, m, w1)
         | (Inl err, w1) \<Rightarrow> (Inl err, m, w1))
      else
        (let (m1, api, src) = getAPIForSource A (currentSource m) m in
         case retryWithExponentialBackoff (ad_getKlines api symb interval limit) src m1 w of
           (Inr klines, m2, w2) \<Rightarrow> (Inr \<lparr>payload = klines, source = src\<rparr>, m2, w2)
         | (Inl err, m2, w2) \<Rightarrow>
             (case generateKlines symb interval limit w2 of
                (Inr klines, w3) \<Rightarrow> (Inr \<lparr>payload = klines, source = Mock\<rparr>, m2, w3)
              | (Inl err2, w3) \<Rightarrow> (Inl err2, m2, w3))))"

section \<open>Predicates and fixtures used by the theorems\<close>

definition updated_health :: "bool \<Rightarrow> int option \<Rightarrow> int \<Rightarrow> APIHealth \<Rightarrow> APIHealth" where
  "updated_health healthy rt t h =
     h\<lparr>isHealthy := healthy, lastChecked := t, responseTime := rt,
       errorCount := (if healthy then 0 else errorCount h + 1),
       consecutiveFailures := (if healthy then 0 else consecutiveFailures h + 1)\<rparr>"

definition after_call :: "(world \<Rightarrow> (error + 'a) \<times> world) \<Rightarrow> world \<Rightarrow> world" where
  "after_call operation w =
     (snd (operation w))\<lparr>adapter_calls := Suc (adapter_calls (snd (operation w)))\<rparr>"

definition backoff :: "RetryConfig \<Rightarrow> nat \<Rightarrow> nat" where
  "backoff c attempt = min (baseDelay c * 2 ^ attempt) (maxDelay c)"

definition leaves_instruments :: "(world \<Rightarrow> (error + 'a) \<times> world) \<Rightarrow> bool" where
  "leaves_instruments operation =
     (\<forall>v. adapter_calls (snd (operation v)) = adapter_calls v \<and>
          timeouts (snd (operation v)) = timeouts v)"

definition field_is_string :: "field \<Rightarrow> bool" where
  "field_is_string f = (case f of Formatted n \<Rightarrow> True | Raw (JStr s) \<Rightarrow> True | Raw _ \<Rightarrow> False)"

definition entry_conforms :: "OrderbookEntry \<Rightarrow> bool" where
  "entry_conforms e = (field_is_string (price e) \<and> field_is_string (quantity e))"

definition orderbook_conforms :: "Orderbook \<Rightarrow> bool" where
  "orderbook_conforms ob = (list_all entry_conforms (bids ob) \<and> list_all entry_conforms (asks ob))"

definition ticker_conforms :: "Ticker24h \<Rightarrow> bool" where
  "ticker_conforms t =
     (field_is_string (t_priceChange t) \<and> field_is_string (t_priceChangePercent t) \<and>
      field_is_string (t_weightedAvgPrice t) \<and> field_is_string (t_prevClosePrice t) \<and>
      field_is_string (t_lastPrice t) \<and> field_is_string (t_bidPrice t) \<and>
      field_is_string (t_askPrice t) \<and> field_is_string (t_openPrice t) \<and>
      field_is_string (t_highPrice t) \<and> field_is_string (t_lowPrice t) \<and>
      field_is_string (t_volume t) \<and> field_is_string (t_quoteVolume t))"

definition kline_conforms :: "Kline \<Rightarrow> bool" where
  "kline_conforms k =
     (field_is_string (k_open k) \<and> field_is_string (k_high k) \<and> field_is_string (k_low k) \<and>
      field_is_string (k_close k) \<and> field_is_string (k_volume k) \<and>
      field_is_string (k_quoteAssetVolume k) \<and> field_is_string (k_takerBuyBaseAssetVolume k) \<and>
      field_is_string (k_takerBuyQuoteAssetVolume k))"

definition quiet :: "world \<Rightarrow> world \<Rightarrow> bool" where
  "quiet w w' = (adapter_calls w' = adapter_calls w \<and> network_used w' = network_used w \<and>
                 timeouts w' = timeouts w)"

definition always_throws :: "(world \<Rightarrow> (error + 'a) \<times> world) \<Rightarrow> bool" where
  "always_throws operation = (\<forall>v. \<exists>e. fst (operation v) = Inl e)"

definition fails_then_succeeds ::
  "(world \<Rightarrow> (error + 'a) \<times> world) \<Rightarrow> nat \<Rightarrow> nat \<Rightarrow> 'a \<Rightarrow> bool" where
  "fails_then_succeeds operation c k r =
     (leaves_instruments operation \<and>
      (\<forall>v. adapter_calls v < c + k \<longrightarrow> (\<exists>e. fst (operation v) = Inl e)) \<and>
      (\<forall>v. adapter_calls v = c + k \<longrightarrow> fst (operation v) = Inr r))"

definition world0 :: world where
  "world0 =
     \<lparr>random = (\<lambda>i. 0), random_used = 0, clock = (\<lambda>i. 1700000000000 + int i), clock_used = 0,
      network = (\<lambda>i. NetworkFailure), network_used = 0, timeouts = [], adapter_calls = 0,
      js_parseInt = (\<lambda>v. NaN), js_parseFloat = (\<lambda>v. NaN), js_Number = (\<lambda>v. NaN),
      js_String = (\<lambda>v. [])\<rparr>"

definition scripted :: "(nat \<Rightarrow> error + 'a) \<Rightarrow> world \<Rightarrow> (error + 'a) \<times> world" where
  "scripted script w = (script (adapter_calls w), w)"

definition scripted_adapter ::
  "(nat \<Rightarrow> error + Orderbook) \<Rightarrow> (nat \<Rightarrow> error + Ticker24h) \<Rightarrow> (nat \<Rightarrow> error + Kline list)
     \<Rightarrow> adapter" where
  "scripted_adapter so st sk =
     \<lparr>ad_getOrderbook = (\<lambda>symb limit. scripted so),
      ad_get24hTicker = (\<lambda>symb. scripted st),
      ad_getKlines = (\<lambda>symb interval limit. scripted sk)\<rparr>"

definition failing_adapter :: adapter where
  "failing_adapter =
     scripted_adapter (\<lambda>i. Inl NetworkError) (\<lambda>i. Inl NetworkError) (\<lambda>i. Inl NetworkError)"

definition failing_adapters :: adapters where
  "failing_adapters =
     \<lparr>coinbase_api = failing_adapter, okx_api = failing_adapter, kucoin_api = failing_adapter\<rparr>"

definition sample_orderbook :: Orderbook where
  "sample_orderbook =
     \<lparr>symbol = ''BTCUSDT'',
      bids = [\<lparr>price = Raw (JStr ''64999.5''), quantity = Raw (JStr ''0.25'')\<rparr>],
      asks = [\<lparr>price = Raw (JStr ''65000.5''), quantity = Raw (JStr ''0.40'')\<rparr>],
      lastUpdateId = Fin 7\<rparr>"

definition sample_ticker :: Ticker24h where
  "sample_ticker =
     \<lparr>t_symbol = ''BTCUSDT'', t_priceChange = Raw (JStr ''10''),
      t_priceChangePercent = Raw (JStr ''0.02''), t_weightedAvgPrice = Raw (JStr ''65000''),
      t_prevClosePrice = Raw (JStr ''64990''), t_lastPrice = Raw (JStr ''65000''),
      t_bidPrice = Raw (JStr ''64999.5''), t_askPrice = Raw (JStr ''65000.5''),
      t_openPrice = Raw (JStr ''64990''), t_highPrice = Raw (JStr ''65100''),
      t_lowPrice = Raw (JStr ''64900''), t_volume = Raw (JStr ''12''),
      t_quoteVolume = Raw (JStr ''780000''), t_openTime = Fin 1, t_closeTime = Fin 2,
      t_count = Fin 0\<rparr>"

definition flaky_adapter :: "nat \<Rightarrow> adapter" where
  "flaky_adapter k =
     scripted_adapter (\<lambda>i. if i < k then Inl NetworkError else Inr sample_orderbook)
       (\<lambda>i. if i < k then Inl NetworkError else Inr sample_ticker)
       (\<lambda>i. if i < k then Inl NetworkError else Inr [])"

definition flaky_adapters :: "nat \<Rightarrow> adapters" where
  "flaky_adapters k =
     \<lparr>coinbase_api = flaky_adapter k, okx_api = flaky_adapter k, kucoin_api = flaky_adapter k\<rparr>"

definition exhausted_but :: "APISource \<Rightarrow> APIManagerService" where
  "exhausted_but src =
     constructor\<lparr>apiHealth :=
       (\<lambda>s. if s = Mock then None
            else Some ((new_health s)\<lparr>isHealthy := (s = src), errorCount := (if s = src then 2 else 3),
                         consecutiveFailures := (if s = src then 2 else 3)\<rparr>))\<rparr>"

definition after_failures :: "APIManagerService" where
  "after_failures =
     fst (updateHealth Okx False None (fst (updateHealth Okx False None constructor world0)) world0)"

section \<open>The streaming channel (enhanced-websocket.ts, websocket.ts)\<close>

text \<open>
  A callback is known by its identity; what it does when it is invoked with a datum
  is to return or to throw (\<open>throws_on\<close>), and every invocation is recorded in
  \<open>invoked\<close>. A \<open>Set\<close> of callbacks is the list of its members in insertion order, which
  is the order \<open>forEach\<close> visits them in. Callbacks that subscribe or unsubscribe while a
  datum is being delivered are not modelled. \<open>subscribe\<close> and the closure it returns
  are the same code in \<open>EnhancedWebSocketService\<close> and \<open>WebSocketService\<close>.
\<close>

type_synonym callback = nat

record 'd hub =
  subscribers :: "string \<rightharpoonup> callback list"
  throws_on :: "callback \<Rightarrow> 'd \<Rightarrow> bool"
  invoked :: "(callback \<times> 'd) list"

definition Set_add :: "'a \<Rightarrow> 'a list \<Rightarrow> 'a list" where
  "Set_add x xs = (if x \<in> set xs then xs else xs @ [x])"

definition Set_delete :: "'a \<Rightarrow> 'a list \<Rightarrow> 'a list" where
  "Set_delete x xs = removeAll x xs"

definition unsubscribe :: "string \<Rightarrow> callback \<Rightarrow> 'd hub \<Rightarrow> 'd hub" where
  "unsubscribe channel callback h =
     (case subscribers h channel of
        None \<Rightarrow> h
      | Some channelSubscribers \<Rightarrow>
          (let remaining = Set_delete callback channelSubscribers in
           if length remaining = 0 then h\<lparr>subscribers := (subscribers h)(channel := None)\<rparr>
           else h\<lparr>subscribers := (subscribers h)(channel \<mapsto> remaining)\<rparr>))"

definition subscribe :: "string \<Rightarrow> callback \<Rightarrow> 'd hub \<Rightarrow> ('d hub \<Rightarrow> 'd hub) \<times> 'd hub" where
  "subscribe channel callback h =
     (let subs = (if subscribers h channel = None then (subscribers h)(channel \<mapsto> [])
                  else subscribers h);
          subs1 = (case subs channel of
                     None \<Rightarrow> subs
                   | Some channelSubscribers \<Rightarrow> subs(channel \<mapsto> Set_add callback channelSubscribers))
      in (unsubscribe channel callback, h\<lparr>subscribers := subs1\<rparr>))"

definition call :: "callback \<Rightarrow> 'd \<Rightarrow> 'd hub \<Rightarrow> (error + unit) \<times> 'd hub" where
  "call callback d h =
     (if throws_on h callback d then Inl (Failure ''subscriber'') else Inr (),
      h\<lparr>invoked := invoked h @ [(callback, d)]\<rparr>)"

fun forEach_isolated :: "callback list \<Rightarrow> 'd \<Rightarrow> 'd hub \<Rightarrow> 'd hub" where
  "forEach_isolated [] d h = h"
| "forEach_isolated (callback # rest) d h =
     (case call callback d h of
        (Inr u, h1) \<Rightarrow> forEach_isolated rest d h1
      | (Inl err, h1) \<Rightarrow> forEach_isolated rest d h1)"

text \<open>
  \<open>EnhancedWebSocketService.notifySubscribers\<close> wraps every invocation in \<open>try/catch\<close>
  (the error is written to the console); \<open>WebSocketService.notifySubscribers\<close> does
  not, so what a callback throws leaves \<open>forEach\<close>.
\<close>

definition Enhanced_notifySubscribers :: "string \<Rightarrow> 'd \<Rightarrow> 'd hub \<Rightarrow> 'd hub" where
  "Enhanced_notifySubscribers channel d h =
     (case subscribers h channel of
        None \<Rightarrow> h
      | Some channelSubscribers \<Rightarrow> forEach_isolated channelSubscribers d h)"

fun forEach_plain :: "callback list \<Rightarrow> 'd \<Rightarrow> 'd hub \<Rightarrow> (error + unit) \<times> 'd hub" where
  "forEach_plain [] d h = (Inr (), h)"
| "forEach_plain (callback # rest) d h =
     (case call callback d h of
        (Inr u, h1) \<Rightarrow> forEach_plain rest d h1
      | (Inl err, h1) \<Rightarrow> (Inl err, h1))"

definition WebSocketService_notifySubscribers ::
  "string \<Rightarrow> 'd \<Rightarrow> 'd hub \<Rightarrow> (error + unit) \<times> 'd hub" where
  "WebSocketService_notifySubscribers channel d h =
     (case subscribers h channel of
        None \<Rightarrow> (Inr (), h)
      | Some callbacks \<Rightarrow> forEach_plain callbacks d h)"

definition channel_subscribers :: "'d hub \<Rightarrow> string \<Rightarrow> callback list" where
  "channel_subscribers h channel = (case subscribers h channel of None \<Rightarrow> [] | Some cs \<Rightarrow> cs)"

definition hub_sets :: "'d hub \<Rightarrow> bool" where
  "hub_sets h = (\<forall>channel cs. subscribers h channel = Some cs \<longrightarrow> distinct cs)"

definition new_hub :: "(callback \<Rightarrow> 'd \<Rightarrow> bool) \<Rightarrow> 'd hub" where
  "new_hub behaviour = \<lparr>subscribers = Map.empty, throws_on = behaviour, invoked = []\<rparr>"

text \<open>The callbacks a \<open>forEach\<close> without \<open>try/catch\<close> reaches: up to the first that throws.\<close>

fun reached :: "(callback \<Rightarrow> 'd \<Rightarrow> bool) \<Rightarrow> 'd \<Rightarrow> callback list \<Rightarrow> callback list" where
  "reached t d [] = []"
| "reached t d (c # cs) = c # (if t c d then [] else reached t d cs)"

section \<open>Predicates on generated order books\<close>

text \<open>\<open>Math.random\<close> returns a number in \<open>[0, 1)\<close>.\<close>

definition draws_in_range :: "world \<Rightarrow> bool" where
  "draws_in_range w = (\<forall>i. 0 \<le> random w i \<and> random w i < 1)"

text \<open>JavaScript's \<open><\<close> and \<open><=\<close> on numbers: false whenever \<open>NaN\<close> takes part.\<close>

fun num_less :: "number \<Rightarrow> number \<Rightarrow> bool" where
  "num_less (Fin a) (Fin b) = (a < b)"
| "num_less NaN _ = False"
| "num_less _ NaN = False"
| "num_less NegInf b = (b \<noteq> NegInf)"
| "num_less a PosInf = (a \<noteq> PosInf)"
| "num_less _ _ = False"

definition num_le :: "number \<Rightarrow> number \<Rightarrow> bool" where
  "num_le a b = (num_less a b \<or> (a = b \<and> a \<noteq> NaN))"

text \<open>The number a price formatted by \<open>toFixed\<close> denotes.\<close>

definition decimal :: "OrderbookEntry \<Rightarrow> rat" where
  "decimal e = (case price e of Formatted (Fin p) \<Rightarrow> p | _ \<Rightarrow> 0)"

section \<open>Reading a parsed response\<close>

text \<open>
  Reading a property of \<open>undefined\<close> or \<open>null\<close> raises a TypeError; of any other value
  it gives the property's value, or \<open>undefined\<close>. The names read here are data
  properties of the response (none is a built-in property of strings or arrays); where
  a key occurs twice in a JSON object the last value counts. An element \<open>v[i]\<close> of a
  string is its i-th character.
\<close>

definition nullish :: "jsval \<Rightarrow> bool" where
  "nullish v = (v = JUndefined \<or> v = JNull)"

definition read :: "jsval \<Rightarrow> string \<Rightarrow> jsval" where
  "read v k =
     (case v of
        JObj kvs \<Rightarrow> (case map_of (rev kvs) k of Some x \<Rightarrow> x | None \<Rightarrow> JUndefined)
      | _ \<Rightarrow> JUndefined)"

definition get_prop :: "jsval \<Rightarrow> string \<Rightarrow> error + jsval" where
  "get_prop v k = (if nullish v then Inl TypeError else Inr (read v k))"

fun index_key :: "nat \<Rightarrow> string" where
  "index_key i =
     (if i < 10 then [char_of (48 + i)] else index_key (i div 10) @ [char_of (48 + i mod 10)])"

definition read_index :: "jsval \<Rightarrow> nat \<Rightarrow> jsval" where
  "read_index v i =
     (case v of
        JArr xs \<Rightarrow> (if i < length xs then xs ! i else JUndefined)
      | JStr s \<Rightarrow> (if i < length s then JStr [s ! i] else JUndefined)
      | JObj kvs \<Rightarrow> read v (index_key i)
      | _ \<Rightarrow> JUndefined)"

definition get_index :: "jsval \<Rightarrow> nat \<Rightarrow> error + jsval" where
  "get_index v i = (if nullish v then Inl TypeError else Inr (read_index v i))"

text \<open>\<open>!v\<close> is false exactly on the truthy values.\<close>

definition truthy :: "jsval \<Rightarrow> bool" where
  "truthy v =
     (case v of
        JUndefined \<Rightarrow> False | JNull \<Rightarrow> False | JBool b \<Rightarrow> b
      | JNum n \<Rightarrow> (n \<noteq> Fin 0 \<and> n \<noteq> NaN) | JStr s \<Rightarrow> (s \<noteq> [])
      | JArr xs \<Rightarrow> True | JObj kvs \<Rightarrow> True)"

text \<open>
  \<open>v.map\<close> and \<open>v.reverse\<close> are functions only when \<open>v\<close> is an array; calling them on
  anything else raises a TypeError.
\<close>

definition as_array :: "jsval \<Rightarrow> error + jsval list" where
  "as_array v = (case v of JArr xs \<Rightarrow> Inr xs | _ \<Rightarrow> Inl TypeError)"

fun map_throwing :: "('a \<Rightarrow> error + 'b) \<Rightarrow> 'a list \<Rightarrow> error + 'b list" where
  "map_throwing f [] = Inr []"
| "map_throwing f (x # xs) =
     (case f x of
        Inl e \<Rightarrow> Inl e
      | Inr y \<Rightarrow> (case map_throwing f xs of Inl e \<Rightarrow> Inl e | Inr ys \<Rightarrow> Inr (y # ys)))"

text \<open>
  The arrow function \<open>([price, quantity]) => ({ price, quantity })\<close>: its parameter
  must be iterable (an array or a string), missing elements are \<open>undefined\<close>.
\<close>

definition entry_of :: "jsval \<Rightarrow> error + OrderbookEntry" where
  "entry_of v =
     (case v of
        JArr xs \<Rightarrow> Inr \<lparr>price = Raw (read_index v 0), quantity = Raw (read_index v 1)\<rparr>
      | JStr s \<Rightarrow> Inr \<lparr>price = Raw (read_index v 0), quantity = Raw (read_index v 1)\<rparr>
      | _ \<Rightarrow> Inl TypeError)"

definition entries_of :: "jsval \<Rightarrow> error + OrderbookEntry list" where
  "entries_of v = (case as_array v of Inl e \<Rightarrow> Inl e | Inr xs \<Rightarrow> map_throwing entry_of xs)"

text \<open>
  \<open>fetch\<close>, the test of \<open>response.ok\<close> (a status from 200 to 299) and
  \<open>response.json()\<close>, as every adapter operation starts. The URL is not modelled: the
  network answers as the environment says.
\<close>

definition response_ok :: "nat \<Rightarrow> bool" where
  "response_ok status = (200 \<le> status \<and> status \<le> 299)"

definition fetch_json :: "world \<Rightarrow> (error + jsval) \<times> world" where
  "fetch_json w =
     (let (response, w1) = fetch w in
      case response of
        NetworkFailure \<Rightarrow> (Inl NetworkError, w1)
      | Response status body \<Rightarrow>
          (if \<not> response_ok status then (Inl (HttpError status), w1)
           else case body of None \<Rightarrow> (Inl SyntaxError, w1) | Some v \<Rightarrow> (Inr v, w1)))"

text \<open>\<open>try { body } catch (error) { return handler }\<close> around an operation.\<close>

definition try_catch ::
  "(world \<Rightarrow> (error + 'a) \<times> world) \<Rightarrow> (world \<Rightarrow> (error + 'a) \<times> world) \<Rightarrow> world
     \<Rightarrow> (error + 'a) \<times> world" where
  "try_catch body handler w =
     (case body w of (Inr v, w1) \<Rightarrow> (Inr v, w1) | (Inl err, w1) \<Rightarrow> handler w1)"

definition returning :: "(world \<Rightarrow> 'a \<times> world) \<Rightarrow> world \<Rightarrow> (error + 'a) \<times> world" where
  "returning g w = (let (v, w1) = g w in (Inr v, w1))"

text \<open>
  Converting a parsed value to a string or to a number, as \<open>parseInt\<close>, \<open>parseFloat\<close>,
  \<open>*\<close>, \<open>+\<close> and \<open>toString()\<close> do, raises a TypeError on an object that has an own
  property \<open>toString\<close> (in parsed JSON it is never a function) and on an array that
  holds such an object; every other parsed value converts.
\<close>

fun convertible :: "jsval \<Rightarrow> bool" where
  "convertible (JArr xs) = (\<forall>x \<in> set xs. convertible x)"
| "convertible (JObj kvs) = (''toString'' \<notin> fst ` set kvs)"
| "convertible v = True"

text \<open>
  On convertible values: the primitive value of an array is its printed form, of an
  object the string \<open>[object Object]\<close>; \<open>undefined\<close> is the number \<open>NaN\<close>, \<open>null\<close> is 0,
  \<open>true\<close> is 1, and a string is the number the runtime reads in it.
\<close>

definition ToPrimitive :: "world \<Rightarrow> jsval \<Rightarrow> jsval" where
  "ToPrimitive w v =
     (case v of
        JArr xs \<Rightarrow> JStr (js_String w v)
      | JObj kvs \<Rightarrow> JStr ''[object Object]''
      | _ \<Rightarrow> v)"

definition ToNumber :: "world \<Rightarrow> jsval \<Rightarrow> number" where
  "ToNumber w v =
     (case ToPrimitive w v of
        JUndefined \<Rightarrow> NaN
      | JNull \<Rightarrow> Fin 0
      | JBool b \<Rightarrow> Fin (if b then 1 else 0)
      | JNum n \<Rightarrow> n
      | p \<Rightarrow> js_Number w p)"

text \<open>
  The method call \<open>v.toString()\<close>: a TypeError on \<open>undefined\<close> and \<open>null\<close>, on an object
  whose own property \<open>toString\<close> hides the method, and on an array that does not print.
\<close>

definition value_toString :: "world \<Rightarrow> jsval \<Rightarrow> error + field" where
  "value_toString w v =
     (if nullish v \<or> \<not> convertible v then Inl TypeError
      else Inr (case v of
                  JNum n \<Rightarrow> toString n
                | JBool b \<Rightarrow> Raw (JStr (if b then ''true'' else ''false''))
                | JObj kvs \<Rightarrow> Raw (JStr ''[object Object]'')
                | JArr xs \<Rightarrow> Raw (JStr (js_String w v))
                | _ \<Rightarrow> Raw v))"


section \<open>The KuCoin adapter (kucoin-api.ts)\<close>

definition endsWith :: "string \<Rightarrow> string \<Rightarrow> bool" where
  "endsWith s q = (length q \<le> length s \<and> drop (length s - length q) s = q)"

definition KuCoin_formatSymbol :: "string \<Rightarrow> string" where
  "KuCoin_formatSymbol s =
     (if CHR ''-'' \<in> set s then s
      else case find (endsWith s) [''USDT'', ''BTC'', ''ETH'', ''BNB'', ''USDC''] of
             Some quote \<Rightarrow> take (length s - length quote) s @ ''-'' @ quote
           | None \<Rightarrow>
               (if length s > 4 then take (length s - 4) s @ ''-'' @ drop (length s - 4) s
                else s))"

definition KuCoin_getMockOrderbook :: "string \<Rightarrow> world \<Rightarrow> Orderbook \<times> world" where
  "KuCoin_getMockOrderbook symb w =
     (let basePrice = 45000;
          (bids0, w1) = Array_from 10
             (\<lambda>i v. let (a, va) = Math_random v in
                (\<lparr>price = toString (Fin (basePrice - (of_nat i + 1) * 10)),
                  quantity = toFixed 4 (Fin (a * 5 + 1 / 10))\<rparr>, va)) w;
          (asks0, w2) = Array_from 10
             (\<lambda>i v. let (a, va) = Math_random v in
                (\<lparr>price = toString (Fin (basePrice + (of_nat i + 1) * 10)),
                  quantity = toFixed 4 (Fin (a * 5 + 1 / 10))\<rparr>, va)) w1;
          (t, w3) = Date_now w2
      in (\<lparr>symbol = symb, bids = bids0, asks = asks0, lastUpdateId = Fin (of_int t)\<rparr>, w3))"

definition KuCoin_getMock24hTicker :: "string \<Rightarrow> world \<Rightarrow> Ticker24h \<times> world" where
  "KuCoin_getMock24hTicker symb w =
     (let (r1, w1) = Math_random w;
          price = 45000 + (r1 - 1 / 2) * 1000;
          (r2, w2) = Math_random w1;
          change = (r2 - 1 / 2) * 5;
          (r3, w3) = Math_random w2;
          (r4, w4) = Math_random w3;
          (t1, w5) = Date_now w4;
          (t2, w6) = Date_now w5;
          (r5, w7) = Math_random w6
      in (\<lparr>t_symbol = symb,
           t_priceChange = toFixed 2 (Fin change),
           t_priceChangePercent = toFixed 2 (num_mul (num_div (Fin change) (Fin price)) (Fin 100)),
           t_weightedAvgPrice = toFixed 2 (Fin price),
           t_prevClosePrice = toFixed 2 (Fin (price - change)),
           t_lastPrice = toFixed 2 (Fin price),
           t_bidPrice = toFixed 2 (Fin (price - 5)),
           t_askPrice = toFixed 2 (Fin (price + 5)),
           t_openPrice = toFixed 2 (Fin (price - change)),
           t_highPrice = toFixed 2 (Fin (price + \<bar>change\<bar> * 2)),
           t_lowPrice = toFixed 2 (Fin (price - \<bar>change\<bar> * 2)),
           t_volume = toFixed 2 (Fin (r3 * 10000 + 1000)),
           t_quoteVolume = toFixed 2 (Fin (r4 * 500000000 + 100000000)),
           t_openTime = Fin (of_int (t1 - 24 * 60 * 60 * 1000)),
           t_closeTime = Fin (of_int t2),
           t_count = Fin (of_int \<lfloor>r5 * 100000 + 50000\<rfloor>)\<rparr>, w7))"

definition KuCoin_getMockKlines :: "int \<Rightarrow> world \<Rightarrow> (error + Kline list) \<times> world" where
  "KuCoin_getMockKlines limit w =
     (let (now, w1) = Date_now w in
      case array_length limit of
        Inl e \<Rightarrow> (Inl e, w1)
      | Inr n \<Rightarrow>
          (let (ks, w2) = Array_from n
                 (\<lambda>i v.
                    let time = now - (limit - int i - 1) * 24 * 60 * 60 * 1000;
                        (r1, v1) = Math_random v;
                        basePrice = 45000 + (r1 - 1 / 2) * 5000;
                        (r2, v2) = Math_random v1;
                        volatility = r2 * (5 / 100);
                        open = basePrice;
                        (r3, v3) = Math_random v2;
                        close = open * (1 + (r3 - 1 / 2) * volatility);
                        (r4, v4) = Math_random v3;
                        high = max open close * (1 + r4 * (2 / 100));
                        (r5, v5) = Math_random v4;
                        low = min open close * (1 - r5 * (2 / 100));
                        (r6, v6) = Math_random v5;
                        volume = r6 * 10000 + 1000;
                        (r7, v7) = Math_random v6
                    in (\<lparr>k_openTime = Fin (of_int time),
                          k_open = toFixed 2 (Fin open),
                          k_high = toFixed 2 (Fin high),
                          k_low = toFixed 2 (Fin low),
                          k_close = toFixed 2 (Fin close),
                          k_volume = toFixed 2 (Fin volume),
                          k_closeTime = Fin (of_int (time + 24 * 60 * 60 * 1000 - 1)),
                          k_quoteAssetVolume = toFixed 2 (Fin (volume * close)),
                          k_numberOfTrades = Fin (of_int \<lfloor>r7 * 10000 + 1000\<rfloor>),
                          k_takerBuyBaseAssetVolume = toFixed 2 (Fin (volume * (6 / 10))),
                          k_takerBuyQuoteAssetVolume = toFixed 2 (Fin (volume * close * (6 / 10)))\<rparr>,
                        v7)) w1
           in (Inr ks, w2)))"

text \<open>The \<open>try\<close> blocks of the three operations.\<close>

definition KuCoin_try_getOrderbook :: "string \<Rightarrow> world \<Rightarrow> (error + Orderbook) \<times> world" where
  "KuCoin_try_getOrderbook symb w =
     (let formattedSymbol = KuCoin_formatSymbol symb in
      case fetch_json w of
        (Inl e, w1) \<Rightarrow> (Inl e, w1)
      | (Inr result, w1) \<Rightarrow>
          (case get_prop result ''data'' of
             Inl e \<Rightarrow> (Inl e, w1)
           | Inr data \<Rightarrow>
               (if nullish data then (Inl TypeError, w1)
                else case entries_of (read data ''bids'') of
                  Inl e \<Rightarrow> (Inl e, w1)
                | Inr bs \<Rightarrow>
                    (case entries_of (read data ''asks'') of
                       Inl e \<Rightarrow> (Inl e, w1)
                     | Inr as \<Rightarrow>
                         (if \<not> convertible (read data ''sequence'') then (Inl TypeError, w1)
                          else
                            (Inr \<lparr>symbol = formattedSymbol, bids = bs, asks = as,
                                   lastUpdateId = js_parseInt w1 (read data ''sequence'')\<rparr>, w1))))))"

definition KuCoin_try_get24hTicker :: "string \<Rightarrow> world \<Rightarrow> (error + Ticker24h) \<times> world" where
  "KuCoin_try_get24hTicker symb w =
     (let formattedSymbol = KuCoin_formatSymbol symb in
      case fetch_json w of
        (Inl e, w1) \<Rightarrow> (Inl e, w1)
      | (Inr result, w1) \<Rightarrow>
          (case get_prop result ''data'' of
             Inl e \<Rightarrow> (Inl e, w1)
           | Inr data \<Rightarrow>
               (if nullish data then (Inl TypeError, w1)
                else if \<not> (convertible (read data ''changeRate'') \<and> convertible (read data ''last'') \<and>
                             convertible (read data ''changePrice'')) then (Inl TypeError, w1)
                else
                  (let (t1, w2) = Date_now w1;
                       (t2, w3) = Date_now w2
                   in (Inr \<lparr>t_symbol = formattedSymbol,
                         t_priceChange = Raw (read data ''changePrice''),
                         t_priceChangePercent =
                           toFixed 2 (num_mul (js_parseFloat w1 (read data ''changeRate'')) (Fin 100)),
                         t_weightedAvgPrice = Raw (read data ''averagePrice''),
                         t_prevClosePrice =
                           toFixed 2 (num_sub (js_parseFloat w1 (read data ''last''))
                                              (js_parseFloat w1 (read data ''changePrice''))),
                         t_lastPrice = Raw (read data ''last''),
                         t_bidPrice = Raw (read data ''buy''),
                         t_askPrice = Raw (read data ''sell''),
                         t_openPrice =
                           toFixed 2 (num_sub (js_parseFloat w1 (read data ''last''))
                                              (js_parseFloat w1 (read data ''changePrice''))),
                         t_highPrice = Raw (read data ''high''),
                         t_lowPrice = Raw (read data ''low''),
                         t_volume = Raw (read data ''vol''),
                         t_quoteVolume = Raw (read data ''volValue''),
                         t_openTime = Fin (of_int (t1 - 24 * 60 * 60 * 1000)),
                         t_closeTime = Fin (of_int t2),
                         t_count = Fin 0\<rparr>, w3)))))"

definition KuCoin_candle :: "world \<Rightarrow> jsval \<Rightarrow> error + Kline" where
  "KuCoin_candle w candle =
     (if nullish candle then Inl TypeError
      else if \<not> convertible (read_index candle 0) then Inl TypeError
      else Inr
        \<lparr>k_openTime = num_mul (js_parseInt w (read_index candle 0)) (Fin 1000),
         k_open = Raw (read_index candle 1),
         k_high = Raw (read_index candle 3),
         k_low = Raw (read_index candle 4),
         k_close = Raw (read_index candle 2),
         k_volume = Raw (read_index candle 5),
         k_closeTime =
           num_sub (num_mul (num_add (js_parseInt w (read_index candle 0)) (Fin 86400)) (Fin 1000))
                   (Fin 1),
         k_quoteAssetVolume = Raw (read_index candle 6),
         k_numberOfTrades = Fin 0,
         k_takerBuyBaseAssetVolume = Raw (JStr ''0''),
         k_takerBuyQuoteAssetVolume = Raw (JStr ''0'')\<rparr>)"

definition KuCoin_try_getKlines ::
  "string \<Rightarrow> string \<Rightarrow> int \<Rightarrow> world \<Rightarrow> (error + Kline list) \<times> world" where
  "KuCoin_try_getKlines symb interval limit w =
     (let formattedSymbol = KuCoin_formatSymbol symb;
          (now, w0) = Date_now w
      in case fetch_json w0 of
        (Inl e, w1) \<Rightarrow> (Inl e, w1)
      | (Inr result, w1) \<Rightarrow>
          (case get_prop result ''data'' of
             Inl e \<Rightarrow> (Inl e, w1)
           | Inr data \<Rightarrow>
               (case as_array data of
                  Inl e \<Rightarrow> (Inl e, w1)
                | Inr candles \<Rightarrow> (map_throwing (KuCoin_candle w1) (rev candles), w1))))"

definition KuCoin_getOrderbook :: "string \<Rightarrow> int \<Rightarrow> world \<Rightarrow> (error + Orderbook) \<times> world" where
  "KuCoin_getOrderbook symb limit =
     try_catch (KuCoin_try_getOrderbook symb) (returning (KuCoin_getMockOrderbook symb))"

definition KuCoin_get24hTicker :: "string \<Rightarrow> world \<Rightarrow> (error + Ticker24h) \<times> world" where
  "KuCoin_get24hTicker symb =
     try_catch (KuCoin_try_get24hTicker symb) (returning (KuCoin_getMock24hTicker symb))"

definition KuCoin_getKlines ::
  "string \<Rightarrow> string \<Rightarrow> int \<Rightarrow> world \<Rightarrow> (error + Kline list) \<times> world" where
  "KuCoin_getKlines symb interval limit =
     try_catch (KuCoin_try_getKlines symb interval limit) (KuCoin_getMockKlines limit)"


section \<open>The OKX adapter (okx-api.ts)\<close>

text \<open>
  \<open>formatSymbol\<close> only shapes the URL of the request, which is not modelled; the
  operations return the symbol they were given.
\<close>

definition OKX_getMockOrderbook :: "string \<Rightarrow> world \<Rightarrow> Orderbook \<times> world" where
  "OKX_getMockOrderbook symb w =
     (let basePrice = 65000;
          spread = 10;
          (bids0, w1) = Array_from 20
             (\<lambda>i v. let (a, va) = Math_random v in
                (\<lparr>price = toString (Fin (basePrice - spread - of_nat i * 5)),
                  quantity = toFixed 4 (Fin (a * 2))\<rparr>, va)) w;
          (asks0, w2) = Array_from 20
             (\<lambda>i v. let (a, va) = Math_random v in
                (\<lparr>price = toString (Fin (basePrice + spread + of_nat i * 5)),
                  quantity = toFixed 4 (Fin (a * 2))\<rparr>, va)) w1;
          (t, w3) = Date_now w2
      in (\<lparr>symbol = symb, bids = bids0, asks = asks0, lastUpdateId = Fin (of_int t)\<rparr>, w3))"

definition OKX_getMock24hTicker :: "string \<Rightarrow> world \<Rightarrow> Ticker24h \<times> world" where
  "OKX_getMock24hTicker symb w =
     (let (r1, w1) = Math_random w;
          lastPrice = 65000 + r1 * 1000;
          (r2, w2) = Math_random w1;
          openPrice = lastPrice * (98 / 100 + r2 * (4 / 100));
          (r3, w3) = Math_random w2;
          high = max lastPrice openPrice * (1 + r3 * (2 / 100));
          (r4, w4) = Math_random w3;
          low = min lastPrice openPrice * (1 - r4 * (2 / 100));
          (r5, w5) = Math_random w4;
          (r6, w6) = Math_random w5;
          (t1, w7) = Date_now w6;
          (t2, w8) = Date_now w7;
          (r7, w9) = Math_random w8
      in (\<lparr>t_symbol = symb,
           t_priceChange = toFixed 2 (Fin (lastPrice - openPrice)),
           t_priceChangePercent =
             toFixed 2 (num_mul (num_div (Fin (lastPrice - openPrice)) (Fin openPrice)) (Fin 100)),
           t_weightedAvgPrice = toFixed 2 (Fin ((lastPrice + openPrice) / 2)),
           t_prevClosePrice = toFixed 2 (Fin openPrice),
           t_lastPrice = toFixed 2 (Fin lastPrice),
           t_bidPrice = toFixed 2 (Fin (lastPrice - 5)),
           t_askPrice = toFixed 2 (Fin (lastPrice + 5)),
           t_openPrice = toFixed 2 (Fin openPrice),
           t_highPrice = toFixed 2 (Fin high),
           t_lowPrice = toFixed 2 (Fin low),
           t_volume = toFixed 2 (Fin (r5 * 1000)),
           t_quoteVolume = toFixed 2 (Fin (r6 * 50000000)),
           t_openTime = Fin (of_int (t1 - 24 * 60 * 60 * 1000)),
           t_closeTime = Fin (of_int t2),
           t_count = Fin (of_int \<lfloor>r7 * 10000\<rfloor>)\<rparr>, w9))"

definition OKX_getMockKlines :: "string \<Rightarrow> int \<Rightarrow> world \<Rightarrow> (error + Kline list) \<times> world" where
  "OKX_getMockKlines symb limit w =
     (let (now, w1) = Date_now w;
          dayMs = 24 * 60 * 60 * 1000;
          currentPrice0 = 65000
      in case array_length limit of
           Inl e \<Rightarrow> (Inl e, w1)
         | Inr n \<Rightarrow>
             (let (ks, (currentPrice, w2)) = Array_from n
                    (\<lambda>i (currentPrice, v).
                       let openTime = now - (limit - int i) * dayMs;
                           open = currentPrice;
                           (r1, v1) = Math_random v;
                           change = (r1 - 1 / 2) * (1 / 10);
                           close = open * (1 + change);
                           (r2, v2) = Math_random v1;
                           high = max open close * (1 + r2 * (5 / 100));
                           (r3, v3) = Math_random v2;
                           low = min open close * (1 - r3 * (5 / 100));
                           (r4, v4) = Math_random v3;
                           volume = r4 * 1000;
                           (r5, v5) = Math_random v4
                       in (\<lparr>k_openTime = Fin (of_int openTime),
                             k_open = toString (Fin open),
                             k_high = toString (Fin high),
                             k_low = toString (Fin low),
                             k_close = toString (Fin close),
                             k_volume = toString (Fin volume),
                             k_closeTime = Fin (of_int (openTime + dayMs)),
                             k_quoteAssetVolume = toString (Fin (volume * close)),
                             k_numberOfTrades = Fin (of_int \<lfloor>r5 * 1000\<rfloor>),
                             k_takerBuyBaseAssetVolume = toString (Fin (volume * (6 / 10))),
                             k_takerBuyQuoteAssetVolume = toString (Fin (volume * close * (6 / 10)))\<rparr>,
                           (close, v5)))
                    (currentPrice0, w1)
              in (Inr ks, w2)))"

text \<open>
  The check \<open>data.code !== '0' || !data.data[0]\<close> of the order book and the ticker,
  giving \<open>data.data[0]\<close>.
\<close>

definition OKX_first_item :: "jsval \<Rightarrow> error + jsval" where
  "OKX_first_item data =
     (case get_prop data ''code'' of
        Inl e \<Rightarrow> Inl e
      | Inr code \<Rightarrow>
          (if code \<noteq> JStr ''0'' then Inl InvalidResponse
           else case get_index (read data ''data'') 0 of
                  Inl e \<Rightarrow> Inl e
                | Inr item \<Rightarrow> (if \<not> truthy item then Inl InvalidResponse else Inr item)))"

definition OKX_try_getOrderbook :: "string \<Rightarrow> world \<Rightarrow> (error + Orderbook) \<times> world" where
  "OKX_try_getOrderbook symb w =
     (case fetch_json w of
        (Inl e, w1) \<Rightarrow> (Inl e, w1)
      | (Inr data, w1) \<Rightarrow>
          (case OKX_first_item data of
             Inl e \<Rightarrow> (Inl e, w1)
           | Inr orderbook \<Rightarrow>
               (case entries_of (read orderbook ''bids'') of
                  Inl e \<Rightarrow> (Inl e, w1)
                | Inr bs \<Rightarrow>
                    (case entries_of (read orderbook ''asks'') of
                       Inl e \<Rightarrow> (Inl e, w1)
                     | Inr as \<Rightarrow>
                         (if \<not> convertible (read orderbook ''ts'') then (Inl TypeError, w1)
                          else
                            (Inr \<lparr>symbol = symb, bids = bs, asks = as,
                                   lastUpdateId = js_parseInt w1 (read orderbook ''ts'')\<rparr>, w1))))))"

definition OKX_try_get24hTicker :: "string \<Rightarrow> world \<Rightarrow> (error + Ticker24h) \<times> world" where
  "OKX_try_get24hTicker symb w =
     (case fetch_json w of
        (Inl e, w1) \<Rightarrow> (Inl e, w1)
      | (Inr data, w1) \<Rightarrow>
          (case OKX_first_item data of
             Inl e \<Rightarrow> (Inl e, w1)
           | Inr ticker \<Rightarrow>
               (if \<not> (convertible (read ticker ''last'') \<and> convertible (read ticker ''open24h'') \<and>
                       convertible (read ticker ''ts'')) then (Inl TypeError, w1)
                else
                let last = js_parseFloat w1 (read ticker ''last'');
                    open24h = js_parseFloat w1 (read ticker ''open24h'')
                in (Inr \<lparr>t_symbol = symb,
                      t_priceChange = toString (num_sub last open24h),
                      t_priceChangePercent =
                        toString (num_mul (num_div (num_sub last open24h) open24h) (Fin 100)),
                      t_weightedAvgPrice = Raw (read ticker ''last''),
                      t_prevClosePrice = Raw (read ticker ''open24h''),
                      t_lastPrice = Raw (read ticker ''last''),
                      t_bidPrice = Raw (read ticker ''bidPx''),
                      t_askPrice = Raw (read ticker ''askPx''),
                      t_openPrice = Raw (read ticker ''open24h''),
                      t_highPrice = Raw (read ticker ''high24h''),
                      t_lowPrice = Raw (read ticker ''low24h''),
                      t_volume = Raw (read ticker ''vol24h''),
                      t_quoteVolume = Raw (read ticker ''volCcy24h''),
                      t_openTime =
                        num_sub (js_parseInt w1 (read ticker ''ts'')) (Fin (24 * 60 * 60 * 1000)),
                      t_closeTime = js_parseInt w1 (read ticker ''ts''),
                      t_count = Fin 0\<rparr>, w1))))"

definition OKX_candle :: "world \<Rightarrow> jsval \<Rightarrow> error + Kline" where
  "OKX_candle w candle =
     (if nullish candle then Inl TypeError
      else if \<not> convertible (read_index candle 0) then Inl TypeError
      else Inr
        \<lparr>k_openTime = js_parseInt w (read_index candle 0),
         k_open = Raw (read_index candle 1),
         k_high = Raw (read_index candle 2),
         k_low = Raw (read_index candle 3),
         k_close = Raw (read_index candle 4),
         k_volume = Raw (read_index candle 5),
         k_closeTime = num_add (js_parseInt w (read_index candle 0)) (Fin (24 * 60 * 60 * 1000)),
         k_quoteAssetVolume = Raw (read_index candle 6),
         k_numberOfTrades = Fin 0,
         k_takerBuyBaseAssetVolume = Raw (JStr ''0''),
         k_takerBuyQuoteAssetVolume = Raw (JStr ''0'')\<rparr>)"

definition OKX_try_getKlines ::
  "string \<Rightarrow> string \<Rightarrow> int \<Rightarrow> world \<Rightarrow> (error + Kline list) \<times> world" where
  "OKX_try_getKlines symb interval limit w =
     (case fetch_json w of
        (Inl e, w1) \<Rightarrow> (Inl e, w1)
      | (Inr data, w1) \<Rightarrow>
          (case get_prop data ''code'' of
             Inl e \<Rightarrow> (Inl e, w1)
           | Inr code \<Rightarrow>
               (if code \<noteq> JStr ''0'' then (Inl InvalidResponse, w1)
                else case as_array (read data ''data'') of
                  Inl e \<Rightarrow> (Inl e, w1)
                | Inr candles \<Rightarrow>
                    (case map_throwing (OKX_candle w1) candles of
                       Inl e \<Rightarrow> (Inl e, w1)
                     | Inr ks \<Rightarrow> (Inr (rev ks), w1)))))"

definition OKX_getOrderbook :: "string \<Rightarrow> int \<Rightarrow> world \<Rightarrow> (error + Orderbook) \<times> world" where
  "OKX_getOrderbook symb limit =
     try_catch (OKX_try_getOrderbook symb) (returning (OKX_getMockOrderbook symb))"

definition OKX_get24hTicker :: "string \<Rightarrow> world \<Rightarrow> (error + Ticker24h) \<times> world" where
  "OKX_get24hTicker symb =
     try_catch (OKX_try_get24hTicker symb) (returning (OKX_getMock24hTicker symb))"

definition OKX_getKlines ::
  "string \<Rightarrow> string \<Rightarrow> int \<Rightarrow> world \<Rightarrow> (error + Kline list) \<times> world" where
  "OKX_getKlines symb interval limit =
     try_catch (OKX_try_getKlines symb interval limit) (OKX_getMockKlines symb limit)"


section \<open>The Coinbase adapter (class CoinbaseAPIService, in theme-context.tsx)\<close>

text \<open>
  \<open>formatSymbol\<close> only shapes the URL of the request, which is not modelled; the
  operations return the symbol they were given.
\<close>

definition Coinbase_getMockOrderbook :: "string \<Rightarrow> world \<Rightarrow> Orderbook \<times> world" where
  "Coinbase_getMockOrderbook symb w =
     (let basePrice = 65000;
          spread = 10;
          (bids0, w1) = Array_from 20
             (\<lambda>i v. let (a, va) = Math_random v in
                (\<lparr>price = toString (Fin (basePrice - spread - of_nat i * 5)),
                  quantity = toFixed 4 (Fin (a * 2))\<rparr>, va)) w;
          (asks0, w2) = Array_from 20
             (\<lambda>i v. let (a, va) = Math_random v in
                (\<lparr>price = toString (Fin (basePrice + spread + of_nat i * 5)),
                  quantity = toFixed 4 (Fin (a * 2))\<rparr>, va)) w1;
          (t, w3) = Date_now w2
      in (\<lparr>symbol = symb, bids = bids0, asks = asks0, lastUpdateId = Fin (of_int t)\<rparr>, w3))"

definition Coinbase_getMock24hTicker :: "string \<Rightarrow> world \<Rightarrow> Ticker24h \<times> world" where
  "Coinbase_getMock24hTicker symb w =
     (let (r1, w1) = Math_random w;
          lastPrice = 65000 + r1 * 1000;
          (r2, w2) = Math_random w1;
          openPrice = lastPrice * (98 / 100 + r2 * (4 / 100));
          (r3, w3) = Math_random w2;
          high = max lastPrice openPrice * (1 + r3 * (2 / 100));
          (r4, w4) = Math_random w3;
          low = min lastPrice openPrice * (1 - r4 * (2 / 100));
          (r5, w5) = Math_random w4;
          (r6, w6) = Math_random w5;
          (t1, w7) = Date_now w6;
          (t2, w8) = Date_now w7;
          (r7, w9) = Math_random w8
      in (\<lparr>t_symbol = symb,
           t_priceChange = toFixed 2 (Fin (lastPrice - openPrice)),
           t_priceChangePercent =
             toFixed 2 (num_mul (num_div (Fin (lastPrice - openPrice)) (Fin openPrice)) (Fin 100)),
           t_weightedAvgPrice = toFixed 2 (Fin ((lastPrice + openPrice) / 2)),
           t_prevClosePrice = toFixed 2 (Fin openPrice),
           t_lastPrice = toFixed 2 (Fin lastPrice),
           t_bidPrice = toFixed 2 (Fin (lastPrice - 5)),
           t_askPrice = toFixed 2 (Fin (lastPrice + 5)),
           t_openPrice = toFixed 2 (Fin openPrice),
           t_highPrice = toFixed 2 (Fin high),
           t_lowPrice = toFixed 2 (Fin low),
           t_volume = toFixed 2 (Fin (r5 * 1000)),
           t_quoteVolume = toFixed 2 (Fin (r6 * 50000000)),
           t_openTime = Fin (of_int (t1 - 24 * 60 * 60 * 1000)),
           t_closeTime = Fin (of_int t2),
           t_count = Fin (of_int \<lfloor>r7 * 10000\<rfloor>)\<rparr>, w9))"

definition Coinbase_getMockKlines ::
  "string \<Rightarrow> int \<Rightarrow> world \<Rightarrow> (error + Kline list) \<times> world" where
  "Coinbase_getMockKlines symb limit w =
     (let (now, w1) = Date_now w;
          dayMs = 24 * 60 * 60 * 1000;
          currentPrice0 = 65000
      in case array_length limit of
           Inl e \<Rightarrow> (Inl e, w1)
         | Inr n \<Rightarrow>
             (let (ks, (currentPrice, w2)) = Array_from n
                    (\<lambda>i (currentPrice, v).
                       let openTime = now - (limit - int i) * dayMs;
                           open = currentPrice;
                           (r1, v1) = Math_random v;
                           change = (r1 - 1 / 2) * (1 / 10);
                           close = open * (1 + change);
                           (r2, v2) = Math_random v1;
                           high = max open close * (1 + r2 * (5 / 100));
                           (r3, v3) = Math_random v2;
                           low = min open close * (1 - r3 * (5 / 100));
                           (r4, v4) = Math_random v3;
                           volume = r4 * 1000;
                           (r5, v5) = Math_random v4
                       in (\<lparr>k_openTime = Fin (of_int openTime),
                             k_open = toString (Fin open),
                             k_high = toString (Fin high),
                             k_low = toString (Fin low),
                             k_close = toString (Fin close),
                             k_volume = toString (Fin volume),
                             k_closeTime = Fin (of_int (openTime + dayMs)),
                             k_quoteAssetVolume = toString (Fin (volume * close)),
                             k_numberOfTrades = Fin (of_int \<lfloor>r5 * 1000\<rfloor>),
                             k_takerBuyBaseAssetVolume = toString (Fin (volume * (6 / 10))),
                             k_takerBuyQuoteAssetVolume = toString (Fin (volume * close * (6 / 10)))\<rparr>,
                           (close, v5)))
                    (currentPrice0, w1)
              in (Inr ks, w2)))"

text \<open>
  \<open>xs.slice(0, n)\<close>: the first \<open>n\<close> elements, or all but the last \<open>-n\<close> when \<open>n\<close> is
  negative. In \<open>v.slice(0, limit).map(...)\<close> both methods exist only when \<open>v\<close> is an
  array (a string has \<open>slice\<close>, but its result has no \<open>map\<close>).
\<close>

definition slice_to :: "int \<Rightarrow> 'a list \<Rightarrow> 'a list" where
  "slice_to n xs = (if n < 0 then take (nat (int (length xs) + n)) xs else take (nat n) xs)"

definition sliced_entries :: "int \<Rightarrow> jsval \<Rightarrow> error + OrderbookEntry list" where
  "sliced_entries limit v =
     (case as_array v of Inl e \<Rightarrow> Inl e | Inr xs \<Rightarrow> map_throwing entry_of (slice_to limit xs))"

text \<open>The \<open>try\<close> blocks of the three operations.\<close>

definition Coinbase_try_getOrderbook ::
  "string \<Rightarrow> int \<Rightarrow> world \<Rightarrow> (error + Orderbook) \<times> world" where
  "Coinbase_try_getOrderbook symb limit w =
     (case fetch_json w of
        (Inl e, w1) \<Rightarrow> (Inl e, w1)
      | (Inr data, w1) \<Rightarrow>
          (case get_prop data ''bids'' of
             Inl e \<Rightarrow> (Inl e, w1)
           | Inr wireBids \<Rightarrow>
               (case sliced_entries limit wireBids of
                  Inl e \<Rightarrow> (Inl e, w1)
                | Inr bs \<Rightarrow>
                    (case sliced_entries limit (read data ''asks'') of
                       Inl e \<Rightarrow> (Inl e, w1)
                     | Inr as \<Rightarrow>
                         (let (t, w2) = Date_now w1 in
                          (Inr \<lparr>symbol = symb, bids = bs, asks = as,
                                 lastUpdateId = Fin (of_int t)\<rparr>, w2))))))"

text \<open>
  \<open>get24hTicker\<close> starts its two requests before it awaits either (\<open>Promise.all\<close>), and
  fails when one of them fails.
\<close>

definition Coinbase_try_get24hTicker :: "string \<Rightarrow> world \<Rightarrow> (error + Ticker24h) \<times> world" where
  "Coinbase_try_get24hTicker symb w =
     (let (tickerResponse, w1) = fetch w;
          (statsResponse, w2) = fetch w1
      in case tickerResponse of
           NetworkFailure \<Rightarrow> (Inl NetworkError, w2)
         | Response tickerStatus tickerBody \<Rightarrow>
             (case statsResponse of
                NetworkFailure \<Rightarrow> (Inl NetworkError, w2)
              | Response statsStatus statsBody \<Rightarrow>
                  (if \<not> (response_ok tickerStatus \<and> response_ok statsStatus)
                   then (Inl (Failure ''API request failed''), w2)
                   else case tickerBody of
                     None \<Rightarrow> (Inl SyntaxError, w2)
                   | Some ticker \<Rightarrow>
                       (case statsBody of
                          None \<Rightarrow> (Inl SyntaxError, w2)
                        | Some stats \<Rightarrow>
                            (if nullish ticker \<or> nullish stats then (Inl TypeError, w2)
                             else if \<not> (convertible (read ticker ''price'') \<and>
                                          convertible (read stats ''open''))
                             then (Inl TypeError, w2)
                             else
                               (let lastPrice = js_parseFloat w2 (read ticker ''price'');
                                    openPrice = js_parseFloat w2 (read stats ''open'');
                                    (t1, w3) = Date_now w2;
                                    (t2, w4) = Date_now w3
                                in (Inr \<lparr>t_symbol = symb,
                                      t_priceChange = toString (num_sub lastPrice openPrice),
                                      t_priceChangePercent =
                                        toString (num_mul (num_div (num_sub lastPrice openPrice) openPrice)
                                                    (Fin 100)),
                                      t_weightedAvgPrice = Raw (read ticker ''price''),
                                      t_prevClosePrice = Raw (read stats ''open''),
                                      t_lastPrice = Raw (read ticker ''price''),
                                      t_bidPrice = Raw (read ticker ''bid''),
                                      t_askPrice = Raw (read ticker ''ask''),
                                      t_openPrice = Raw (read stats ''open''),
                                      t_highPrice = Raw (read stats ''high''),
                                      t_lowPrice = Raw (read stats ''low''),
                                      t_volume = Raw (read stats ''volume''),
                                      t_quoteVolume = Raw (read stats ''volume_30day''),
                                      t_openTime = Fin (of_int (t1 - 24 * 60 * 60 * 1000)),
                                      t_closeTime = Fin (of_int t2),
                                      t_count = Fin 0\<rparr>, w4)))))))"

text \<open>
  A candle of Coinbase is an array of numbers. In \<open>(candle[0] + 86400) * 1000\<close> the sum
  is a concatenation when \<open>candle[0]\<close> is a string (or prints as one).
\<close>

definition Coinbase_candle :: "world \<Rightarrow> jsval \<Rightarrow> error + Kline" where
  "Coinbase_candle w candle =
     (if nullish candle then Inl TypeError
      else if \<not> convertible (read_index candle 0) then Inl TypeError
      else case value_toString w (read_index candle 3) of
        Inl e \<Rightarrow> Inl e
      | Inr openText \<Rightarrow>
      (case value_toString w (read_index candle 2) of
        Inl e \<Rightarrow> Inl e
      | Inr highText \<Rightarrow>
      (case value_toString w (read_index candle 1) of
        Inl e \<Rightarrow> Inl e
      | Inr lowText \<Rightarrow>
      (case value_toString w (read_index candle 4) of
        Inl e \<Rightarrow> Inl e
      | Inr closeText \<Rightarrow>
      (case value_toString w (read_index candle 5) of
        Inl e \<Rightarrow> Inl e
      | Inr volumeText \<Rightarrow>
          Inr \<lparr>k_openTime = num_mul (ToNumber w (read_index candle 0)) (Fin 1000),
               k_open = openText,
               k_high = highText,
               k_low = lowText,
               k_close = closeText,
               k_volume = volumeText,
               k_closeTime =
                 num_mul
                   (case ToPrimitive w (read_index candle 0) of
                      JStr s \<Rightarrow> js_Number w (JStr (s @ ''86400''))
                    | p \<Rightarrow> num_add (ToNumber w p) (Fin 86400))
                   (Fin 1000),
               k_quoteAssetVolume = Raw (JStr ''0''),
               k_numberOfTrades = Fin 0,
               k_takerBuyBaseAssetVolume = Raw (JStr ''0''),
               k_takerBuyQuoteAssetVolume = Raw (JStr ''0'')\<rparr>)))))"

text \<open>
  \<open>new Date(t)\<close> holds a time value only when \<open>|t| \<le> 8.64 * 10^15\<close>; on any other
  number \<open>toISOString()\<close> raises a RangeError. \<open>new Date()\<close> reads the clock.
\<close>

definition valid_time :: "int \<Rightarrow> bool" where
  "valid_time t = (\<bar>t\<bar> \<le> 8640000000000000)"

definition Coinbase_try_getKlines ::
  "string \<Rightarrow> string \<Rightarrow> int \<Rightarrow> world \<Rightarrow> (error + Kline list) \<times> world" where
  "Coinbase_try_getKlines symb interval limit w =
     (let (endTime, w0) = Date_now w;
          startTime = endTime - limit * 24 * 60 * 60 * 1000
      in if \<not> (valid_time startTime \<and> valid_time endTime) then (Inl RangeError, w0)
         else case fetch_json w0 of
           (Inl e, w1) \<Rightarrow> (Inl e, w1)
         | (Inr data, w1) \<Rightarrow>
             (case as_array data of
                Inl e \<Rightarrow> (Inl e, w1)
              | Inr candles \<Rightarrow>
                  (case map_throwing (Coinbase_candle w1) candles of
                     Inl e \<Rightarrow> (Inl e, w1)
                   | Inr ks \<Rightarrow> (Inr (rev ks), w1))))"

definition Coinbase_getOrderbook :: "string \<Rightarrow> int \<Rightarrow> world \<Rightarrow> (error + Orderbook) \<times> world" where
  "Coinbase_getOrderbook symb limit =
     try_catch (Coinbase_try_getOrderbook symb limit) (returning (Coinbase_getMockOrderbook symb))"

definition Coinbase_get24hTicker :: "string \<Rightarrow> world \<Rightarrow> (error + Ticker24h) \<times> world" where
  "Coinbase_get24hTicker symb =
     try_catch (Coinbase_try_get24hTicker symb) (returning (Coinbase_getMock24hTicker symb))"

definition Coinbase_getKlines ::
  "string \<Rightarrow> string \<Rightarrow> int \<Rightarrow> world \<Rightarrow> (error + Kline list) \<times> world" where
  "Coinbase_getKlines symb interval limit =
     try_catch (Coinbase_try_getKlines symb interval limit) (Coinbase_getMockKlines symb limit)"



section \<open>Predicates on adapter operations\<close>

text \<open>
  A fetch fails when the network fails, the status is not 2xx or the body is not JSON.
  \<open>fetch_fails k w\<close>: the fetch after \<open>k\<close> others, from the environment \<open>w\<close> on, fails.
\<close>

definition bad_response :: "fetch_result \<Rightarrow> bool" where
  "bad_response r =
     (case r of
        NetworkFailure \<Rightarrow> True
      | Response status body \<Rightarrow> (if response_ok status then body = None else True))"

definition fetch_fails :: "nat \<Rightarrow> world \<Rightarrow> bool" where
  "fetch_fails k w = bad_response (network w (network_used w + k))"

text \<open>
  An operation that makes \<open>fetches\<close> requests absorbs its failures: it always returns a
  value; its \<open>try\<close> block raises whenever one of its fetches fails; whenever the \<open>try\<close>
  block raises, for this or any other reason, the operation returns what the substitute
  generator returns, a value of the schema's shape; and whenever the \<open>try\<close> block
  returns a value, the operation returns that value.
\<close>

definition absorbs_failures ::
  "nat \<Rightarrow> (world \<Rightarrow> (error + 'a) \<times> world) \<Rightarrow> (world \<Rightarrow> (error + 'a) \<times> world) \<Rightarrow>
   (world \<Rightarrow> (error + 'a) \<times> world) \<Rightarrow> ('a \<Rightarrow> bool) \<Rightarrow> bool" where
  "absorbs_failures fetches operation attempt substitute conforms =
     (\<forall>w. (\<exists>r. fst (operation w) = Inr r) \<and>
          ((\<exists>k < fetches. fetch_fails k w) \<longrightarrow> (\<exists>e. fst (attempt w) = Inl e)) \<and>
          ((\<exists>e. fst (attempt w) = Inl e) \<longrightarrow>
             (\<exists>r. operation w = substitute (snd (attempt w)) \<and> fst (operation w) = Inr r \<and>
                  conforms r)) \<and>
          (\<forall>r. fst (attempt w) = Inr r \<longrightarrow> operation w = attempt w))"


definition answering :: "fetch_result \<Rightarrow> world" where
  "answering r = world0\<lparr>network := (\<lambda>i. r)\<rparr>"

definition answering_then :: "fetch_result \<Rightarrow> fetch_result \<Rightarrow> world" where
  "answering_then r r' = world0\<lparr>network := (\<lambda>i. if i = 0 then r else r')\<rparr>"

definition sample_book :: jsval where
  "sample_book =
     JObj [(''bids'', JArr [JArr [JStr ''64999.5'', JStr ''0.25'']]),
           (''asks'', JArr [JArr [JStr ''65000.5'', JStr ''0.40'']])]"

section \<open>Theorems\<close>

lemma checkAndEnable_frame:
  "apiHealth (checkAndEnableMockFallback m) = apiHealth m"
  "retryConfig (checkAndEnableMockFallback m) = retryConfig m"
  "currentSource (checkAndEnableMockFallback m) = currentSource m"
  "preferredOrder (checkAndEnableMockFallback m) = preferredOrder m"
  by (simp_all add: checkAndEnableMockFallback_def Let_def)

lemma checkAndEnable_latch:
  "fallbackToMock m \<Longrightarrow> fallbackToMock (checkAndEnableMockFallback m)"
  by (simp add: checkAndEnableMockFallback_def Let_def)

lemma updateHealth_untracked:
  "apiHealth m src = None \<Longrightarrow> updateHealth src healthy rt m w = (m, w)"
  by (simp add: updateHealth_def)

lemma updateHealth_frame:
  "retryConfig (fst (updateHealth src healthy rt m w)) = retryConfig m"
  "currentSource (fst (updateHealth src healthy rt m w)) = currentSource m"
  "preferredOrder (fst (updateHealth src healthy rt m w)) = preferredOrder m"
  by (simp_all add: updateHealth_def Let_def Date_now_def checkAndEnable_frame split: option.splits)

lemma updateHealth_tracked:
  assumes "apiHealth m src = Some h"
  shows "apiHealth (fst (updateHealth src healthy rt m w)) =
           (apiHealth m)(src \<mapsto> updated_health healthy rt (clock w (clock_used w)) h)"
    and "snd (updateHealth src healthy rt m w) = w\<lparr>clock_used := Suc (clock_used w)\<rparr>"
  using assms
  by (simp_all add: updateHealth_def Let_def Date_now_def checkAndEnable_frame updated_health_def)

lemma updateHealth_latch:
  "fallbackToMock m \<Longrightarrow> fallbackToMock (fst (updateHealth src healthy rt m w))"
  by (simp add: updateHealth_def Let_def Date_now_def checkAndEnable_latch split: option.splits prod.splits)

lemma all_sources: "s \<in> set [Coinbase, Okx, Kucoin, Mock]"
  by (cases s) simp_all

lemma set_health_values:
  "set (health_values m) = {h. \<exists>s. apiHealth m s = Some h}"
proof -
  have "set (health_values m) = {h. \<exists>s \<in> set [Coinbase, Okx, Kucoin, Mock]. apiHealth m s = Some h}"
    unfolding health_values_def List.map_filter_def by force
  then show ?thesis using all_sources by blast
qed

lemma health_values_all:
  "list_all P (health_values m) = (\<forall>s h. apiHealth m s = Some h \<longrightarrow> P h)"
  unfolding list_all_iff set_health_values by blast

lemma updateHealth_escalates:
  assumes "apiHealth m src = Some h"
    and "\<forall>s h'. apiHealth (fst (updateHealth src healthy rt m w)) s = Some h'
           \<longrightarrow> consecutiveFailures h' \<ge> maxRetries (retryConfig m)"
  shows "fallbackToMock (fst (updateHealth src healthy rt m w))"
proof -
  let ?h1 = "updated_health healthy rt (clock w (clock_used w)) h"
  let ?m1 = "m\<lparr>apiHealth := (apiHealth m)(src \<mapsto> ?h1)\<rparr>"
  have upd: "updateHealth src healthy rt m w =
     (if consecutiveFailures ?h1 \<ge> maxRetries (retryConfig m)
      then (checkAndEnableMockFallback ?m1, w\<lparr>clock_used := Suc (clock_used w)\<rparr>)
      else (?m1, w\<lparr>clock_used := Suc (clock_used w)\<rparr>))"
    using assms(1) by (simp add: updateHealth_def Let_def Date_now_def updated_health_def)
  have h1: "apiHealth (fst (updateHealth src healthy rt m w)) src = Some ?h1"
    using updateHealth_tracked(1)[OF assms(1)] by simp
  from assms(2) h1 have big: "consecutiveFailures ?h1 \<ge> maxRetries (retryConfig m)"
    by blast
  have all: "\<forall>s h'. apiHealth ?m1 s = Some h'
           \<longrightarrow> consecutiveFailures h' \<ge> maxRetries (retryConfig ?m1)"
    using assms(2) updateHealth_tracked(1)[OF assms(1), of healthy rt w] by simp
  show ?thesis
    using big all
    by (simp add: upd checkAndEnableMockFallback_def Let_def health_values_all)
qed

lemma retry_loop_step_fail:
  assumes "attempt < maxRetries (retryConfig m)" "fst (operation w) = Inl e"
    and "apiHealth m src = Some h"
  shows "retry_loop operation src attempt m w =
     (let w1 = after_call operation w;
          m2 = fst (updateHealth src False None m w1);
          w2 = w1\<lparr>clock_used := Suc (clock_used w1)\<rparr>
      in if Suc attempt = maxRetries (retryConfig m) then (Inl e, m2, w2)
         else retry_loop operation src (Suc attempt) m2
                (setTimeout (backoff (retryConfig m) attempt) w2))"
proof -
  obtain r v where op: "operation w = (r, v)" by (cases "operation w")
  with assms(2) have r: "r = Inl e" by simp
  have w1: "after_call operation w = v\<lparr>adapter_calls := Suc (adapter_calls v)\<rparr>"
    by (simp add: after_call_def op)
  obtain m2 w2 where u: "updateHealth src False None m (v\<lparr>adapter_calls := Suc (adapter_calls v)\<rparr>) = (m2, w2)"
    by (cases "updateHealth src False None m (v\<lparr>adapter_calls := Suc (adapter_calls v)\<rparr>)")
  have w2: "w2 = v\<lparr>adapter_calls := Suc (adapter_calls v), clock_used := Suc (clock_used v)\<rparr>"
    using updateHealth_tracked(2)[OF assms(3), of False None "v\<lparr>adapter_calls := Suc (adapter_calls v)\<rparr>"] u
    by simp
  have cfg: "retryConfig m2 = retryConfig m"
    using updateHealth_frame(1)[of src False None m "v\<lparr>adapter_calls := Suc (adapter_calls v)\<rparr>"] u
    by simp
  have eq: "(int attempt = int (maxRetries (retryConfig m)) - 1) = (Suc attempt = maxRetries (retryConfig m))"
    using assms(1) by auto
  show ?thesis
    apply (subst retry_loop.simps)
    using assms(1)
    apply (simp add: call_adapter_def op r u cfg w1 Let_def backoff_def eq)
    apply (simp add: w2)
    done
qed

lemma retry_loop_step_ok:
  assumes "attempt < maxRetries (retryConfig m)" "fst (operation w) = Inr r"
    and "apiHealth m src = Some h"
  shows "retry_loop operation src attempt m w =
     (let w1 = after_call operation w
      in (Inr r, fst (updateHealth src True None m w1), w1\<lparr>clock_used := Suc (clock_used w1)\<rparr>))"
proof -
  obtain x v where op: "operation w = (x, v)" by (cases "operation w")
  with assms(2) have r: "x = Inr r" by simp
  have w1: "after_call operation w = v\<lparr>adapter_calls := Suc (adapter_calls v)\<rparr>"
    by (simp add: after_call_def op)
  obtain m2 w2 where u: "updateHealth src True None m (v\<lparr>adapter_calls := Suc (adapter_calls v)\<rparr>) = (m2, w2)"
    by (cases "updateHealth src True None m (v\<lparr>adapter_calls := Suc (adapter_calls v)\<rparr>)")
  have w2: "w2 = v\<lparr>adapter_calls := Suc (adapter_calls v), clock_used := Suc (clock_used v)\<rparr>"
    using updateHealth_tracked(2)[OF assms(3), of True None "v\<lparr>adapter_calls := Suc (adapter_calls v)\<rparr>"] u
    by simp
  show ?thesis
    apply (subst retry_loop.simps)
    using assms(1)
    apply (simp add: call_adapter_def op r u w1 Let_def)
    apply (simp add: w2)
    done
qed

lemma retry_loop_done:
  "\<not> attempt < maxRetries (retryConfig m) \<Longrightarrow>
     retry_loop operation src attempt m w = (Inl MaxRetriesExceeded, m, w)"
  by (subst retry_loop.simps) simp

lemma retry_loop_all_fail:
  assumes fails: "\<forall>v. \<exists>e. fst (operation v) = Inl e"
  shows "apiHealth m src = Some h \<Longrightarrow> n = maxRetries (retryConfig m) - attempt \<Longrightarrow>
     attempt \<le> maxRetries (retryConfig m) \<Longrightarrow>
     \<exists>e m' w' h'. retry_loop operation src attempt m w = (Inl e, m', w') \<and>
        apiHealth m' src = Some h' \<and>
        consecutiveFailures h' = consecutiveFailures h + n \<and>
        errorCount h' = errorCount h + n \<and>
        (0 < n \<longrightarrow> \<not> isHealthy h') \<and>
        retryConfig m' = retryConfig m \<and> currentSource m' = currentSource m"
proof (induction n arbitrary: attempt m w h)
  case 0
  then have "\<not> attempt < maxRetries (retryConfig m)" by simp
  then show ?case using 0 by (simp add: retry_loop_done)
next
  case (Suc n)
  then have lt: "attempt < maxRetries (retryConfig m)" by simp
  from fails obtain e where e: "fst (operation w) = Inl e" by blast
  let ?w1 = "after_call operation w"
  let ?m2 = "fst (updateHealth src False None m ?w1)"
  let ?w2 = "?w1\<lparr>clock_used := Suc (clock_used ?w1)\<rparr>"
  let ?h2 = "updated_health False None (clock ?w1 (clock_used ?w1)) h"
  have h2: "apiHealth ?m2 src = Some ?h2"
    using updateHealth_tracked(1)[OF Suc.prems(1)] by simp
  have cfg: "retryConfig ?m2 = retryConfig m" and cur: "currentSource ?m2 = currentSource m"
    by (simp_all add: updateHealth_frame)
  have step: "retry_loop operation src attempt m w =
      (if Suc attempt = maxRetries (retryConfig m) then (Inl e, ?m2, ?w2)
       else retry_loop operation src (Suc attempt) ?m2
              (setTimeout (backoff (retryConfig m) attempt) ?w2))"
    using retry_loop_step_fail[where operation=operation and w=w, OF lt e Suc.prems(1)] by (simp add: Let_def)
  show ?case
  proof (cases "Suc attempt = maxRetries (retryConfig m)")
    case True
    with Suc.prems have "n = 0" by simp
    then show ?thesis using True step h2 cfg cur by (simp add: updated_health_def)
  next
    case False
    with lt Suc.prems have n: "n = maxRetries (retryConfig ?m2) - Suc attempt"
      and le: "Suc attempt \<le> maxRetries (retryConfig ?m2)" by (simp_all add: cfg)
    from Suc.IH[OF h2 n le, of "setTimeout (backoff (retryConfig m) attempt) ?w2"]
    obtain e' m' w' h' where
      r: "retry_loop operation src (Suc attempt) ?m2
            (setTimeout (backoff (retryConfig m) attempt) ?w2) = (Inl e', m', w')"
      and h': "apiHealth m' src = Some h'"
         "consecutiveFailures h' = consecutiveFailures ?h2 + n"
         "errorCount h' = errorCount ?h2 + n"
         "0 < n \<longrightarrow> \<not> isHealthy h'"
         "retryConfig m' = retryConfig ?m2" "currentSource m' = currentSource ?m2"
      by blast
    have n0: "0 < n" using False lt Suc.prems by simp
    show ?thesis
      using False step r h' n0 cfg cur by (simp add: updated_health_def)
  qed
qed

lemma retry_loop_fail_then_succeed:
  assumes frame: "leaves_instruments operation"
  shows "apiHealth m src = Some h \<Longrightarrow> attempt + k < maxRetries (retryConfig m) \<Longrightarrow>
     (\<forall>v. adapter_calls v < adapter_calls w + k \<longrightarrow> (\<exists>e. fst (operation v) = Inl e)) \<Longrightarrow>
     (\<forall>v. adapter_calls v = adapter_calls w + k \<longrightarrow> fst (operation v) = Inr r) \<Longrightarrow>
     \<exists>m' w' h'. retry_loop operation src attempt m w = (Inr r, m', w') \<and>
        timeouts w' = timeouts w @ map (backoff (retryConfig m)) [attempt ..< attempt + k] \<and>
        adapter_calls w' = adapter_calls w + k + 1 \<and>
        apiHealth m' src = Some h' \<and> isHealthy h' \<and>
        consecutiveFailures h' = 0 \<and> errorCount h' = 0 \<and>
        retryConfig m' = retryConfig m \<and> currentSource m' = currentSource m"
proof (induction k arbitrary: attempt m w h)
  case 0
  then have lt: "attempt < maxRetries (retryConfig m)" and ok: "fst (operation w) = Inr r"
    by simp_all
  let ?w1 = "after_call operation w"
  have "apiHealth (fst (updateHealth src True None m ?w1)) src =
          Some (updated_health True None (clock ?w1 (clock_used ?w1)) h)"
    using updateHealth_tracked(1)[OF "0.prems"(1)] by simp
  moreover have "adapter_calls ?w1 = Suc (adapter_calls w)" "timeouts ?w1 = timeouts w"
    using frame by (simp_all add: after_call_def leaves_instruments_def)
  ultimately show ?case
    using retry_loop_step_ok[where operation=operation and w=w, OF lt ok "0.prems"(1)]
    by (simp add: Let_def updated_health_def updateHealth_frame)
next
  case (Suc k)
  then have lt: "attempt < maxRetries (retryConfig m)"
    and ns: "Suc attempt \<noteq> maxRetries (retryConfig m)" by simp_all
  have "adapter_calls w < adapter_calls w + Suc k" by simp
  with Suc.prems(3) obtain e where e: "fst (operation w) = Inl e" by blast
  let ?w1 = "after_call operation w"
  let ?m2 = "fst (updateHealth src False None m ?w1)"
  let ?w2 = "?w1\<lparr>clock_used := Suc (clock_used ?w1)\<rparr>"
  let ?w3 = "setTimeout (backoff (retryConfig m) attempt) ?w2"
  let ?h2 = "updated_health False None (clock ?w1 (clock_used ?w1)) h"
  have h2: "apiHealth ?m2 src = Some ?h2"
    using updateHealth_tracked(1)[OF Suc.prems(1)] by simp
  have cfg: "retryConfig ?m2 = retryConfig m" and cur: "currentSource ?m2 = currentSource m"
    by (simp_all add: updateHealth_frame)
  have calls: "adapter_calls ?w3 = Suc (adapter_calls w)"
    and touts: "timeouts ?w3 = timeouts w @ [backoff (retryConfig m) attempt]"
    using frame by (simp_all add: after_call_def leaves_instruments_def setTimeout_def)
  have step: "retry_loop operation src attempt m w = retry_loop operation src (Suc attempt) ?m2 ?w3"
    using retry_loop_step_fail[where operation=operation and w=w, OF lt e Suc.prems(1)] ns by (simp add: Let_def)
  have p2: "Suc attempt + k < maxRetries (retryConfig ?m2)" using Suc.prems(2) by (simp add: cfg)
  have p3: "\<forall>v. adapter_calls v < adapter_calls ?w3 + k \<longrightarrow> (\<exists>e. fst (operation v) = Inl e)"
    using Suc.prems(3) by (simp add: calls)
  have p4: "\<forall>v. adapter_calls v = adapter_calls ?w3 + k \<longrightarrow> fst (operation v) = Inr r"
    using Suc.prems(4) by (simp add: calls)
  from Suc.IH[OF h2 p2 p3 p4]
  obtain m' w' h' where
    r: "retry_loop operation src (Suc attempt) ?m2 ?w3 = (Inr r, m', w')"
    and rest: "timeouts w' = timeouts ?w3 @ map (backoff (retryConfig ?m2)) [Suc attempt ..< Suc attempt + k]"
      "adapter_calls w' = adapter_calls ?w3 + k + 1"
      "apiHealth m' src = Some h'" "isHealthy h'"
      "consecutiveFailures h' = 0" "errorCount h' = 0"
      "retryConfig m' = retryConfig ?m2" "currentSource m' = currentSource ?m2"
    by blast
  have "[attempt ..< attempt + Suc k] = attempt # [Suc attempt ..< Suc attempt + k]"
    by (simp add: upt_rec)
  then show ?case
    using step r rest by (simp add: cfg cur calls touts)
qed

lemma quiet_refl: "quiet w w" by (simp add: quiet_def)

lemma quiet_trans: "quiet a b \<Longrightarrow> quiet b c \<Longrightarrow> quiet a c" by (simp add: quiet_def)

lemma quiet_random: "quiet w (snd (Math_random w))" by (simp add: quiet_def Math_random_def)

lemma quiet_now: "quiet w (snd (Date_now w))" by (simp add: quiet_def Date_now_def)

lemma toFixed_string: "field_is_string (toFixed d x)"
  by (simp add: toFixed_def field_is_string_def split: number.splits)

lemma Array_from_at_length: "length (fst (Array_from_at i n f s)) = n"
  by (induction n arbitrary: i s) (simp_all add: case_prod_beta Let_def)

lemma Array_from_at_all:
  assumes "\<And>i s. Q (fst (f i s))"
  shows "list_all Q (fst (Array_from_at i n f s))"
  by (induction n arbitrary: i s) (simp_all add: case_prod_beta Let_def assms)

lemma Array_from_at_inv:
  assumes "\<And>i s. R s (snd (f i s))" and "\<And>s. R s s" and "\<And>a b c. R a b \<Longrightarrow> R b c \<Longrightarrow> R a c"
  shows "R s (snd (Array_from_at i n f s))"
proof (induction n arbitrary: i s)
  case 0
  then show ?case by (simp add: assms(2))
next
  case (Suc n)
  have "R s (snd (f i s))" by (rule assms(1))
  moreover have "R (snd (f i s)) (snd (Array_from_at (Suc i) n f (snd (f i s))))" by (rule Suc.IH)
  ultimately show ?case by (simp add: case_prod_beta Let_def assms(3)[of s "snd (f i s)"])
qed

lemma set_insert_by: "set (insert_by cmp x ys) = insert x (set ys)"
  by (induction ys) auto

lemma set_sort_by: "set (sort_by cmp xs) = set xs"
  unfolding sort_by_def by (induction xs) (simp_all add: set_insert_by)

lemma length_insert_by: "length (insert_by cmp x ys) = Suc (length ys)"
  by (induction ys) auto

lemma length_sort_by: "length (sort_by cmp xs) = length xs"
  unfolding sort_by_def by (induction xs) (simp_all add: length_insert_by)

lemma list_all_sort_by: "list_all Q (sort_by cmp xs) = list_all Q xs"
  by (simp add: list_all_iff set_sort_by)

lemma generateOrderbook_conforms: "orderbook_conforms (fst (generateOrderbook symb w))"
  by (simp add: generateOrderbook_def orderbook_conforms_def case_prod_beta Let_def
      list_all_sort_by Array_from_def Array_from_at_all entry_conforms_def toFixed_string)

lemma generateOrderbook_quiet: "quiet w (snd (generateOrderbook symb w))"
proof -
  have step: "\<And>g i v. quiet v (snd (let (a, va) = Math_random v; (b, vb) = Math_random va in (g a b, vb)))"
    by (simp add: quiet_def Math_random_def case_prod_beta Let_def)
  show ?thesis
    unfolding generateOrderbook_def Array_from_def
    apply (simp add: case_prod_beta Let_def)
    apply (rule quiet_trans[OF _ quiet_now])
    apply (rule quiet_trans[OF _ Array_from_at_inv[where R=quiet]])
    apply (rule quiet_trans[OF _ Array_from_at_inv[where R=quiet]])
           apply (rule quiet_random)
    apply (simp_all add: quiet_def Math_random_def)
    done
qed

lemma generate24hTicker_conforms: "ticker_conforms (fst (generate24hTicker symb w))"
  by (simp add: generate24hTicker_def ticker_conforms_def case_prod_beta Let_def toFixed_string)

lemma generate24hTicker_quiet: "quiet w (snd (generate24hTicker symb w))"
  by (simp add: generate24hTicker_def quiet_def Math_random_def Date_now_def case_prod_beta Let_def)

lemma array_length_valid: "limit < 2 ^ 32 \<Longrightarrow> array_length limit = Inr (nat limit)"
  by (simp add: array_length_def)

lemma generateKlines_valid:
  assumes "limit < 2 ^ 32"
  shows "\<exists>ks. fst (generateKlines symb interval limit w) = Inr ks \<and>
           list_all kline_conforms ks \<and> length ks = nat limit"
  using assms
  by (simp add: generateKlines_def array_length_valid case_prod_beta Let_def Array_from_def
      Array_from_at_length Array_from_at_all kline_conforms_def toFixed_string)

lemma generateKlines_invalid:
  "limit \<ge> 2 ^ 32 \<Longrightarrow> fst (generateKlines symb interval limit w) = Inl RangeError"
  by (simp add: generateKlines_def array_length_def case_prod_beta Let_def)

lemma generateKlines_quiet: "quiet w (snd (generateKlines symb interval limit w))"
proof (cases "limit < 2 ^ 32")
  case False
  then show ?thesis
    by (simp add: generateKlines_def array_length_def case_prod_beta Let_def quiet_def
        Math_random_def Date_now_def)
next
  case True
  let ?R = "\<lambda>(s :: rat \<times> world) s'. quiet (snd s) (snd s')"
  have inv: "\<And>f i n s. (\<And>i s. ?R s (snd (f i s))) \<Longrightarrow> ?R s (snd (Array_from_at i n f s))"
    by (rule Array_from_at_inv[where R="?R"]) (auto simp: quiet_def)
  show ?thesis
    using True
    apply (simp add: generateKlines_def array_length_valid case_prod_beta Let_def Array_from_def)
    apply (rule quiet_trans[OF _ inv[simplified case_prod_beta]])
     apply (simp_all add: quiet_def Math_random_def Date_now_def case_prod_beta Let_def)
    done
qed

lemma retry_exhausted:
  assumes "apiHealth m src = Some h" "always_throws operation"
  shows "\<exists>e m' w' h'. retryWithExponentialBackoff operation src m w = (Inl e, m', w') \<and>
        apiHealth m' src = Some h' \<and>
        consecutiveFailures h' = consecutiveFailures h + maxRetries (retryConfig m) \<and>
        errorCount h' = errorCount h + maxRetries (retryConfig m) \<and>
        (0 < maxRetries (retryConfig m) \<longrightarrow> \<not> isHealthy h') \<and>
        retryConfig m' = retryConfig m \<and> currentSource m' = currentSource m"
  using retry_loop_all_fail[where operation=operation and attempt=0 and m=m and src=src and h=h
      and n="maxRetries (retryConfig m)" and w=w] assms
  by (simp add: retryWithExponentialBackoff_def always_throws_def)

lemma orderbook_copy:
  "\<lparr>symbol = symbol ob, bids = bids ob, asks = asks ob, lastUpdateId = lastUpdateId ob\<rparr> = (ob :: Orderbook)"
  by (cases ob) simp

lemma self_select: "getAPIForSource A (currentSource m) m = (m, getAPIService A (currentSource m), currentSource m)"
  by (simp add: getAPIForSource_def)

text \<open>
  Claim C1, amended. When the selected adapter's operation throws at every attempt, each
  of the three data calls still returns a value: a result of the schema's shape tagged
  \<open>Mock\<close>; and a health record that started with no consecutive failure ends with
  \<open>maxRetries\<close> of them. For \<open>getKlines\<close> this holds when the requested count is an
  array length (below \<open>2^32\<close>).
\<close>

theorem C1_exhausted_retries_fall_back_to_mock:
  assumes "\<not> fallbackToMock m"
    and "apiHealth m (currentSource m) = Some h"
    and "consecutiveFailures h = 0"
  shows
    "(always_throws (ad_getOrderbook (getAPIService A (currentSource m)) symb depth) \<longrightarrow>
        (\<exists>r m' w' h'. getOrderbook A symb depth m w = (Inr r, m', w') \<and> source r = Mock \<and>
           orderbook_conforms (payload r) \<and> apiHealth m' (currentSource m) = Some h' \<and>
           consecutiveFailures h' = maxRetries (retryConfig m))) \<and>
     (always_throws (ad_get24hTicker (getAPIService A (currentSource m)) symb) \<longrightarrow>
        (\<exists>r m' w' h'. get24hTicker A symb m w = (Inr r, m', w') \<and> source r = Mock \<and>
           ticker_conforms (payload r) \<and> apiHealth m' (currentSource m) = Some h' \<and>
           consecutiveFailures h' = maxRetries (retryConfig m))) \<and>
     (always_throws (ad_getKlines (getAPIService A (currentSource m)) symb interval limit) \<and>
      limit < 2 ^ 32 \<longrightarrow>
        (\<exists>r m' w' h'. getKlines A symb interval limit m w = (Inr r, m', w') \<and> source r = Mock \<and>
           list_all kline_conforms (payload r) \<and> apiHealth m' (currentSource m) = Some h' \<and>
           consecutiveFailures h' = maxRetries (retryConfig m)))"
proof (intro conjI impI)
  assume t: "always_throws (ad_getOrderbook (getAPIService A (currentSource m)) symb depth)"
  from retry_exhausted[OF assms(2) t, of w] obtain e m' w' h' where
    r: "retryWithExponentialBackoff (ad_getOrderbook (getAPIService A (currentSource m)) symb depth)
          (currentSource m) m w = (Inl e, m', w')"
    and h': "apiHealth m' (currentSource m) = Some h'"
      "consecutiveFailures h' = consecutiveFailures h + maxRetries (retryConfig m)"
    by blast
  show "\<exists>r m' w' h'. getOrderbook A symb depth m w = (Inr r, m', w') \<and> source r = Mock \<and>
           orderbook_conforms (payload r) \<and> apiHealth m' (currentSource m) = Some h' \<and>
           consecutiveFailures h' = maxRetries (retryConfig m)"
    using assms(1,3) r h' generateOrderbook_conforms[of symb w']
    by (simp add: getOrderbook_def self_select case_prod_beta Let_def orderbook_copy)
next
  assume t: "always_throws (ad_get24hTicker (getAPIService A (currentSource m)) symb)"
  from retry_exhausted[OF assms(2) t, of w] obtain e m' w' h' where
    r: "retryWithExponentialBackoff (ad_get24hTicker (getAPIService A (currentSource m)) symb)
          (currentSource m) m w = (Inl e, m', w')"
    and h': "apiHealth m' (currentSource m) = Some h'"
      "consecutiveFailures h' = consecutiveFailures h + maxRetries (retryConfig m)"
    by blast
  show "\<exists>r m' w' h'. get24hTicker A symb m w = (Inr r, m', w') \<and> source r = Mock \<and>
           ticker_conforms (payload r) \<and> apiHealth m' (currentSource m) = Some h' \<and>
           consecutiveFailures h' = maxRetries (retryConfig m)"
    using assms(1,3) r h' generate24hTicker_conforms[of symb w']
    by (simp add: get24hTicker_def self_select case_prod_beta Let_def)
next
  assume "always_throws (ad_getKlines (getAPIService A (currentSource m)) symb interval limit) \<and>
      limit < 2 ^ 32"
  then have t: "always_throws (ad_getKlines (getAPIService A (currentSource m)) symb interval limit)"
    and lim: "limit < 2 ^ 32" by simp_all
  from retry_exhausted[OF assms(2) t, of w] obtain e m' w' h' where
    r: "retryWithExponentialBackoff (ad_getKlines (getAPIService A (currentSource m)) symb interval limit)
          (currentSource m) m w = (Inl e, m', w')"
    and h': "apiHealth m' (currentSource m) = Some h'"
      "consecutiveFailures h' = consecutiveFailures h + maxRetries (retryConfig m)"
    by blast
  from generateKlines_valid[OF lim, of symb interval w'] obtain ks where
    ks: "fst (generateKlines symb interval limit w') = Inr ks" "list_all kline_conforms ks"
    by blast
  obtain w'' where g: "generateKlines symb interval limit w' = (Inr ks, w'')"
    using ks(1) by (cases "generateKlines symb interval limit w'") simp
  show "\<exists>r m' w' h'. getKlines A symb interval limit m w = (Inr r, m', w') \<and> source r = Mock \<and>
           list_all kline_conforms (payload r) \<and> apiHealth m' (currentSource m) = Some h' \<and>
           consecutiveFailures h' = maxRetries (retryConfig m)"
    using assms(1,3) r h' ks(2) g
    by (simp add: getKlines_def self_select Let_def)
qed

lemma constructor_fields:
  "fallbackToMock constructor = False"
  "currentSource constructor = Coinbase"
  "retryConfig constructor = \<lparr>maxRetries = 3, baseDelay = 1000, maxDelay = 10000\<rparr>"
  "preferredOrder constructor = [Coinbase, Okx, Kucoin]"
  "apiHealth constructor Coinbase = Some (new_health Coinbase)"
  "apiHealth constructor Okx = Some (new_health Okx)"
  "apiHealth constructor Kucoin = Some (new_health Kucoin)"
  "apiHealth constructor Mock = None"
  by (simp_all add: constructor_def)

lemma failing_adapter_throws:
  "always_throws (ad_getOrderbook (getAPIService failing_adapters src) symb limit)"
  "always_throws (ad_get24hTicker (getAPIService failing_adapters src) symb)"
  "always_throws (ad_getKlines (getAPIService failing_adapters src) symb interval limit)"
  by (cases src; simp add: always_throws_def getAPIService_def failing_adapters_def
      failing_adapter_def scripted_adapter_def scripted_def)+

text \<open>The three calls on a freshly constructed aggregator whose adapters always throw.\<close>

theorem C1_witness:
  "\<not> fallbackToMock constructor \<and>
   apiHealth constructor (currentSource constructor) = Some (new_health Coinbase) \<and>
   consecutiveFailures (new_health Coinbase) = 0 \<and>
   always_throws (ad_getOrderbook (getAPIService failing_adapters (currentSource constructor)) ''BTCUSDT'' 20) \<and>
   always_throws (ad_get24hTicker (getAPIService failing_adapters (currentSource constructor)) ''BTCUSDT'') \<and>
   always_throws (ad_getKlines (getAPIService failing_adapters (currentSource constructor)) ''BTCUSDT'' ''1day'' 30) \<and>
   (30 :: int) < 2 ^ 32 \<and>
   (\<exists>r m' w' h'. getOrderbook failing_adapters ''BTCUSDT'' 20 constructor world0 = (Inr r, m', w') \<and>
       source r = Mock \<and> orderbook_conforms (payload r) \<and>
       apiHealth m' Coinbase = Some h' \<and> consecutiveFailures h' = 3) \<and>
   (\<exists>r m' w' h'. get24hTicker failing_adapters ''BTCUSDT'' constructor world0 = (Inr r, m', w') \<and>
       source r = Mock \<and> ticker_conforms (payload r) \<and>
       apiHealth m' Coinbase = Some h' \<and> consecutiveFailures h' = 3) \<and>
   (\<exists>r m' w' h'. getKlines failing_adapters ''BTCUSDT'' ''1day'' 30 constructor world0 = (Inr r, m', w') \<and>
       source r = Mock \<and> list_all kline_conforms (payload r) \<and>
       apiHealth m' Coinbase = Some h' \<and> consecutiveFailures h' = 3)"
proof -
  have a: "\<not> fallbackToMock constructor"
    and b: "apiHealth constructor (currentSource constructor) = Some (new_health Coinbase)"
    and c: "consecutiveFailures (new_health Coinbase) = 0"
    by (simp_all add: constructor_fields new_health_def)
  show ?thesis
    using C1_exhausted_retries_fall_back_to_mock[OF a b c, of failing_adapters "''BTCUSDT''" 20 world0 "''1day''" 30]
      failing_adapter_throws
    by (simp add: constructor_fields new_health_def)
qed

text \<open>
  Claim C1, as stated, fails for \<open>getKlines\<close> with a count that is not an array length.
  On a freshly constructed aggregator whose adapters always throw, with the count \<open>2^32\<close>,
  the retries are exhausted, \<open>Array.from\<close> of the synthetic generator raises a
  RangeError inside the \<open>catch\<close> block, and the call rejects.
\<close>

theorem C1_getKlines_rejects_invalid_count:
  "\<not> fallbackToMock constructor \<and>
   apiHealth constructor (currentSource constructor) = Some (new_health Coinbase) \<and>
   consecutiveFailures (new_health Coinbase) = 0 \<and>
   always_throws (ad_getKlines (getAPIService failing_adapters (currentSource constructor))
                    ''BTCUSDT'' ''1day'' (2 ^ 32)) \<and>
   fst (getKlines failing_adapters ''BTCUSDT'' ''1day'' (2 ^ 32) constructor world0) = Inl RangeError"
proof -
  have a: "\<not> fallbackToMock constructor"
    and b: "apiHealth constructor (currentSource constructor) = Some (new_health Coinbase)"
    and c: "consecutiveFailures (new_health Coinbase) = 0"
    by (simp_all add: constructor_fields new_health_def)
  have t: "always_throws (ad_getKlines (getAPIService failing_adapters (currentSource constructor))
                    ''BTCUSDT'' ''1day'' (2 ^ 32))"
    by (rule failing_adapter_throws)
  from retry_exhausted[OF b t, of world0] obtain e m' w' where
    r: "retryWithExponentialBackoff
          (ad_getKlines (getAPIService failing_adapters (currentSource constructor))
             ''BTCUSDT'' ''1day'' (2 ^ 32)) (currentSource constructor) constructor world0 =
        (Inl e, m', w')"
    by blast
  have g: "fst (generateKlines ''BTCUSDT'' ''1day'' (2 ^ 32) w') = Inl RangeError"
    by (rule generateKlines_invalid) simp
  have k: "fst (getKlines failing_adapters ''BTCUSDT'' ''1day'' (2 ^ 32) constructor world0) =
      Inl RangeError"
    using a r g
    by (cases "generateKlines ''BTCUSDT'' ''1day'' (2 ^ 32) w'")
       (simp add: getKlines_def self_select Let_def)
  show ?thesis
    by (intro conjI) (fact a b c t k)+
qed

lemma retry_recovers:
  assumes "apiHealth m src = Some h" "k < maxRetries (retryConfig m)"
    and "fails_then_succeeds operation (adapter_calls w) k r"
  shows "\<exists>m' w' h'. retryWithExponentialBackoff operation src m w = (Inr r, m', w') \<and>
        timeouts w' = timeouts w @ map (backoff (retryConfig m)) [0 ..< k] \<and>
        adapter_calls w' = adapter_calls w + k + 1 \<and>
        apiHealth m' src = Some h' \<and> isHealthy h' \<and>
        consecutiveFailures h' = 0 \<and> errorCount h' = 0 \<and>
        retryConfig m' = retryConfig m \<and> currentSource m' = currentSource m"
proof -
  from assms(3) have f: "leaves_instruments operation"
    and a: "\<forall>v. adapter_calls v < adapter_calls w + k \<longrightarrow> (\<exists>e. fst (operation v) = Inl e)"
    and b: "\<forall>v. adapter_calls v = adapter_calls w + k \<longrightarrow> fst (operation v) = Inr r"
    by (simp_all add: fails_then_succeeds_def)
  from assms(2) have lt: "0 + k < maxRetries (retryConfig m)" by simp
  show ?thesis
    using retry_loop_fail_then_succeed[OF f assms(1) lt a b] assms(1)
    by (simp add: retryWithExponentialBackoff_def)
qed

lemma backoff_map:
  "map (backoff c) xs = map (\<lambda>i. min (baseDelay c * 2 ^ i) (maxDelay c)) xs"
  by (simp add: backoff_def)

text \<open>
  Claim C2. When the selected adapter's operation throws on its first \<open>k\<close> calls,
  \<open>k < maxRetries\<close>, and returns a value on the next one, each data call returns that
  value tagged with the selected source, which is not \<open>Mock\<close>, and the delays awaited
  are \<open>min (baseDelay * 2^i) maxDelay\<close> for \<open>i = 0, ..., k-1\<close>, in this order; the
  constructor sets \<open>maxRetries = 3\<close>, \<open>baseDelay = 1000\<close> and \<open>maxDelay = 10000\<close>.
\<close>

theorem C2_retry_then_success:
  assumes "\<not> fallbackToMock m"
    and "apiHealth m (currentSource m) = Some h"
    and "apiHealth m Mock = None"
    and "k < maxRetries (retryConfig m)"
  shows
    "(fails_then_succeeds (ad_getOrderbook (getAPIService A (currentSource m)) symb depth)
         (adapter_calls w) k ob \<longrightarrow>
        (\<exists>m' w'. getOrderbook A symb depth m w =
             (Inr \<lparr>payload = ob, source = currentSource m\<rparr>, m', w') \<and>
           currentSource m \<noteq> Mock \<and>
           timeouts w' = timeouts w @
             map (\<lambda>i. min (baseDelay (retryConfig m) * 2 ^ i) (maxDelay (retryConfig m))) [0 ..< k])) \<and>
     (fails_then_succeeds (ad_get24hTicker (getAPIService A (currentSource m)) symb)
         (adapter_calls w) k ticker \<longrightarrow>
        (\<exists>m' w'. get24hTicker A symb m w =
             (Inr \<lparr>payload = ticker, source = currentSource m\<rparr>, m', w') \<and>
           currentSource m \<noteq> Mock \<and>
           timeouts w' = timeouts w @
             map (\<lambda>i. min (baseDelay (retryConfig m) * 2 ^ i) (maxDelay (retryConfig m))) [0 ..< k])) \<and>
     (fails_then_succeeds (ad_getKlines (getAPIService A (currentSource m)) symb interval limit)
         (adapter_calls w) k klines \<longrightarrow>
        (\<exists>m' w'. getKlines A symb interval limit m w =
             (Inr \<lparr>payload = klines, source = currentSource m\<rparr>, m', w') \<and>
           currentSource m \<noteq> Mock \<and>
           timeouts w' = timeouts w @
             map (\<lambda>i. min (baseDelay (retryConfig m) * 2 ^ i) (maxDelay (retryConfig m))) [0 ..< k])) \<and>
     retryConfig constructor = \<lparr>maxRetries = 3, baseDelay = 1000, maxDelay = 10000\<rparr>"
proof -
  have real: "currentSource m \<noteq> Mock" using assms(2,3) by auto
  show ?thesis
  proof (intro conjI impI)
    assume t: "fails_then_succeeds (ad_getOrderbook (getAPIService A (currentSource m)) symb depth)
         (adapter_calls w) k ob"
    from retry_recovers[OF assms(2,4) t] obtain m' w' where
      "retryWithExponentialBackoff (ad_getOrderbook (getAPIService A (currentSource m)) symb depth)
          (currentSource m) m w = (Inr ob, m', w')"
      "timeouts w' = timeouts w @ map (backoff (retryConfig m)) [0 ..< k]"
      by blast
    then show "\<exists>m' w'. getOrderbook A symb depth m w =
             (Inr \<lparr>payload = ob, source = currentSource m\<rparr>, m', w') \<and>
           currentSource m \<noteq> Mock \<and>
           timeouts w' = timeouts w @
             map (\<lambda>i. min (baseDelay (retryConfig m) * 2 ^ i) (maxDelay (retryConfig m))) [0 ..< k]"
      using assms(1) real
      by (simp add: getOrderbook_def self_select Let_def orderbook_copy backoff_map)
  next
    assume t: "fails_then_succeeds (ad_get24hTicker (getAPIService A (currentSource m)) symb)
         (adapter_calls w) k ticker"
    from retry_recovers[OF assms(2,4) t] obtain m' w' where
      "retryWithExponentialBackoff (ad_get24hTicker (getAPIService A (currentSource m)) symb)
          (currentSource m) m w = (Inr ticker, m', w')"
      "timeouts w' = timeouts w @ map (backoff (retryConfig m)) [0 ..< k]"
      by blast
    then show "\<exists>m' w'. get24hTicker A symb m w =
             (Inr \<lparr>payload = ticker, source = currentSource m\<rparr>, m', w') \<and>
           currentSource m \<noteq> Mock \<and>
           timeouts w' = timeouts w @
             map (\<lambda>i. min (baseDelay (retryConfig m) * 2 ^ i) (maxDelay (retryConfig m))) [0 ..< k]"
      using assms(1) real
      by (simp add: get24hTicker_def self_select Let_def backoff_map)
  next
    assume t: "fails_then_succeeds (ad_getKlines (getAPIService A (currentSource m)) symb interval limit)
         (adapter_calls w) k klines"
    from retry_recovers[OF assms(2,4) t] obtain m' w' where
      "retryWithExponentialBackoff (ad_getKlines (getAPIService A (currentSource m)) symb interval limit)
          (currentSource m) m w = (Inr klines, m', w')"
      "timeouts w' = timeouts w @ map (backoff (retryConfig m)) [0 ..< k]"
      by blast
    then show "\<exists>m' w'. getKlines A symb interval limit m w =
             (Inr \<lparr>payload = klines, source = currentSource m\<rparr>, m', w') \<and>
           currentSource m \<noteq> Mock \<and>
           timeouts w' = timeouts w @
             map (\<lambda>i. min (baseDelay (retryConfig m) * 2 ^ i) (maxDelay (retryConfig m))) [0 ..< k]"
      using assms(1) real
      by (simp add: getKlines_def self_select Let_def backoff_map)
  next
    show "retryConfig constructor = \<lparr>maxRetries = 3, baseDelay = 1000, maxDelay = 10000\<rparr>"
      by (simp add: constructor_fields)
  qed
qed

lemma flaky_fails_then_succeeds:
  "fails_then_succeeds (ad_getOrderbook (getAPIService (flaky_adapters k) src) symb depth) 0 k sample_orderbook"
  "fails_then_succeeds (ad_get24hTicker (getAPIService (flaky_adapters k) src) symb) 0 k sample_ticker"
  "fails_then_succeeds (ad_getKlines (getAPIService (flaky_adapters k) src) symb interval limit) 0 k []"
  by (cases src; simp add: fails_then_succeeds_def leaves_instruments_def getAPIService_def
      flaky_adapters_def flaky_adapter_def scripted_adapter_def scripted_def)+

text \<open>
  Two failures and a success on a fresh aggregator: the delays are 1000 and 2000 ms.
\<close>

theorem C2_witness:
  "\<not> fallbackToMock constructor \<and>
   apiHealth constructor (currentSource constructor) = Some (new_health Coinbase) \<and>
   apiHealth constructor Mock = None \<and>
   2 < maxRetries (retryConfig constructor) \<and>
   fails_then_succeeds
     (ad_getOrderbook (getAPIService (flaky_adapters 2) (currentSource constructor)) ''BTCUSDT'' 20)
     (adapter_calls world0) 2 sample_orderbook \<and>
   fails_then_succeeds
     (ad_get24hTicker (getAPIService (flaky_adapters 2) (currentSource constructor)) ''BTCUSDT'')
     (adapter_calls world0) 2 sample_ticker \<and>
   fails_then_succeeds
     (ad_getKlines (getAPIService (flaky_adapters 2) (currentSource constructor)) ''BTCUSDT'' ''1day'' 30)
     (adapter_calls world0) 2 [] \<and>
   (\<exists>m' w'. getOrderbook (flaky_adapters 2) ''BTCUSDT'' 20 constructor world0 =
        (Inr \<lparr>payload = sample_orderbook, source = Coinbase\<rparr>, m', w') \<and>
      timeouts w' = [1000, 2000]) \<and>
   (\<exists>m' w'. get24hTicker (flaky_adapters 2) ''BTCUSDT'' constructor world0 =
        (Inr \<lparr>payload = sample_ticker, source = Coinbase\<rparr>, m', w') \<and>
      timeouts w' = [1000, 2000]) \<and>
   (\<exists>m' w'. getKlines (flaky_adapters 2) ''BTCUSDT'' ''1day'' 30 constructor world0 =
        (Inr \<lparr>payload = [], source = Coinbase\<rparr>, m', w') \<and>
      timeouts w' = [1000, 2000])"
proof -
  have a: "\<not> fallbackToMock constructor"
    and b: "apiHealth constructor (currentSource constructor) = Some (new_health Coinbase)"
    and c: "apiHealth constructor Mock = None"
    and d: "2 < maxRetries (retryConfig constructor)"
    by (simp_all add: constructor_fields)
  have calls: "adapter_calls world0 = 0" by (simp add: world0_def)
  have touts: "timeouts world0 = []" by (simp add: world0_def)
  have upt2: "[0 ..< 2] = [0, Suc 0]" by (simp add: numeral_2_eq_2)
  show ?thesis
    using C2_retry_then_success[OF a b c d, of "flaky_adapters 2" "''BTCUSDT''" 20 world0
        sample_orderbook sample_ticker "''1day''" 30 "[]"]
      flaky_fails_then_succeeds[of 2]
    by (simp add: constructor_fields calls touts upt2)
qed

text \<open>
  Claim C3, amended. A health update of a tracked source that leaves every tracked source
  with \<open>consecutiveFailures \<ge> maxRetries\<close> leaves mock-fallback mode enabled; and in that
  mode every data call returns synthetic data tagged \<open>Mock\<close>, whatever the adapters
  are, with the aggregator's state unchanged (so the mode stays enabled), no adapter
  operation started, no fetch made and no delay awaited. For \<open>getKlines\<close> this holds
  when the requested count is an array length (below \<open>2^32\<close>).
\<close>

theorem C3_global_escalation:
  "(apiHealth m src \<noteq> None \<and>
    (\<forall>s h. apiHealth (fst (updateHealth src healthy rt m w)) s = Some h \<longrightarrow>
       consecutiveFailures h \<ge> maxRetries (retryConfig m)) \<longrightarrow>
      getIsMockMode (fst (updateHealth src healthy rt m w))) \<and>
   (getIsMockMode m \<longrightarrow>
      (\<exists>w'. getOrderbook A symb depth m w =
           (Inr \<lparr>payload = fst (generateOrderbook symb w), source = Mock\<rparr>, m, w') \<and>
         adapter_calls w' = adapter_calls w \<and> network_used w' = network_used w \<and>
         timeouts w' = timeouts w) \<and>
      (\<exists>w'. get24hTicker A symb m w =
           (Inr \<lparr>payload = fst (generate24hTicker symb w), source = Mock\<rparr>, m, w') \<and>
         adapter_calls w' = adapter_calls w \<and> network_used w' = network_used w \<and>
         timeouts w' = timeouts w) \<and>
      (limit < 2 ^ 32 \<longrightarrow>
        (\<exists>klines w'. getKlines A symb interval limit m w =
           (Inr \<lparr>payload = klines, source = Mock\<rparr>, m, w') \<and>
         fst (generateKlines symb interval limit w) = Inr klines \<and>
         adapter_calls w' = adapter_calls w \<and> network_used w' = network_used w \<and>
         timeouts w' = timeouts w)))"
proof (intro conjI impI)
  assume a: "apiHealth m src \<noteq> None \<and>
    (\<forall>s h. apiHealth (fst (updateHealth src healthy rt m w)) s = Some h \<longrightarrow>
       consecutiveFailures h \<ge> maxRetries (retryConfig m))"
  then obtain h where h: "apiHealth m src = Some h" by auto
  from updateHealth_escalates[OF h] a
  show "getIsMockMode (fst (updateHealth src healthy rt m w))"
    by (simp add: getIsMockMode_def)
next
  assume "getIsMockMode m"
  then show "\<exists>w'. getOrderbook A symb depth m w =
           (Inr \<lparr>payload = fst (generateOrderbook symb w), source = Mock\<rparr>, m, w') \<and>
         adapter_calls w' = adapter_calls w \<and> network_used w' = network_used w \<and>
         timeouts w' = timeouts w"
    using generateOrderbook_quiet[of w symb]
    by (simp add: getOrderbook_def getIsMockMode_def case_prod_beta orderbook_copy quiet_def)
next
  assume "getIsMockMode m"
  then show "\<exists>w'. get24hTicker A symb m w =
           (Inr \<lparr>payload = fst (generate24hTicker symb w), source = Mock\<rparr>, m, w') \<and>
         adapter_calls w' = adapter_calls w \<and> network_used w' = network_used w \<and>
         timeouts w' = timeouts w"
    using generate24hTicker_quiet[of w symb]
    by (simp add: get24hTicker_def getIsMockMode_def case_prod_beta quiet_def)
next
  assume mm: "getIsMockMode m" and lim: "limit < 2 ^ 32"
  from generateKlines_valid[OF lim, of symb interval w] obtain ks where
    ks: "fst (generateKlines symb interval limit w) = Inr ks" by blast
  obtain w1 where g: "generateKlines symb interval limit w = (Inr ks, w1)"
    using ks by (cases "generateKlines symb interval limit w") simp
  show "\<exists>klines w'. getKlines A symb interval limit m w =
           (Inr \<lparr>payload = klines, source = Mock\<rparr>, m, w') \<and>
         fst (generateKlines symb interval limit w) = Inr klines \<and>
         adapter_calls w' = adapter_calls w \<and> network_used w' = network_used w \<and>
         timeouts w' = timeouts w"
    using mm g generateKlines_quiet[of w symb interval limit]
    by (simp add: getKlines_def getIsMockMode_def quiet_def)
qed

lemma exhausted_but_fields:
  "apiHealth (exhausted_but src) s =
     (if s = Mock then None
      else Some ((new_health s)\<lparr>isHealthy := (s = src), errorCount := (if s = src then 2 else 3),
                         consecutiveFailures := (if s = src then 2 else 3)\<rparr>))"
  "retryConfig (exhausted_but src) = \<lparr>maxRetries = 3, baseDelay = 1000, maxDelay = 10000\<rparr>"
  "fallbackToMock (exhausted_but src) = False"
  by (simp_all add: exhausted_but_def constructor_fields)

text \<open>
  Coinbase and OKX are exhausted and KuCoin fails for the third time; then the three
  calls in mock mode.
\<close>

theorem C3_witness:
  "apiHealth (exhausted_but Kucoin) Kucoin \<noteq> None \<and>
   list_all (\<lambda>h. consecutiveFailures h \<ge> maxRetries (retryConfig (exhausted_but Kucoin)))
     (health_values (fst (updateHealth Kucoin False None (exhausted_but Kucoin) world0))) \<and>
   \<not> getIsMockMode (exhausted_but Kucoin) \<and>
   getIsMockMode (fst (updateHealth Kucoin False None (exhausted_but Kucoin) world0)) \<and>
   getIsMockMode (enableMockMode constructor) \<and>
   (30 :: int) < 2 ^ 32 \<and>
   (\<exists>r w'. getOrderbook failing_adapters ''BTCUSDT'' 20 (enableMockMode constructor) world0 =
        (Inr r, enableMockMode constructor, w') \<and> source r = Mock \<and>
      adapter_calls w' = 0 \<and> network_used w' = 0 \<and> timeouts w' = []) \<and>
   (\<exists>r w'. get24hTicker failing_adapters ''BTCUSDT'' (enableMockMode constructor) world0 =
        (Inr r, enableMockMode constructor, w') \<and> source r = Mock \<and>
      adapter_calls w' = 0 \<and> network_used w' = 0 \<and> timeouts w' = []) \<and>
   (\<exists>r w'. getKlines failing_adapters ''BTCUSDT'' ''1day'' 30 (enableMockMode constructor) world0 =
        (Inr r, enableMockMode constructor, w') \<and> source r = Mock \<and>
      adapter_calls w' = 0 \<and> network_used w' = 0 \<and> timeouts w' = [])"
proof -
  have t: "apiHealth (exhausted_but Kucoin) Kucoin =
      Some ((new_health Kucoin)\<lparr>isHealthy := True, errorCount := 2, consecutiveFailures := 2\<rparr>)"
    by (simp add: exhausted_but_fields)
  have all: "\<forall>s h. apiHealth (fst (updateHealth Kucoin False None (exhausted_but Kucoin) world0)) s = Some h
      \<longrightarrow> consecutiveFailures h \<ge> maxRetries (retryConfig (exhausted_but Kucoin))"
    by (auto simp add: updateHealth_tracked(1)[OF t] exhausted_but_fields updated_health_def
        new_health_def split: if_splits)
  have mm: "getIsMockMode (enableMockMode constructor)"
    by (simp add: getIsMockMode_def enableMockMode_def)
  have before: "\<not> getIsMockMode (exhausted_but Kucoin)"
    by (simp add: getIsMockMode_def exhausted_but_fields)
  have w0: "adapter_calls world0 = 0" "network_used world0 = 0" "timeouts world0 = []"
    by (simp_all add: world0_def)
  from C3_global_escalation[of "exhausted_but Kucoin" Kucoin False None world0
      failing_adapters "''BTCUSDT''" 20 30 "''1day''"] all t
  have esc: "getIsMockMode (fst (updateHealth Kucoin False None (exhausted_but Kucoin) world0))"
    by simp
  from C3_global_escalation[of "enableMockMode constructor" Kucoin False None world0
      failing_adapters "''BTCUSDT''" 20 30 "''1day''"] mm
  have calls:
    "(\<exists>w'. getOrderbook failing_adapters ''BTCUSDT'' 20 (enableMockMode constructor) world0 =
           (Inr \<lparr>payload = fst (generateOrderbook ''BTCUSDT'' world0), source = Mock\<rparr>,
            enableMockMode constructor, w') \<and>
         adapter_calls w' = 0 \<and> network_used w' = 0 \<and> timeouts w' = [])"
    "(\<exists>w'. get24hTicker failing_adapters ''BTCUSDT'' (enableMockMode constructor) world0 =
           (Inr \<lparr>payload = fst (generate24hTicker ''BTCUSDT'' world0), source = Mock\<rparr>,
            enableMockMode constructor, w') \<and>
         adapter_calls w' = 0 \<and> network_used w' = 0 \<and> timeouts w' = [])"
    "(\<exists>klines w'. getKlines failing_adapters ''BTCUSDT'' ''1day'' 30 (enableMockMode constructor) world0 =
           (Inr \<lparr>payload = klines, source = Mock\<rparr>, enableMockMode constructor, w') \<and>
         fst (generateKlines ''BTCUSDT'' ''1day'' 30 world0) = Inr klines \<and>
         adapter_calls w' = 0 \<and> network_used w' = 0 \<and> timeouts w' = [])"
    by (simp_all add: w0)
  have o: "\<exists>r w'. getOrderbook failing_adapters ''BTCUSDT'' 20 (enableMockMode constructor) world0 =
        (Inr r, enableMockMode constructor, w') \<and> source r = Mock \<and>
      adapter_calls w' = 0 \<and> network_used w' = 0 \<and> timeouts w' = []"
    using calls(1) by fastforce
  have k: "\<exists>r w'. get24hTicker failing_adapters ''BTCUSDT'' (enableMockMode constructor) world0 =
        (Inr r, enableMockMode constructor, w') \<and> source r = Mock \<and>
      adapter_calls w' = 0 \<and> network_used w' = 0 \<and> timeouts w' = []"
    using calls(2) by fastforce
  have l: "\<exists>r w'. getKlines failing_adapters ''BTCUSDT'' ''1day'' 30 (enableMockMode constructor) world0 =
        (Inr r, enableMockMode constructor, w') \<and> source r = Mock \<and>
      adapter_calls w' = 0 \<and> network_used w' = 0 \<and> timeouts w' = []"
    using calls(3) by fastforce
  have all': "list_all (\<lambda>h. consecutiveFailures h \<ge> maxRetries (retryConfig (exhausted_but Kucoin)))
     (health_values (fst (updateHealth Kucoin False None (exhausted_but Kucoin) world0)))"
    using all by (simp add: health_values_all)
  show ?thesis
    using t all' before esc mm o k l by simp
qed

text \<open>
  Claim C3, as stated, fails for \<open>getKlines\<close> with a count that is not an array length.
  Coinbase and OKX are exhausted and KuCoin fails for the third time, which enables
  mock-fallback mode; in that mode \<open>getKlines\<close> with the count \<open>2^32\<close> calls the synthetic
  generator outside any \<open>try\<close>, and its RangeError rejects the call.
\<close>

theorem C3_getKlines_rejects_in_mock_mode:
  "list_all (\<lambda>h. consecutiveFailures h \<ge> maxRetries (retryConfig (exhausted_but Kucoin)))
     (health_values (fst (updateHealth Kucoin False None (exhausted_but Kucoin) world0))) \<and>
   getIsMockMode (fst (updateHealth Kucoin False None (exhausted_but Kucoin) world0)) \<and>
   fst (getKlines failing_adapters ''BTCUSDT'' ''1day'' (2 ^ 32)
          (fst (updateHealth Kucoin False None (exhausted_but Kucoin) world0)) world0) =
     Inl RangeError"
proof -
  let ?m = "fst (updateHealth Kucoin False None (exhausted_but Kucoin) world0)"
  have t: "apiHealth (exhausted_but Kucoin) Kucoin =
      Some ((new_health Kucoin)\<lparr>isHealthy := True, errorCount := 2, consecutiveFailures := 2\<rparr>)"
    by (simp add: exhausted_but_fields)
  have all: "\<forall>s h. apiHealth ?m s = Some h
      \<longrightarrow> consecutiveFailures h \<ge> maxRetries (retryConfig (exhausted_but Kucoin))"
    by (auto simp add: updateHealth_tracked(1)[OF t] exhausted_but_fields updated_health_def
        new_health_def split: if_splits)
  have l: "list_all (\<lambda>h. consecutiveFailures h \<ge> maxRetries (retryConfig (exhausted_but Kucoin)))
     (health_values ?m)"
    using all by (simp add: health_values_all)
  have f: "fallbackToMock ?m"
    by (rule updateHealth_escalates[OF t all])
  then have mm: "getIsMockMode ?m" by (simp add: getIsMockMode_def)
  have g: "fst (generateKlines ''BTCUSDT'' ''1day'' (2 ^ 32) world0) = Inl RangeError"
    by (rule generateKlines_invalid) simp
  have k: "fst (getKlines failing_adapters ''BTCUSDT'' ''1day'' (2 ^ 32) ?m world0) = Inl RangeError"
    using f g
    by (cases "generateKlines ''BTCUSDT'' ''1day'' (2 ^ 32) world0") (simp add: getKlines_def)
  show ?thesis
    by (intro conjI) (fact l mm k)+
qed

text \<open>
  Claim C4, as stated, fails for \<open>switchToAPI\<close>: on an aggregator in mock-fallback mode
  the switch to the recognized source OKX succeeds and the mode is still enabled.
\<close>

theorem C4_switchToAPI_keeps_latch:
  "Okx \<in> set (preferredOrder (enableMockMode constructor)) \<and>
   getIsMockMode (enableMockMode constructor) \<and>
   fst (switchToAPI Okx (enableMockMode constructor)) \<and>
   getCurrentSource (snd (switchToAPI Okx (enableMockMode constructor))) = Okx \<and>
   getIsMockMode (snd (switchToAPI Okx (enableMockMode constructor)))"
  by (simp add: switchToAPI_def enableMockMode_def getIsMockMode_def getCurrentSource_def
      constructor_fields)

text \<open>
  Claim C4, amended. \<open>forceSwitch\<close> selects the source and disables mock-fallback
  mode; \<open>switchToAPI\<close> on a recognized source selects it and returns true, and leaves
  mock-fallback mode as it was.
\<close>

theorem C4_source_switch_and_latch:
  "getIsMockMode (forceSwitch src m) = False \<and>
   getCurrentSource (forceSwitch src m) = src \<and>
   (src \<in> set (preferredOrder m) \<longrightarrow>
      fst (switchToAPI src m) \<and>
      getCurrentSource (snd (switchToAPI src m)) = src \<and>
      getIsMockMode (snd (switchToAPI src m)) = getIsMockMode m)"
  by (simp add: forceSwitch_def switchToAPI_def getIsMockMode_def getCurrentSource_def)

text \<open>
  Both switches to OKX on an aggregator in mock-fallback mode.
\<close>

theorem C4_witness:
  "getIsMockMode (enableMockMode constructor) \<and>
   Okx \<in> set (preferredOrder (enableMockMode constructor)) \<and>
   getIsMockMode (forceSwitch Okx (enableMockMode constructor)) = False \<and>
   getCurrentSource (forceSwitch Okx (enableMockMode constructor)) = Okx \<and>
   fst (switchToAPI Okx (enableMockMode constructor)) \<and>
   getCurrentSource (snd (switchToAPI Okx (enableMockMode constructor))) = Okx \<and>
   getIsMockMode (snd (switchToAPI Okx (enableMockMode constructor))) = True"
  using C4_source_switch_and_latch[of Okx "enableMockMode constructor"]
  by (simp add: enableMockMode_def getIsMockMode_def constructor_fields)

text \<open>
  Claim C6, as stated, fails: after one failure \<open>errorCount\<close> is 1, and the success that
  follows sets it to 0.
\<close>

theorem C6_success_resets_errorCount:
  "\<exists>h h'. apiHealth (fst (updateHealth Okx False None constructor world0)) Okx = Some h \<and>
      errorCount h = 1 \<and>
      apiHealth (fst (updateHealth Okx True None
                  (fst (updateHealth Okx False None constructor world0)) world0)) Okx = Some h' \<and>
      isHealthy h' \<and> errorCount h' = 0 \<and> errorCount h' \<noteq> errorCount h"
proof -
  have a: "apiHealth (fst (updateHealth Okx False None constructor world0)) Okx =
      Some (updated_health False None (clock world0 (clock_used world0)) (new_health Okx))"
    using updateHealth_tracked(1)[OF constructor_fields(6)] by simp
  show ?thesis
    unfolding a using updateHealth_tracked(1)[OF a, of True None world0]
    by (simp add: updated_health_def new_health_def)
qed

text \<open>
  Claim C6, amended. A success recorded for a tracked source marks it healthy and sets
  both \<open>consecutiveFailures\<close> and \<open>errorCount\<close> to 0; so does a request through the
  retry loop that succeeds after \<open>k < maxRetries\<close> failed attempts.
\<close>

theorem C6_success_marks_healthy:
  "(apiHealth m src = Some h \<longrightarrow>
      (\<exists>h'. apiHealth (fst (updateHealth src True rt m w)) src = Some h' \<and>
         isHealthy h' \<and> consecutiveFailures h' = 0 \<and> errorCount h' = 0)) \<and>
   (apiHealth m src = Some h \<and> k < maxRetries (retryConfig m) \<and>
    fails_then_succeeds operation (adapter_calls w) k r \<longrightarrow>
      (\<exists>m' w' h'. retryWithExponentialBackoff operation src m w = (Inr r, m', w') \<and>
         apiHealth m' src = Some h' \<and>
         isHealthy h' \<and> consecutiveFailures h' = 0 \<and> errorCount h' = 0))"
proof (intro conjI impI)
  assume "apiHealth m src = Some h"
  from updateHealth_tracked(1)[OF this, of True rt w]
  show "\<exists>h'. apiHealth (fst (updateHealth src True rt m w)) src = Some h' \<and>
         isHealthy h' \<and> consecutiveFailures h' = 0 \<and> errorCount h' = 0"
    by (simp add: updated_health_def)
next
  assume a: "apiHealth m src = Some h \<and> k < maxRetries (retryConfig m) \<and>
    fails_then_succeeds operation (adapter_calls w) k r"
  then have "apiHealth m src = Some h" "k < maxRetries (retryConfig m)"
    "fails_then_succeeds operation (adapter_calls w) k r" by simp_all
  from retry_recovers[OF this]
  show "\<exists>m' w' h'. retryWithExponentialBackoff operation src m w = (Inr r, m', w') \<and>
         apiHealth m' src = Some h' \<and>
         isHealthy h' \<and> consecutiveFailures h' = 0 \<and> errorCount h' = 0"
    by blast
qed

text \<open>
  OKX after two failures, then a success; and a request that fails once and succeeds.
\<close>

theorem C6_witness:
  "(\<exists>h. apiHealth after_failures Okx = Some h \<and> \<not> isHealthy h \<and>
        consecutiveFailures h = 2 \<and> errorCount h = 2) \<and>
   (\<exists>h'. apiHealth (fst (updateHealth Okx True None after_failures world0)) Okx = Some h' \<and>
        isHealthy h' \<and> consecutiveFailures h' = 0 \<and> errorCount h' = 0) \<and>
   (1 :: nat) < maxRetries (retryConfig after_failures) \<and>
   fails_then_succeeds (scripted (\<lambda>i. if i < 1 then Inl NetworkError else Inr sample_ticker))
     (adapter_calls world0) 1 sample_ticker \<and>
   (\<exists>m' w' h'. retryWithExponentialBackoff
        (scripted (\<lambda>i. if i < 1 then Inl NetworkError else Inr sample_ticker)) Okx after_failures world0 =
        (Inr sample_ticker, m', w') \<and>
      apiHealth m' Okx = Some h' \<and> isHealthy h' \<and> consecutiveFailures h' = 0 \<and> errorCount h' = 0)"
proof -
  have a: "apiHealth (fst (updateHealth Okx False None constructor world0)) Okx =
      Some (updated_health False None (clock world0 (clock_used world0)) (new_health Okx))"
    using updateHealth_tracked(1)[OF constructor_fields(6)] by simp
  have b: "apiHealth after_failures Okx =
      Some (updated_health False None (clock world0 (clock_used world0))
             (updated_health False None (clock world0 (clock_used world0)) (new_health Okx)))"
    unfolding after_failures_def using updateHealth_tracked(1)[OF a] by simp
  have cfg: "(1 :: nat) < maxRetries (retryConfig after_failures)"
    by (simp add: after_failures_def updateHealth_frame constructor_fields)
  have f: "fails_then_succeeds (scripted (\<lambda>i. if i < 1 then Inl NetworkError else Inr sample_ticker))
     (adapter_calls world0) 1 sample_ticker"
    by (simp add: fails_then_succeeds_def leaves_instruments_def scripted_def world0_def)
  show ?thesis
    using C6_success_marks_healthy[of after_failures Okx _ None world0 1
        "scripted (\<lambda>i. if i < 1 then Inl NetworkError else Inr sample_ticker)" sample_ticker]
      b cfg f
    by (simp add: updated_health_def new_health_def)
qed

lemma forEach_isolated_invoked:
  "invoked (forEach_isolated cs d h) = invoked h @ map (\<lambda>c. (c, d)) cs"
  by (induction cs arbitrary: h) (simp_all add: call_def)

lemma forEach_isolated_frame:
  "subscribers (forEach_isolated cs d h) = subscribers h"
  "throws_on (forEach_isolated cs d h) = throws_on h"
  by (induction cs arbitrary: h) (simp_all add: call_def)

lemma forEach_plain_no_throw:
  "\<forall>c \<in> set cs. \<not> throws_on h c d \<Longrightarrow>
     forEach_plain cs d h = (Inr (), h\<lparr>invoked := invoked h @ map (\<lambda>c. (c, d)) cs\<rparr>)"
  by (induction cs arbitrary: h) (simp_all add: call_def)

lemma forEach_plain_throw:
  "throws_on h c d \<Longrightarrow> \<forall>b \<in> set before. \<not> throws_on h b d \<Longrightarrow>
     forEach_plain (before @ c # rest) d h =
       (Inl (Failure ''subscriber''), h\<lparr>invoked := invoked h @ map (\<lambda>c. (c, d)) (before @ [c])\<rparr>)"
  by (induction before arbitrary: h) (simp_all add: call_def)

lemma count_list_map_pair:
  "count_list (map (\<lambda>c. (c, d)) cs) (cb, d) = count_list cs cb"
  by (induction cs) simp_all

lemma count_list_distinct: "distinct cs \<Longrightarrow> cb \<in> set cs \<Longrightarrow> count_list cs cb = 1"
  by (induction cs) (auto simp: count_list_0_iff)

lemma Set_add_distinct: "distinct xs \<Longrightarrow> distinct (Set_add x xs)"
  by (simp add: Set_add_def)

lemma Set_add_member: "x \<in> set (Set_add x xs)"
  by (simp add: Set_add_def)

lemma Set_add_idem: "Set_add x (Set_add x xs) = Set_add x xs"
  by (simp add: Set_add_def)

lemma subscribe_channel:
  "subscribers (snd (subscribe channel cb h)) =
     (subscribers h)(channel \<mapsto> Set_add cb (channel_subscribers h channel))"
  by (auto simp add: subscribe_def Let_def channel_subscribers_def split: option.splits)

lemma subscribe_frame:
  "throws_on (snd (subscribe channel cb h)) = throws_on h"
  "invoked (snd (subscribe channel cb h)) = invoked h"
  "fst (subscribe channel cb h) = unsubscribe channel cb"
  by (simp_all add: subscribe_def Let_def)

lemma subscribe_twice: "snd (subscribe channel cb (snd (subscribe channel cb h))) = snd (subscribe channel cb h)"
  by (auto simp add: subscribe_def Let_def Set_add_idem split: option.splits)

lemma hub_sets_subscribe: "hub_sets h \<Longrightarrow> hub_sets (snd (subscribe channel cb h))"
  unfolding hub_sets_def subscribe_channel
  by (auto simp add: channel_subscribers_def Set_add_distinct split: option.splits if_splits)

lemma hub_sets_unsubscribe: "hub_sets h \<Longrightarrow> hub_sets (unsubscribe channel cb h)"
  unfolding hub_sets_def unsubscribe_def
  by (auto simp add: Let_def Set_delete_def distinct_removeAll split: option.splits if_splits)

lemma hub_sets_new: "hub_sets (new_hub b)"
  by (simp add: hub_sets_def new_hub_def)

lemma unsubscribe_removes: "cb \<notin> set (channel_subscribers (unsubscribe channel cb h) channel)"
  by (simp add: unsubscribe_def channel_subscribers_def Let_def Set_delete_def split: option.splits)

lemma forEach_plain_frame: "throws_on (snd (forEach_plain cs d h)) = throws_on h"
  by (induction cs arbitrary: h) (simp_all add: call_def)

lemma forEach_plain_invoked:
  "invoked (snd (forEach_plain cs d h)) = invoked h @ map (\<lambda>c. (c, d)) (reached (throws_on h) d cs)"
  by (induction cs arbitrary: h) (simp_all add: call_def)

lemma reached_subset: "set (reached t d cs) \<subseteq> set cs"
  by (induction cs) auto

lemma count_reached:
  "distinct cs \<Longrightarrow> cb \<in> set cs \<Longrightarrow> \<forall>c \<in> set (takeWhile (\<lambda>c. c \<noteq> cb) cs). \<not> t c d \<Longrightarrow>
     count_list (reached t d cs) cb = 1"
proof (induction cs)
  case Nil
  then show ?case by simp
next
  case (Cons c cs)
  show ?case
  proof (cases "c = cb")
    case True
    with Cons.prems(1) have "cb \<notin> set cs" by simp
    with reached_subset[of t d cs] have "cb \<notin> set (reached t d cs)" by blast
    then show ?thesis using True by (simp add: count_list_0_iff)
  next
    case False
    with Cons show ?thesis by simp
  qed
qed

text \<open>
  Claim C9 on \<open>WebSocketService\<close>: two subscribers of the channel \<open>orderbook\<close>, the first of
  which throws. \<open>notifySubscribers\<close> throws and the second subscriber is never invoked.
\<close>

theorem C9_WebSocketService_stops_at_throw:
  "channel_subscribers
     (snd (subscribe ''orderbook'' 2 (snd (subscribe ''orderbook'' 1 (new_hub (\<lambda>c d. c = 1))))))
     ''orderbook'' = [1, 2] \<and>
   WebSocketService_notifySubscribers ''orderbook'' (7 :: nat)
     (snd (subscribe ''orderbook'' 2 (snd (subscribe ''orderbook'' 1 (new_hub (\<lambda>c d. c = 1)))))) =
     (Inl (Failure ''subscriber''),
      (snd (subscribe ''orderbook'' 2 (snd (subscribe ''orderbook'' 1 (new_hub (\<lambda>c d. c = 1))))))
        \<lparr>invoked := [(1, 7)]\<rparr>) \<and>
   invoked (Enhanced_notifySubscribers ''orderbook'' (7 :: nat)
     (snd (subscribe ''orderbook'' 2 (snd (subscribe ''orderbook'' 1 (new_hub (\<lambda>c d. c = 1))))))) =
     [(1, 7), (2, 7)]"
  by (simp add: subscribe_def unsubscribe_def new_hub_def Let_def Set_add_def channel_subscribers_def
      WebSocketService_notifySubscribers_def Enhanced_notifySubscribers_def call_def)

text \<open>
  After the same callback is subscribed twice to a channel of a hub whose subscriber
  sets are sets, the channel holds it once. A publish of \<open>EnhancedWebSocketService\<close>
  invokes it exactly once; so does a publish of \<open>WebSocketService\<close> when no callback
  subscribed before it throws. Either of the two closures returned, called once, leaves
  the channel without the callback.
\<close>

lemma subscribing_twice_registers_once:
  assumes "hub_sets h"
    and "h2 = snd (subscribe channel cb (snd (subscribe channel cb h)))"
  shows
    "h2 = snd (subscribe channel cb h) \<and>
     count_list (channel_subscribers h2 channel) cb = 1 \<and>
     count_list (invoked (Enhanced_notifySubscribers channel d h2)) (cb, d) =
       count_list (invoked h2) (cb, d) + 1 \<and>
     ((\<forall>c \<in> set (takeWhile (\<lambda>c. c \<noteq> cb) (channel_subscribers h2 channel)). \<not> throws_on h2 c d) \<longrightarrow>
        count_list (invoked (snd (WebSocketService_notifySubscribers channel d h2))) (cb, d) =
          count_list (invoked h2) (cb, d) + 1) \<and>
     cb \<notin> set (channel_subscribers (fst (subscribe channel cb h) h2) channel) \<and>
     cb \<notin> set (channel_subscribers
                  (fst (subscribe channel cb (snd (subscribe channel cb h))) h2) channel)"
proof -
  have once: "h2 = snd (subscribe channel cb h)"
    using assms(2) by (simp add: subscribe_twice)
  have sets: "hub_sets h2"
    unfolding once using assms(1) by (rule hub_sets_subscribe)
  obtain cs where cs: "subscribers h2 channel = Some cs" "cb \<in> set cs"
    unfolding once subscribe_channel by (simp add: Set_add_member)
  then have ch: "channel_subscribers h2 channel = cs"
    by (simp add: channel_subscribers_def)
  have d: "distinct cs" using sets cs(1) by (auto simp: hub_sets_def)
  have c1: "count_list (channel_subscribers h2 channel) cb = 1"
    unfolding ch using d cs(2) by (rule count_list_distinct)
  have e: "count_list (invoked (Enhanced_notifySubscribers channel d h2)) (cb, d) =
       count_list (invoked h2) (cb, d) + 1"
    using c1 unfolding ch
    by (simp add: Enhanced_notifySubscribers_def cs(1) forEach_isolated_invoked count_list_map_pair)
  have w: "(\<forall>c \<in> set (takeWhile (\<lambda>c. c \<noteq> cb) (channel_subscribers h2 channel)). \<not> throws_on h2 c d) \<longrightarrow>
        count_list (invoked (snd (WebSocketService_notifySubscribers channel d h2))) (cb, d) =
          count_list (invoked h2) (cb, d) + 1"
    unfolding ch
    by (simp add: WebSocketService_notifySubscribers_def cs(1) forEach_plain_invoked
        count_list_map_pair count_reached[OF d cs(2)])
  have u1: "cb \<notin> set (channel_subscribers (fst (subscribe channel cb h) h2) channel)"
    by (simp add: subscribe_frame unsubscribe_removes)
  have u2: "cb \<notin> set (channel_subscribers
                  (fst (subscribe channel cb (snd (subscribe channel cb h))) h2) channel)"
    by (simp add: subscribe_frame unsubscribe_removes)
  show ?thesis
    using once c1 e w u1 u2 by blast
qed

text \<open>
  Claim C10 on \<open>WebSocketService\<close>: a subscriber that throws, then another callback
  subscribed twice. The channel holds the second callback once, and the closure returned
  by either subscription removes it; but a publish of \<open>WebSocketService\<close> stops at the
  first subscriber and invokes the second callback not once but never, where a publish
  of \<open>EnhancedWebSocketService\<close> invokes it once.
\<close>

theorem C10_WebSocketService_skips_subscriber:
  "channel_subscribers
     (snd (subscribe ''orderbook'' 2 (snd (subscribe ''orderbook'' 2
        (snd (subscribe ''orderbook'' 1 (new_hub (\<lambda>c d. c = 1)))))))) ''orderbook'' = [1, 2] \<and>
   invoked (snd (WebSocketService_notifySubscribers ''orderbook'' (7 :: nat)
     (snd (subscribe ''orderbook'' 2 (snd (subscribe ''orderbook'' 2
        (snd (subscribe ''orderbook'' 1 (new_hub (\<lambda>c d. c = 1)))))))))) = [(1, 7)] \<and>
   count_list (invoked (snd (WebSocketService_notifySubscribers ''orderbook'' (7 :: nat)
     (snd (subscribe ''orderbook'' 2 (snd (subscribe ''orderbook'' 2
        (snd (subscribe ''orderbook'' 1 (new_hub (\<lambda>c d. c = 1))))))))))) (2, 7) = 0 \<and>
   invoked (Enhanced_notifySubscribers ''orderbook'' (7 :: nat)
     (snd (subscribe ''orderbook'' 2 (snd (subscribe ''orderbook'' 2
        (snd (subscribe ''orderbook'' 1 (new_hub (\<lambda>c d. c = 1))))))))) = [(1, 7), (2, 7)] \<and>
   channel_subscribers
     (fst (subscribe ''orderbook'' 2 (snd (subscribe ''orderbook'' 1 (new_hub (\<lambda>c d. c = 1)))))
        (snd (subscribe ''orderbook'' 2 (snd (subscribe ''orderbook'' 2
          (snd (subscribe ''orderbook'' 1 (new_hub (\<lambda>c d. c = 1))))))) :: nat hub))
     ''orderbook'' = [1]"
  by (simp add: subscribe_def unsubscribe_def new_hub_def Let_def Set_add_def Set_delete_def
      channel_subscribers_def WebSocketService_notifySubscribers_def
      Enhanced_notifySubscribers_def call_def)

lemma Array_from_at_elems:
  assumes step: "\<And>j s. Inv s \<Longrightarrow> Q (fst (f j s)) \<and> Inv (snd (f j s))"
  shows "Inv s \<Longrightarrow> list_all Q (fst (Array_from_at i n f s)) \<and> Inv (snd (Array_from_at i n f s))"
proof (induction n arbitrary: i s)
  case 0
  then show ?case by simp
next
  case (Suc n)
  from step[OF Suc.prems, of i] have q: "Q (fst (f i s))" and inv: "Inv (snd (f i s))" by simp_all
  from Suc.IH[OF inv, of "Suc i"] q show ?case
    by (simp add: case_prod_beta Let_def)
qed

lemma round_half_up_int: "round_half_up d (of_int n) = of_int n"
proof -
  have "\<lfloor>(of_int (n * 10 ^ d) :: rat) + 1 / 2\<rfloor> = n * 10 ^ d"
    by (rule floor_unique) simp_all
  then show ?thesis by (simp add: round_half_up_def)
qed

lemma toFixed_int:
  "0 \<le> n \<Longrightarrow> n < 10 ^ 21 \<Longrightarrow> toFixed d (Fin (of_int n)) = Formatted (Fin (of_int n))"
  using round_half_up_int[of d n]
  by (simp add: toFixed_def abs_if del: of_int_less_iff)

lemma fixed_39996: "toFixed 2 (Fin 39996) = Formatted (Fin 39996)"
  using toFixed_int[of 39996 2] by simp

lemma fixed_40004: "toFixed 2 (Fin 40004) = Formatted (Fin 40004)"
  using toFixed_int[of 40004 2] by simp

lemma zero_draws_orderbook:
  assumes "random w = (\<lambda>i. 0)"
  shows "list_all (\<lambda>e. price e = Formatted (Fin 39996)) (bids (fst (generateOrderbook symb w)))"
    and "list_all (\<lambda>e. price e = Formatted (Fin 40004)) (asks (fst (generateOrderbook symb w)))"
    and "length (bids (fst (generateOrderbook symb w))) = 20"
    and "length (asks (fst (generateOrderbook symb w))) = 20"
proof -
  let ?Inv = "\<lambda>v. random v = (\<lambda>i. 0)"
  have r0: "\<And>v. ?Inv v \<Longrightarrow> fst (Math_random v) = 0 \<and> ?Inv (snd (Math_random v))"
    by (simp add: Math_random_def)
  let ?w1 = "snd (Math_random w)"
  have w1: "?Inv ?w1" using r0[OF assms] by simp
  let ?fb = "\<lambda>(i::nat) v. let (a, va) = Math_random v; (b, vb) = Math_random va in
                (\<lparr>price = toFixed 2 (Fin (40000 - 40000 * (2 / 10000) / 2 - (of_nat i + 1) * a * 50)),
                  quantity = toFixed 4 (Fin (b * 2 + 1 / 10))\<rparr>, vb)"
  let ?fa = "\<lambda>(i::nat) v. let (a, va) = Math_random v; (b, vb) = Math_random va in
                (\<lparr>price = toFixed 2 (Fin (40000 + 40000 * (2 / 10000) / 2 + (of_nat i + 1) * a * 50)),
                  quantity = toFixed 4 (Fin (b * 2 + 1 / 10))\<rparr>, vb)"
  have sb: "\<And>j v. ?Inv v \<Longrightarrow> price (fst (?fb j v)) = Formatted (Fin 39996) \<and> ?Inv (snd (?fb j v))"
    by (simp add: Math_random_def case_prod_beta Let_def fixed_39996)
  have sa: "\<And>j v. ?Inv v \<Longrightarrow> price (fst (?fa j v)) = Formatted (Fin 40004) \<and> ?Inv (snd (?fa j v))"
    by (simp add: Math_random_def case_prod_beta Let_def fixed_40004)
  note eb = Array_from_at_elems[where Inv="?Inv" and f="?fb"
      and Q="\<lambda>e. price e = Formatted (Fin 39996)", OF sb w1, of 0 20]
  then have w2: "?Inv (snd (Array_from_at 0 20 ?fb ?w1))" by simp
  note ea = Array_from_at_elems[where Inv="?Inv" and f="?fa"
      and Q="\<lambda>e. price e = Formatted (Fin 40004)", OF sa w2, of 0 20]
  have base: "fst (Math_random w) = 0" using r0[OF assms] by simp
  show "list_all (\<lambda>e. price e = Formatted (Fin 39996)) (bids (fst (generateOrderbook symb w)))"
    using eb
    by (simp add: generateOrderbook_def case_prod_beta Let_def Array_from_def base list_all_sort_by)
  show "list_all (\<lambda>e. price e = Formatted (Fin 40004)) (asks (fst (generateOrderbook symb w)))"
    using ea
    by (simp add: generateOrderbook_def case_prod_beta Let_def Array_from_def base list_all_sort_by)
  show "length (bids (fst (generateOrderbook symb w))) = 20"
    by (simp add: generateOrderbook_def case_prod_beta Let_def Array_from_def length_sort_by
        Array_from_at_length)
  show "length (asks (fst (generateOrderbook symb w))) = 20"
    by (simp add: generateOrderbook_def case_prod_beta Let_def Array_from_def length_sort_by
        Array_from_at_length)
qed

lemma insert_by_sorted_key:
  fixes f :: "'a \<Rightarrow> rat"
  shows "(\<forall>a \<in> insert x (set ys). \<forall>b \<in> insert x (set ys). is_positive (cmp a b) = (f b < f a)) \<Longrightarrow>
     sorted (map f ys) \<Longrightarrow> sorted (map f (insert_by cmp x ys))"
proof (induction ys)
  case Nil
  then show ?case by simp
next
  case (Cons y ys)
  have pos: "is_positive (cmp x y) = (f y < f x)" using Cons.prems(1) by simp
  show ?case
  proof (cases "f y < f x")
    case True
    have "sorted (map f (insert_by cmp x ys))"
      using Cons.IH Cons.prems by simp
    moreover have "\<forall>z \<in> set (insert_by cmp x ys). f y \<le> f z"
      using True Cons.prems(2) by (auto simp: set_insert_by)
    ultimately show ?thesis using True pos by simp
  next
    case False
    then show ?thesis using pos Cons.prems(2) by auto
  qed
qed

lemma sort_by_sorted_key:
  fixes f :: "'a \<Rightarrow> rat"
  assumes "\<And>a b. a \<in> set xs \<Longrightarrow> b \<in> set xs \<Longrightarrow> is_positive (cmp a b) = (f b < f a)"
  shows "sorted (map f (sort_by cmp xs))"
  using assms
proof (induction xs)
  case Nil
  then show ?case by (simp add: sort_by_def)
next
  case (Cons x xs)
  have s: "sorted (map f (sort_by cmp xs))" using Cons by simp
  have "sorted (map f (insert_by cmp x (sort_by cmp xs)))"
    using Cons.prems s by (intro insert_by_sorted_key) (simp_all add: set_sort_by)
  then show ?case by (simp add: sort_by_def)
qed

lemma round_half_up_mono: "x \<le> y \<Longrightarrow> round_half_up d x \<le> round_half_up d y"
  unfolding round_half_up_def
  by (intro divide_right_mono of_int_le_iff[THEN iffD2] floor_mono) simp_all

lemma round_half_up_nonneg: "0 \<le> x \<Longrightarrow> 0 \<le> round_half_up d x"
  using round_half_up_mono[of 0 x d] round_half_up_int[of d 0] by simp

lemma round_half_up_gap:
  assumes "x + 1 \<le> y"
  shows "round_half_up 2 x < round_half_up 2 y"
proof -
  have "x * 10 ^ 2 + 1 / 2 + 1 \<le> y * 10 ^ 2 + 1 / 2" using assms by simp
  then have "\<lfloor>x * 10 ^ 2 + 1 / 2\<rfloor> + 1 \<le> \<lfloor>y * 10 ^ 2 + 1 / 2\<rfloor>"
    by (metis floor_mono floor_add_int of_int_1 add.commute)
  then have "\<lfloor>x * 10 ^ 2 + 1 / 2\<rfloor> < \<lfloor>y * 10 ^ 2 + 1 / 2\<rfloor>" by simp
  then show ?thesis
    unfolding round_half_up_def by (simp add: divide_strict_right_mono)
qed

lemma round_half_up_upper: "round_half_up 2 x \<le> x + 1"
proof -
  have "of_int \<lfloor>x * 10 ^ 2 + 1 / 2\<rfloor> \<le> x * 10 ^ 2 + 1 / 2" by (rule of_int_floor_le)
  then have "of_int \<lfloor>x * 10 ^ 2 + 1 / 2\<rfloor> / 10 ^ 2 \<le> (x * 10 ^ 2 + 1 / 2) / 10 ^ 2"
    by (rule divide_right_mono) simp
  then show ?thesis unfolding round_half_up_def by (simp add: field_simps)
qed

text \<open>What \<open>toFixed 2\<close> denotes, below and above a non-negative bound.\<close>

lemma toFixed_below:
  assumes "x \<le> y" "0 \<le> y" "y < 10 ^ 21"
  shows "\<exists>r. toFixed 2 (Fin x) = Formatted (Fin r) \<and> r \<le> round_half_up 2 y"
proof (cases "x < 0")
  case True
  have "0 \<le> round_half_up 2 y" using assms(2) by (rule round_half_up_nonneg)
  moreover have "0 \<le> round_half_up 2 (- x)" using True by (intro round_half_up_nonneg) simp
  ultimately show ?thesis using True by (simp add: toFixed_def)
next
  case False
  then have "\<not> \<bar>x\<bar> \<ge> 10 ^ 21" using assms by simp
  then show ?thesis using False round_half_up_mono[OF assms(1), of 2] by (simp add: toFixed_def)
qed

lemma toFixed_above:
  assumes "y \<le> x" "0 \<le> y" "y + 1 \<le> 10 ^ 21"
  shows "\<exists>r. toFixed 2 (Fin x) = Formatted (Fin r) \<and> round_half_up 2 y \<le> r"
proof (cases "\<bar>x\<bar> \<ge> 10 ^ 21")
  case True
  then have "y + 1 \<le> x" using assms by simp
  with round_half_up_upper[of y] have "round_half_up 2 y \<le> x" by simp
  then show ?thesis using True by (simp add: toFixed_def)
next
  case False
  moreover have "\<not> x < 0" using assms by simp
  ultimately show ?thesis using round_half_up_mono[OF assms(1), of 2] by (simp add: toFixed_def)
qed

lemma parseFloat_decimal:
  "price (e :: OrderbookEntry) = Formatted (Fin p) \<Longrightarrow> parseFloat w (price e) = Fin (decimal e)"
  by (simp add: parseFloat_def decimal_def)

lemma sort_by_descending:
  fixes xs :: "OrderbookEntry list"
  assumes "list_all (\<lambda>e. \<exists>p. price e = Formatted (Fin p)) xs"
  shows "sorted_wrt (\<lambda>a b. num_le (parseFloat w (price b)) (parseFloat w (price a)))
           (sort_by (\<lambda>a b. num_sub (parseFloat w (price b)) (parseFloat w (price a))) xs)"
proof -
  let ?cmp = "\<lambda>a b. num_sub (parseFloat w (price b)) (parseFloat w (price a))"
  have pf: "\<And>e. e \<in> set xs \<Longrightarrow> parseFloat w (price e) = Fin (decimal e)"
    using assms parseFloat_decimal by (auto simp: list_all_iff)
  have "sorted (map (\<lambda>e. - decimal e) (sort_by ?cmp xs))"
    by (rule sort_by_sorted_key) (simp add: pf num_sub_def is_positive_def)
  then have "sorted_wrt (\<lambda>a b. - decimal a \<le> - decimal b) (sort_by ?cmp xs)"
    by (simp add: sorted_map)
  then show ?thesis
    by (rule sorted_wrt_mono_rel[rotated]) (auto simp add: pf set_sort_by num_le_def)
qed

lemma sort_by_ascending:
  fixes xs :: "OrderbookEntry list"
  assumes "list_all (\<lambda>e. \<exists>p. price e = Formatted (Fin p)) xs"
  shows "sorted_wrt (\<lambda>a b. num_le (parseFloat w (price a)) (parseFloat w (price b)))
           (sort_by (\<lambda>a b. num_sub (parseFloat w (price a)) (parseFloat w (price b))) xs)"
proof -
  let ?cmp = "\<lambda>a b. num_sub (parseFloat w (price a)) (parseFloat w (price b))"
  have pf: "\<And>e. e \<in> set xs \<Longrightarrow> parseFloat w (price e) = Fin (decimal e)"
    using assms parseFloat_decimal by (auto simp: list_all_iff)
  have "sorted (map decimal (sort_by ?cmp xs))"
    by (rule sort_by_sorted_key) (simp add: pf num_sub_def is_positive_def)
  then have "sorted_wrt (\<lambda>a b. decimal a \<le> decimal b) (sort_by ?cmp xs)"
    by (simp add: sorted_map)
  then show ?thesis
    by (rule sorted_wrt_mono_rel[rotated]) (auto simp add: pf set_sort_by num_le_def)
qed

lemma spread_bounds:
  fixes b :: rat
  assumes "40000 \<le> b" "b < 50000"
  shows "0 \<le> b - b * (2 / 10000) / 2" "b - b * (2 / 10000) / 2 < 10 ^ 21"
    "0 \<le> b + b * (2 / 10000) / 2" "b + b * (2 / 10000) / 2 + 1 \<le> 10 ^ 21"
    "b - b * (2 / 10000) / 2 + 1 \<le> b + b * (2 / 10000) / 2"
  using assms by simp_all

lemma generateOrderbook_shape:
  assumes "draws_in_range w"
  shows "\<exists>lo hi. 0 \<le> lo \<and> round_half_up 2 lo < round_half_up 2 hi \<and>
      list_all (\<lambda>e. \<exists>p. price e = Formatted (Fin p) \<and> p \<le> round_half_up 2 lo)
        (bids (fst (generateOrderbook symb w))) \<and>
      list_all (\<lambda>e. \<exists>p. price e = Formatted (Fin p) \<and> round_half_up 2 hi \<le> p)
        (asks (fst (generateOrderbook symb w))) \<and>
      sorted_wrt (\<lambda>a b. num_le (parseFloat w (price b)) (parseFloat w (price a)))
        (bids (fst (generateOrderbook symb w))) \<and>
      sorted_wrt (\<lambda>a b. num_le (parseFloat w (price a)) (parseFloat w (price b)))
        (asks (fst (generateOrderbook symb w)))"
proof -
  let ?Inv = "draws_in_range"
  have rnd: "\<And>v. ?Inv v \<Longrightarrow> 0 \<le> fst (Math_random v) \<and> fst (Math_random v) < 1 \<and>
      ?Inv (snd (Math_random v))"
    by (simp add: Math_random_def draws_in_range_def)
  let ?r = "fst (Math_random w)"
  let ?w1 = "snd (Math_random w)"
  let ?base = "45000 + (?r - 1 / 2) * 10000"
  let ?spread = "?base * (2 / 10000)"
  let ?lo = "?base - ?spread / 2"
  let ?hi = "?base + ?spread / 2"
  have r: "0 \<le> ?r" "?r < 1" and w1: "?Inv ?w1" using rnd[OF assms] by simp_all
  have base: "40000 \<le> ?base" "?base < 50000" using r by simp_all
  have lo: "0 \<le> ?lo" "?lo < 10 ^ 21" by (rule spread_bounds[OF base])+
  have hi: "0 \<le> ?hi" "?hi + 1 \<le> 10 ^ 21" by (rule spread_bounds[OF base])+
  have gap: "round_half_up 2 ?lo < round_half_up 2 ?hi"
    by (rule round_half_up_gap) (rule spread_bounds[OF base])
  let ?Qb = "\<lambda>e. \<exists>p. price e = Formatted (Fin p) \<and> p \<le> round_half_up 2 ?lo"
  let ?Qa = "\<lambda>e. \<exists>p. price e = Formatted (Fin p) \<and> round_half_up 2 ?hi \<le> p"
  let ?fb = "\<lambda>(i::nat) v.
                (\<lparr>price = toFixed 2 (Fin (?lo - (of_nat i + 1) * fst (Math_random v) * 50)),
                  quantity = toFixed 4 (Fin (fst (Math_random (snd (Math_random v))) * 2 + 1 / 10))\<rparr>,
                 snd (Math_random (snd (Math_random v))))"
  let ?fa = "\<lambda>(i::nat) v.
                (\<lparr>price = toFixed 2 (Fin (?hi + (of_nat i + 1) * fst (Math_random v) * 50)),
                  quantity = toFixed 4 (Fin (fst (Math_random (snd (Math_random v))) * 2 + 1 / 10))\<rparr>,
                 snd (Math_random (snd (Math_random v))))"
  have sb: "?Qb (fst (?fb j v)) \<and> ?Inv (snd (?fb j v))" if "?Inv v" for j v
  proof -
    have a: "0 \<le> fst (Math_random v)" and v1: "?Inv (snd (Math_random v))"
      using rnd[OF that] by simp_all
    have v2: "?Inv (snd (Math_random (snd (Math_random v))))" using rnd[OF v1] by simp
    have "?lo - (of_nat j + 1) * fst (Math_random v) * 50 \<le> ?lo" using a by simp
    from toFixed_below[OF this lo] v2 show ?thesis
      by (simp only: fst_conv snd_conv OrderbookEntry.select_convs simp_thms)
  qed
  have sa: "?Qa (fst (?fa j v)) \<and> ?Inv (snd (?fa j v))" if "?Inv v" for j v
  proof -
    have a: "0 \<le> fst (Math_random v)" and v1: "?Inv (snd (Math_random v))"
      using rnd[OF that] by simp_all
    have v2: "?Inv (snd (Math_random (snd (Math_random v))))" using rnd[OF v1] by simp
    have "?hi \<le> ?hi + (of_nat j + 1) * fst (Math_random v) * 50" using a by simp
    from toFixed_above[OF this hi] v2 show ?thesis
      by (simp only: fst_conv snd_conv OrderbookEntry.select_convs simp_thms)
  qed
  note eb = Array_from_at_elems[where Inv="?Inv" and f="?fb" and Q="?Qb", OF sb w1, of 0 20]
  then have w2: "?Inv (snd (Array_from_at 0 20 ?fb ?w1))" by simp
  note ea = Array_from_at_elems[where Inv="?Inv" and f="?fa" and Q="?Qa", OF sa w2, of 0 20]
  have b: "list_all ?Qb (bids (fst (generateOrderbook symb w)))"
    unfolding generateOrderbook_def Let_def case_prod_beta Array_from_def
    using eb by (simp only: fst_conv Orderbook.select_convs list_all_sort_by)
  have a: "list_all ?Qa (asks (fst (generateOrderbook symb w)))"
    unfolding generateOrderbook_def Let_def case_prod_beta Array_from_def
    using ea by (simp only: fst_conv Orderbook.select_convs list_all_sort_by)
  have eb': "list_all (\<lambda>e. \<exists>p. price e = Formatted (Fin p)) (fst (Array_from_at 0 20 ?fb ?w1))"
    using eb by (auto simp: list_all_iff)
  have ea': "list_all (\<lambda>e. \<exists>p. price e = Formatted (Fin p))
      (fst (Array_from_at 0 20 ?fa (snd (Array_from_at 0 20 ?fb ?w1))))"
    using ea by (auto simp: list_all_iff)
  have sortb: "sorted_wrt (\<lambda>a b. num_le (parseFloat w (price b)) (parseFloat w (price a)))
        (bids (fst (generateOrderbook symb w)))"
    unfolding generateOrderbook_def Let_def case_prod_beta Array_from_def
    using sort_by_descending[OF eb', of w]
    by (simp only: fst_conv Orderbook.select_convs)
  have sorta: "sorted_wrt (\<lambda>a b. num_le (parseFloat w (price a)) (parseFloat w (price b)))
        (asks (fst (generateOrderbook symb w)))"
    unfolding generateOrderbook_def Let_def case_prod_beta Array_from_def
    using sort_by_ascending[OF ea', of w]
    by (simp only: fst_conv Orderbook.select_convs)
  show ?thesis using lo(1) gap b a sortb sorta by blast
qed

lemma world0_draws: "draws_in_range world0"
  by (simp add: draws_in_range_def world0_def)

text \<open>
  Claim C8, as stated, fails: \<open>Math.random\<close> may return the same value at every call
  (here 0), and then all twenty bid prices are 39996.00 and all twenty ask prices are
  40004.00: neither side is strictly ordered.
\<close>

theorem C8_equal_draws_equal_prices:
  "draws_in_range world0 \<and>
   parseFloat world0 (price (bids (fst (generateOrderbook ''ETHUSDT'' world0)) ! 0)) = Fin 39996 \<and>
   parseFloat world0 (price (bids (fst (generateOrderbook ''ETHUSDT'' world0)) ! 1)) = Fin 39996 \<and>
   \<not> num_less (parseFloat world0 (price (bids (fst (generateOrderbook ''ETHUSDT'' world0)) ! 1)))
              (parseFloat world0 (price (bids (fst (generateOrderbook ''ETHUSDT'' world0)) ! 0))) \<and>
   parseFloat world0 (price (asks (fst (generateOrderbook ''ETHUSDT'' world0)) ! 0)) = Fin 40004 \<and>
   parseFloat world0 (price (asks (fst (generateOrderbook ''ETHUSDT'' world0)) ! 1)) = Fin 40004 \<and>
   \<not> num_less (parseFloat world0 (price (asks (fst (generateOrderbook ''ETHUSDT'' world0)) ! 0)))
              (parseFloat world0 (price (asks (fst (generateOrderbook ''ETHUSDT'' world0)) ! 1)))"
proof -
  have z: "random world0 = (\<lambda>i. 0)" by (simp add: world0_def)
  note zb = zero_draws_orderbook[OF z, of "''ETHUSDT''"]
  have b: "\<And>n. n < 20 \<Longrightarrow>
      price (bids (fst (generateOrderbook ''ETHUSDT'' world0)) ! n) = Formatted (Fin 39996)"
    using zb(1,3) by (simp add: list_all_length)
  have a: "\<And>n. n < 20 \<Longrightarrow>
      price (asks (fst (generateOrderbook ''ETHUSDT'' world0)) ! n) = Formatted (Fin 40004)"
    using zb(2,4) by (simp add: list_all_length)
  show ?thesis
    using world0_draws by (simp add: a b parseFloat_def)
qed

text \<open>
  Claim C8, amended. For every symbol and every sequence of random draws (each in
  \<open>[0, 1)\<close>), \<open>generateOrderbook\<close> returns 20 bid levels and 20 ask levels, the bid prices
  in descending and the ask prices in ascending order, equal prices allowed, and the
  first ask price is above the first bid price.
\<close>

theorem C8_generateOrderbook_ordered:
  assumes "draws_in_range w"
  shows
    "length (bids (fst (generateOrderbook symb w))) = 20 \<and>
     length (asks (fst (generateOrderbook symb w))) = 20 \<and>
     sorted_wrt (\<lambda>a b. num_le (parseFloat w (price b)) (parseFloat w (price a)))
       (bids (fst (generateOrderbook symb w))) \<and>
     sorted_wrt (\<lambda>a b. num_le (parseFloat w (price a)) (parseFloat w (price b)))
       (asks (fst (generateOrderbook symb w))) \<and>
     num_less (parseFloat w (price (bids (fst (generateOrderbook symb w)) ! 0)))
              (parseFloat w (price (asks (fst (generateOrderbook symb w)) ! 0)))"
proof -
  let ?ob = "fst (generateOrderbook symb w)"
  have lb: "length (bids ?ob) = 20" and la: "length (asks ?ob) = 20"
    by (simp_all add: generateOrderbook_def case_prod_beta Let_def Array_from_def length_sort_by
        Array_from_at_length)
  from generateOrderbook_shape[OF assms, of symb] obtain lo hi where
    gap: "round_half_up 2 lo < round_half_up 2 hi"
    and b: "list_all (\<lambda>e. \<exists>p. price e = Formatted (Fin p) \<and> p \<le> round_half_up 2 lo) (bids ?ob)"
    and a: "list_all (\<lambda>e. \<exists>p. price e = Formatted (Fin p) \<and> round_half_up 2 hi \<le> p) (asks ?ob)"
    and sb: "sorted_wrt (\<lambda>a b. num_le (parseFloat w (price b)) (parseFloat w (price a))) (bids ?ob)"
    and sa: "sorted_wrt (\<lambda>a b. num_le (parseFloat w (price a)) (parseFloat w (price b))) (asks ?ob)"
    by blast
  have z: "(0 :: nat) < 20" by simp
  from b lb z obtain p where p: "price (bids ?ob ! 0) = Formatted (Fin p)" "p \<le> round_half_up 2 lo"
    unfolding list_all_length by metis
  from a la z obtain q where q: "price (asks ?ob ! 0) = Formatted (Fin q)" "round_half_up 2 hi \<le> q"
    unfolding list_all_length by metis
  have "num_less (parseFloat w (price (bids ?ob ! 0))) (parseFloat w (price (asks ?ob ! 0)))"
    using p q gap by (simp add: parseFloat_def)
  then show ?thesis using lb la sb sa by simp
qed

text \<open>The generated book for the draws that are all 0.\<close>

theorem C8_witness:
  "draws_in_range world0 \<and>
   length (bids (fst (generateOrderbook ''ETHUSDT'' world0))) = 20 \<and>
   length (asks (fst (generateOrderbook ''ETHUSDT'' world0))) = 20 \<and>
   sorted_wrt (\<lambda>a b. num_le (parseFloat world0 (price b)) (parseFloat world0 (price a)))
     (bids (fst (generateOrderbook ''ETHUSDT'' world0))) \<and>
   sorted_wrt (\<lambda>a b. num_le (parseFloat world0 (price a)) (parseFloat world0 (price b)))
     (asks (fst (generateOrderbook ''ETHUSDT'' world0))) \<and>
   num_less (parseFloat world0 (price (bids (fst (generateOrderbook ''ETHUSDT'' world0)) ! 0)))
            (parseFloat world0 (price (asks (fst (generateOrderbook ''ETHUSDT'' world0)) ! 0)))"
  using C8_generateOrderbook_ordered[OF world0_draws, of "''ETHUSDT''"] world0_draws
  by simp

lemma try_catch_absorbs:
  assumes h: "\<And>w. \<exists>r. fst (handler w) = Inr r \<and> conforms r"
    and f: "\<And>w k. k < n \<Longrightarrow> fetch_fails k w \<Longrightarrow> \<exists>e. fst (body w) = Inl e"
  shows "absorbs_failures n (try_catch body handler) body handler conforms"
  unfolding absorbs_failures_def
proof (intro allI conjI impI)
  fix w
  obtain x w1 where b: "body w = (x, w1)" by (cases "body w")
  show "\<exists>r. fst (try_catch body handler w) = Inr r"
    using h[of w1] by (cases x) (auto simp add: try_catch_def b)
  show "\<exists>e. fst (body w) = Inl e" if "\<exists>k<n. fetch_fails k w"
    using that f by blast
  show "\<exists>r. try_catch body handler w = handler (snd (body w)) \<and>
           fst (try_catch body handler w) = Inr r \<and> conforms r"
    if "\<exists>e. fst (body w) = Inl e"
    using that h[of w1] by (auto simp add: try_catch_def b)
  show "try_catch body handler w = body w" if "fst (body w) = Inr r" for r
    using that by (simp add: try_catch_def b)
qed

lemma returning_conforms:
  "(\<And>w. conforms (fst (g w))) \<Longrightarrow> \<exists>r. fst (returning g w) = Inr r \<and> conforms r"
  by (simp add: returning_def case_prod_beta)

lemma fetch_fails_json:
  "fetch_fails 0 w \<Longrightarrow> \<exists>e. fetch_json w = (Inl e, snd (fetch w))"
  by (auto simp add: fetch_fails_def bad_response_def fetch_json_def fetch_def
      split: fetch_result.splits option.splits if_splits)

lemma fetch_fails_clock: "fetch_fails k (snd (Date_now w)) = fetch_fails k w"
  by (simp add: fetch_fails_def Date_now_def)

lemma toString_string: "field_is_string (toString x)"
  by (simp add: toString_def field_is_string_def)

lemma KuCoin_getMockOrderbook_conforms: "orderbook_conforms (fst (KuCoin_getMockOrderbook symb w))"
  by (simp add: KuCoin_getMockOrderbook_def orderbook_conforms_def case_prod_beta Let_def
      Array_from_def Array_from_at_all entry_conforms_def toFixed_string toString_string)

lemma OKX_getMockOrderbook_conforms: "orderbook_conforms (fst (OKX_getMockOrderbook symb w))"
  by (simp add: OKX_getMockOrderbook_def orderbook_conforms_def case_prod_beta Let_def
      Array_from_def Array_from_at_all entry_conforms_def toFixed_string toString_string)

lemma Coinbase_getMockOrderbook_conforms:
  "orderbook_conforms (fst (Coinbase_getMockOrderbook symb w))"
  by (simp add: Coinbase_getMockOrderbook_def orderbook_conforms_def case_prod_beta Let_def
      Array_from_def Array_from_at_all entry_conforms_def toFixed_string toString_string)

lemma KuCoin_getMock24hTicker_conforms: "ticker_conforms (fst (KuCoin_getMock24hTicker symb w))"
  by (simp add: KuCoin_getMock24hTicker_def ticker_conforms_def case_prod_beta Let_def toFixed_string)

lemma OKX_getMock24hTicker_conforms: "ticker_conforms (fst (OKX_getMock24hTicker symb w))"
  by (simp add: OKX_getMock24hTicker_def ticker_conforms_def case_prod_beta Let_def toFixed_string)

lemma Coinbase_getMock24hTicker_conforms:
  "ticker_conforms (fst (Coinbase_getMock24hTicker symb w))"
  by (simp add: Coinbase_getMock24hTicker_def ticker_conforms_def case_prod_beta Let_def
      toFixed_string)

lemma KuCoin_getMockKlines_valid:
  assumes "limit < 2 ^ 32"
  shows "\<exists>ks. fst (KuCoin_getMockKlines limit w) = Inr ks \<and> list_all kline_conforms ks"
  using assms
  by (simp add: KuCoin_getMockKlines_def array_length_valid case_prod_beta Let_def Array_from_def
      Array_from_at_all kline_conforms_def toFixed_string)

lemma OKX_getMockKlines_valid:
  assumes "limit < 2 ^ 32"
  shows "\<exists>ks. fst (OKX_getMockKlines symb limit w) = Inr ks \<and> list_all kline_conforms ks"
  using assms
  by (simp add: OKX_getMockKlines_def array_length_valid case_prod_beta Let_def Array_from_def
      Array_from_at_all kline_conforms_def toString_string)

lemma Coinbase_getMockKlines_valid:
  assumes "limit < 2 ^ 32"
  shows "\<exists>ks. fst (Coinbase_getMockKlines symb limit w) = Inr ks \<and> list_all kline_conforms ks"
  using assms
  by (simp add: Coinbase_getMockKlines_def array_length_valid case_prod_beta Let_def Array_from_def
      Array_from_at_all kline_conforms_def toString_string)

lemma mock_klines_invalid:
  assumes "limit \<ge> 2 ^ 32"
  shows "fst (KuCoin_getMockKlines limit w) = Inl RangeError"
    and "fst (OKX_getMockKlines symb limit w) = Inl RangeError"
    and "fst (Coinbase_getMockKlines symb limit w) = Inl RangeError"
  using assms
  by (simp_all add: KuCoin_getMockKlines_def OKX_getMockKlines_def Coinbase_getMockKlines_def
      array_length_def case_prod_beta Let_def)

lemma attempts_fail:
  assumes "fetch_fails 0 w"
  shows "\<exists>e. fst (KuCoin_try_getOrderbook symb w) = Inl e"
    and "\<exists>e. fst (KuCoin_try_get24hTicker symb w) = Inl e"
    and "\<exists>e. fst (KuCoin_try_getKlines symb interval limit w) = Inl e"
    and "\<exists>e. fst (OKX_try_getOrderbook symb w) = Inl e"
    and "\<exists>e. fst (OKX_try_get24hTicker symb w) = Inl e"
    and "\<exists>e. fst (OKX_try_getKlines symb interval limit w) = Inl e"
    and "\<exists>e. fst (Coinbase_try_getOrderbook symb depth w) = Inl e"
    and "\<exists>e. fst (Coinbase_try_getKlines symb interval limit w) = Inl e"
proof -
  from fetch_fails_json[OF assms] obtain e where f: "fetch_json w = (Inl e, snd (fetch w))"
    by blast
  from assms have "fetch_fails 0 (snd (Date_now w))" by (simp add: fetch_fails_clock)
  from fetch_fails_json[OF this] obtain e' where
    g: "fetch_json (snd (Date_now w)) = (Inl e', snd (fetch (snd (Date_now w))))"
    by blast
  show "\<exists>e. fst (KuCoin_try_getOrderbook symb w) = Inl e"
    by (simp add: KuCoin_try_getOrderbook_def f)
  show "\<exists>e. fst (KuCoin_try_get24hTicker symb w) = Inl e"
    by (simp add: KuCoin_try_get24hTicker_def f)
  show "\<exists>e. fst (KuCoin_try_getKlines symb interval limit w) = Inl e"
    by (simp add: KuCoin_try_getKlines_def g case_prod_beta)
  show "\<exists>e. fst (OKX_try_getOrderbook symb w) = Inl e"
    by (simp add: OKX_try_getOrderbook_def f)
  show "\<exists>e. fst (OKX_try_get24hTicker symb w) = Inl e"
    by (simp add: OKX_try_get24hTicker_def f)
  show "\<exists>e. fst (OKX_try_getKlines symb interval limit w) = Inl e"
    by (simp add: OKX_try_getKlines_def f)
  show "\<exists>e. fst (Coinbase_try_getOrderbook symb depth w) = Inl e"
    by (simp add: Coinbase_try_getOrderbook_def f)
  show "\<exists>e. fst (Coinbase_try_getKlines symb interval limit w) = Inl e"
    by (simp add: Coinbase_try_getKlines_def g case_prod_beta Let_def)
qed

lemma ticker_attempt_fails:
  assumes "k < 2" "fetch_fails k w"
  shows "\<exists>e. fst (Coinbase_try_get24hTicker symb w) = Inl e"
proof -
  from assms(1) have "k = 0 \<or> k = 1" by auto
  then show ?thesis
    using assms(2)
    by (auto simp add: Coinbase_try_get24hTicker_def fetch_fails_def bad_response_def fetch_def
        case_prod_beta Let_def split: fetch_result.splits option.splits if_splits)
qed

lemma absorbs_KuCoin:
  "absorbs_failures 1 (KuCoin_getOrderbook symb depth) (KuCoin_try_getOrderbook symb)
     (returning (KuCoin_getMockOrderbook symb)) orderbook_conforms"
  "absorbs_failures 1 (KuCoin_get24hTicker symb) (KuCoin_try_get24hTicker symb)
     (returning (KuCoin_getMock24hTicker symb)) ticker_conforms"
  "limit < 2 ^ 32 \<Longrightarrow>
   absorbs_failures 1 (KuCoin_getKlines symb interval limit) (KuCoin_try_getKlines symb interval limit)
     (KuCoin_getMockKlines limit) (list_all kline_conforms)"
  unfolding KuCoin_getOrderbook_def KuCoin_get24hTicker_def KuCoin_getKlines_def
  by (rule try_catch_absorbs;
      simp add: returning_conforms KuCoin_getMockOrderbook_conforms KuCoin_getMock24hTicker_conforms
        KuCoin_getMockKlines_valid attempts_fail)+

lemma absorbs_OKX:
  "absorbs_failures 1 (OKX_getOrderbook symb depth) (OKX_try_getOrderbook symb)
     (returning (OKX_getMockOrderbook symb)) orderbook_conforms"
  "absorbs_failures 1 (OKX_get24hTicker symb) (OKX_try_get24hTicker symb)
     (returning (OKX_getMock24hTicker symb)) ticker_conforms"
  "limit < 2 ^ 32 \<Longrightarrow>
   absorbs_failures 1 (OKX_getKlines symb interval limit) (OKX_try_getKlines symb interval limit)
     (OKX_getMockKlines symb limit) (list_all kline_conforms)"
  unfolding OKX_getOrderbook_def OKX_get24hTicker_def OKX_getKlines_def
  by (rule try_catch_absorbs;
      simp add: returning_conforms OKX_getMockOrderbook_conforms OKX_getMock24hTicker_conforms
        OKX_getMockKlines_valid attempts_fail)+

lemma absorbs_Coinbase:
  "absorbs_failures 1 (Coinbase_getOrderbook symb depth) (Coinbase_try_getOrderbook symb depth)
     (returning (Coinbase_getMockOrderbook symb)) orderbook_conforms"
  "absorbs_failures 2 (Coinbase_get24hTicker symb) (Coinbase_try_get24hTicker symb)
     (returning (Coinbase_getMock24hTicker symb)) ticker_conforms"
  "limit < 2 ^ 32 \<Longrightarrow>
   absorbs_failures 1 (Coinbase_getKlines symb interval limit)
     (Coinbase_try_getKlines symb interval limit)
     (Coinbase_getMockKlines symb limit) (list_all kline_conforms)"
  unfolding Coinbase_getOrderbook_def Coinbase_get24hTicker_def Coinbase_getKlines_def
  by (rule try_catch_absorbs;
      simp add: returning_conforms Coinbase_getMockOrderbook_conforms
        Coinbase_getMock24hTicker_conforms Coinbase_getMockKlines_valid attempts_fail
        ticker_attempt_fails)+

lemma absorbs_failuresD:
  assumes "absorbs_failures n operation attempt substitute conforms"
  shows "k < n \<Longrightarrow> fetch_fails k w \<Longrightarrow>
           \<exists>r. operation w = substitute (snd (attempt w)) \<and> fst (operation w) = Inr r \<and> conforms r"
    and "fst (attempt w) = Inl e \<Longrightarrow>
           \<exists>r. operation w = substitute (snd (attempt w)) \<and> fst (operation w) = Inr r \<and> conforms r"
    and "fst (attempt w) = Inr r \<Longrightarrow> operation w = attempt w"
  using assms unfolding absorbs_failures_def by blast+

lemma fetch_fails_answering:
  "fetch_fails 0 (answering NetworkFailure)"
  "fetch_fails 0 (answering (Response 503 None))"
  "fetch_fails 0 (answering (Response 200 None))"
  "fetch_fails 1 (answering_then (Response 200 (Some (JObj []))) NetworkFailure)"
  by (simp_all add: fetch_fails_def bad_response_def answering_def answering_then_def world0_def
      response_ok_def)

lemma fetch_json_answering:
  "fetch_json (answering (Response 200 (Some v))) =
     (Inr v, (answering (Response 200 (Some v)))\<lparr>network_used := 1\<rparr>)"
  by (simp add: fetch_json_def fetch_def answering_def world0_def response_ok_def)

lemma answering_fields:
  "js_parseFloat (answering r) = (\<lambda>v. NaN)"
  "js_parseInt (answering r) = (\<lambda>v. NaN)"
  "clock (answering r) = (\<lambda>i. 1700000000000 + int i)"
  "clock_used (answering r) = 0"
  by (simp_all add: answering_def world0_def)

text \<open>
  Claim C5, as stated, fails in two ways. A response that is malformed without making
  the conversion raise is returned as converted: KuCoin answers the ticker request with
  status 200 and the body \<open>{"data": {}}\<close>, and \<open>get24hTicker\<close> returns a ticker whose
  \<open>lastPrice\<close> is \<open>undefined\<close>, not a synthetic substitute of the schema's shape; so do
  the OKX adapter on the body \<open>{"code": "0", "data": [{}]}\<close>, which passes its envelope
  check, and the Coinbase adapter on two bodies \<open>{}\<close>. And with the network down and the
  count \<open>2^32\<close>, \<open>getKlines\<close> throws the RangeError of its substitute generator.
\<close>

theorem C5_unvalidated_response_passes:
  "fst (fetch_json (answering (Response 200 (Some (JObj [(''data'', JObj [])]))))) =
     Inr (JObj [(''data'', JObj [])]) \<and>
   (\<exists>t w'. KuCoin_get24hTicker ''BTCUSDT''
        (answering (Response 200 (Some (JObj [(''data'', JObj [])])))) = (Inr t, w') \<and>
      t_lastPrice t = Raw JUndefined \<and> \<not> ticker_conforms t) \<and>
   (\<exists>t w'. OKX_get24hTicker ''BTCUSDT''
        (answering (Response 200 (Some (JObj [(''code'', JStr ''0''), (''data'', JArr [JObj []])])))) =
        (Inr t, w') \<and>
      t_lastPrice t = Raw JUndefined \<and> \<not> ticker_conforms t) \<and>
   (\<exists>t w'. Coinbase_get24hTicker ''BTCUSDT'' (answering (Response 200 (Some (JObj [])))) =
        (Inr t, w') \<and>
      t_lastPrice t = Raw JUndefined \<and> \<not> ticker_conforms t) \<and>
   fetch_fails 0 (answering NetworkFailure) \<and>
   fst (KuCoin_getKlines ''BTCUSDT'' ''1day'' (2 ^ 32) (answering NetworkFailure)) = Inl RangeError"
proof -
  have o: "\<exists>t w'. OKX_get24hTicker ''BTCUSDT''
        (answering (Response 200 (Some (JObj [(''code'', JStr ''0''), (''data'', JArr [JObj []])])))) =
        (Inr t, w') \<and>
      t_lastPrice t = Raw JUndefined \<and> \<not> ticker_conforms t"
    by (simp add: OKX_get24hTicker_def try_catch_def OKX_try_get24hTicker_def OKX_first_item_def
        fetch_json_answering get_prop_def get_index_def read_index_def truthy_def nullish_def
        read_def Let_def ticker_conforms_def field_is_string_def)
  have cb: "\<exists>t w'. Coinbase_get24hTicker ''BTCUSDT'' (answering (Response 200 (Some (JObj [])))) =
        (Inr t, w') \<and>
      t_lastPrice t = Raw JUndefined \<and> \<not> ticker_conforms t"
    by (simp add: Coinbase_get24hTicker_def try_catch_def Coinbase_try_get24hTicker_def
        fetch_def answering_def world0_def response_ok_def nullish_def read_def Date_now_def
        Let_def ticker_conforms_def field_is_string_def)
  have a: "fst (fetch_json (answering (Response 200 (Some (JObj [(''data'', JObj [])]))))) =
     Inr (JObj [(''data'', JObj [])])"
    by (simp add: fetch_json_answering)
  have b: "\<exists>t w'. KuCoin_get24hTicker ''BTCUSDT''
        (answering (Response 200 (Some (JObj [(''data'', JObj [])])))) = (Inr t, w') \<and>
      t_lastPrice t = Raw JUndefined \<and> \<not> ticker_conforms t"
    by (simp add: KuCoin_get24hTicker_def try_catch_def KuCoin_try_get24hTicker_def
        fetch_json_answering get_prop_def nullish_def read_def
        Date_now_def Let_def ticker_conforms_def field_is_string_def)
  from attempts_fail(3)[OF fetch_fails_answering(1)] obtain e where
    e: "fst (KuCoin_try_getKlines ''BTCUSDT'' ''1day'' (2 ^ 32) (answering NetworkFailure)) = Inl e"
    by blast
  have c: "fst (KuCoin_getKlines ''BTCUSDT'' ''1day'' (2 ^ 32) (answering NetworkFailure)) =
      Inl RangeError"
    using e
    by (cases "KuCoin_try_getKlines ''BTCUSDT'' ''1day'' (2 ^ 32) (answering NetworkFailure)")
       (simp add: KuCoin_getKlines_def try_catch_def mock_klines_invalid)
  show ?thesis
    by (intro conjI) (fact a b o cb fetch_fails_answering(1) c)+
qed

text \<open>
  Claim C5, amended. Every operation of the three adapters always returns a value.
  When a fetch of the operation fails (network error, status not 2xx, body not JSON) or
  the conversion of the response raises, the operation returns what its synthetic
  generator returns, a value of the schema's shape; a response whose conversion does not
  raise is returned as converted, whether or not it has the schema's shape. For
  \<open>getKlines\<close> all this holds when the requested count is an array length (below
  \<open>2^32\<close>).
\<close>

theorem C5_adapters_absorb_failures:
  "absorbs_failures 1 (KuCoin_getOrderbook symb depth) (KuCoin_try_getOrderbook symb)
     (returning (KuCoin_getMockOrderbook symb)) orderbook_conforms \<and>
   absorbs_failures 1 (KuCoin_get24hTicker symb) (KuCoin_try_get24hTicker symb)
     (returning (KuCoin_getMock24hTicker symb)) ticker_conforms \<and>
   (limit < 2 ^ 32 \<longrightarrow>
    absorbs_failures 1 (KuCoin_getKlines symb interval limit)
      (KuCoin_try_getKlines symb interval limit) (KuCoin_getMockKlines limit)
      (list_all kline_conforms)) \<and>
   absorbs_failures 1 (OKX_getOrderbook symb depth) (OKX_try_getOrderbook symb)
     (returning (OKX_getMockOrderbook symb)) orderbook_conforms \<and>
   absorbs_failures 1 (OKX_get24hTicker symb) (OKX_try_get24hTicker symb)
     (returning (OKX_getMock24hTicker symb)) ticker_conforms \<and>
   (limit < 2 ^ 32 \<longrightarrow>
    absorbs_failures 1 (OKX_getKlines symb interval limit)
      (OKX_try_getKlines symb interval limit) (OKX_getMockKlines symb limit)
      (list_all kline_conforms)) \<and>
   absorbs_failures 1 (Coinbase_getOrderbook symb depth) (Coinbase_try_getOrderbook symb depth)
     (returning (Coinbase_getMockOrderbook symb)) orderbook_conforms \<and>
   absorbs_failures 2 (Coinbase_get24hTicker symb) (Coinbase_try_get24hTicker symb)
     (returning (Coinbase_getMock24hTicker symb)) ticker_conforms \<and>
   (limit < 2 ^ 32 \<longrightarrow>
    absorbs_failures 1 (Coinbase_getKlines symb interval limit)
      (Coinbase_try_getKlines symb interval limit) (Coinbase_getMockKlines symb limit)
      (list_all kline_conforms))"
  by (intro conjI impI absorbs_KuCoin absorbs_OKX absorbs_Coinbase) assumption+

text \<open>
  A network failure, a 503, a body that is not JSON, an OKX error envelope, a Coinbase
  ticker whose second request fails, a Coinbase candle without prices, and a Coinbase
  order book that is returned as converted.
\<close>

theorem C5_witness:
  "(30 :: int) < 2 ^ 32 \<and>
   fetch_fails 0 (answering NetworkFailure) \<and>
   (\<exists>r. KuCoin_getOrderbook ''BTCUSDT'' 20 (answering NetworkFailure) =
          returning (KuCoin_getMockOrderbook ''BTCUSDT'')
            (snd (KuCoin_try_getOrderbook ''BTCUSDT'' (answering NetworkFailure))) \<and>
        fst (KuCoin_getOrderbook ''BTCUSDT'' 20 (answering NetworkFailure)) = Inr r \<and>
        orderbook_conforms r) \<and>
   fetch_fails 0 (answering (Response 503 None)) \<and>
   (\<exists>r. OKX_get24hTicker ''BTCUSDT'' (answering (Response 503 None)) =
          returning (OKX_getMock24hTicker ''BTCUSDT'')
            (snd (OKX_try_get24hTicker ''BTCUSDT'' (answering (Response 503 None)))) \<and>
        fst (OKX_get24hTicker ''BTCUSDT'' (answering (Response 503 None))) = Inr r \<and>
        ticker_conforms r) \<and>
   fetch_fails 0 (answering (Response 200 None)) \<and>
   (\<exists>r. KuCoin_getKlines ''BTCUSDT'' ''1day'' 30 (answering (Response 200 None)) =
          KuCoin_getMockKlines 30
            (snd (KuCoin_try_getKlines ''BTCUSDT'' ''1day'' 30 (answering (Response 200 None)))) \<and>
        fst (KuCoin_getKlines ''BTCUSDT'' ''1day'' 30 (answering (Response 200 None))) = Inr r \<and>
        list_all kline_conforms r) \<and>
   fst (OKX_try_getOrderbook ''BTCUSDT''
          (answering (Response 200 (Some (JObj [(''code'', JStr ''51001'')]))))) =
     Inl InvalidResponse \<and>
   (\<exists>r. OKX_getOrderbook ''BTCUSDT'' 20
          (answering (Response 200 (Some (JObj [(''code'', JStr ''51001'')])))) =
          returning (OKX_getMockOrderbook ''BTCUSDT'')
            (snd (OKX_try_getOrderbook ''BTCUSDT''
                    (answering (Response 200 (Some (JObj [(''code'', JStr ''51001'')])))))) \<and>
        fst (OKX_getOrderbook ''BTCUSDT'' 20
               (answering (Response 200 (Some (JObj [(''code'', JStr ''51001'')]))))) = Inr r \<and>
        orderbook_conforms r) \<and>
   fetch_fails 1 (answering_then (Response 200 (Some (JObj []))) NetworkFailure) \<and>
   (\<exists>r. Coinbase_get24hTicker ''BTCUSDT''
          (answering_then (Response 200 (Some (JObj []))) NetworkFailure) =
          returning (Coinbase_getMock24hTicker ''BTCUSDT'')
            (snd (Coinbase_try_get24hTicker ''BTCUSDT''
                    (answering_then (Response 200 (Some (JObj []))) NetworkFailure))) \<and>
        fst (Coinbase_get24hTicker ''BTCUSDT''
               (answering_then (Response 200 (Some (JObj []))) NetworkFailure)) = Inr r \<and>
        ticker_conforms r) \<and>
   fst (Coinbase_try_getKlines ''BTCUSDT'' ''1day'' 30
          (answering (Response 200 (Some (JArr [JArr [JNum (Fin 1700000000)]]))))) =
     Inl TypeError \<and>
   (\<exists>r. Coinbase_getKlines ''BTCUSDT'' ''1day'' 30
          (answering (Response 200 (Some (JArr [JArr [JNum (Fin 1700000000)]])))) =
          Coinbase_getMockKlines ''BTCUSDT'' 30
            (snd (Coinbase_try_getKlines ''BTCUSDT'' ''1day'' 30
                    (answering (Response 200 (Some (JArr [JArr [JNum (Fin 1700000000)]])))))) \<and>
        fst (Coinbase_getKlines ''BTCUSDT'' ''1day'' 30
               (answering (Response 200 (Some (JArr [JArr [JNum (Fin 1700000000)]]))))) = Inr r \<and>
        list_all kline_conforms r) \<and>
   fst (Coinbase_try_getOrderbook ''BTCUSDT'' 20 (answering (Response 200 (Some sample_book)))) =
     Inr \<lparr>symbol = ''BTCUSDT'',
          bids = [\<lparr>price = Raw (JStr ''64999.5''), quantity = Raw (JStr ''0.25'')\<rparr>],
          asks = [\<lparr>price = Raw (JStr ''65000.5''), quantity = Raw (JStr ''0.40'')\<rparr>],
          lastUpdateId = Fin 1700000000000\<rparr> \<and>
   Coinbase_getOrderbook ''BTCUSDT'' 20 (answering (Response 200 (Some sample_book))) =
     Coinbase_try_getOrderbook ''BTCUSDT'' 20 (answering (Response 200 (Some sample_book)))"
proof -
  note T = C5_adapters_absorb_failures[of "''BTCUSDT''" 20 30 "''1day''"]
  have lim: "(30 :: int) < 2 ^ 32" by simp
  have okx: "fst (OKX_try_getOrderbook ''BTCUSDT''
          (answering (Response 200 (Some (JObj [(''code'', JStr ''51001'')]))))) =
     Inl InvalidResponse"
    by (simp add: OKX_try_getOrderbook_def OKX_first_item_def fetch_json_answering
        get_prop_def nullish_def read_def)
  have cbk: "fst (Coinbase_try_getKlines ''BTCUSDT'' ''1day'' 30
          (answering (Response 200 (Some (JArr [JArr [JNum (Fin 1700000000)]]))))) =
     Inl TypeError"
    by (simp add: Coinbase_try_getKlines_def Date_now_def answering_def world0_def valid_time_def
        fetch_json_def fetch_def response_ok_def as_array_def Coinbase_candle_def nullish_def
        read_index_def value_toString_def Let_def)
  have cbo: "fst (Coinbase_try_getOrderbook ''BTCUSDT'' 20
                (answering (Response 200 (Some sample_book)))) =
     Inr \<lparr>symbol = ''BTCUSDT'',
          bids = [\<lparr>price = Raw (JStr ''64999.5''), quantity = Raw (JStr ''0.25'')\<rparr>],
          asks = [\<lparr>price = Raw (JStr ''65000.5''), quantity = Raw (JStr ''0.40'')\<rparr>],
          lastUpdateId = Fin 1700000000000\<rparr>"
    by (simp add: Coinbase_try_getOrderbook_def fetch_json_answering sample_book_def get_prop_def
        nullish_def read_def sliced_entries_def as_array_def slice_to_def entry_of_def
        read_index_def Date_now_def answering_fields Let_def)
  from T have a1: "absorbs_failures 1 (KuCoin_getOrderbook ''BTCUSDT'' 20)
      (KuCoin_try_getOrderbook ''BTCUSDT'') (returning (KuCoin_getMockOrderbook ''BTCUSDT''))
      orderbook_conforms" by blast
  from T have a2: "absorbs_failures 1 (OKX_get24hTicker ''BTCUSDT'')
      (OKX_try_get24hTicker ''BTCUSDT'') (returning (OKX_getMock24hTicker ''BTCUSDT''))
      ticker_conforms" by blast
  from T lim have a3: "absorbs_failures 1 (KuCoin_getKlines ''BTCUSDT'' ''1day'' 30)
      (KuCoin_try_getKlines ''BTCUSDT'' ''1day'' 30) (KuCoin_getMockKlines 30)
      (list_all kline_conforms)" by blast
  from T have a4: "absorbs_failures 1 (OKX_getOrderbook ''BTCUSDT'' 20)
      (OKX_try_getOrderbook ''BTCUSDT'') (returning (OKX_getMockOrderbook ''BTCUSDT''))
      orderbook_conforms" by blast
  from T have a5: "absorbs_failures 2 (Coinbase_get24hTicker ''BTCUSDT'')
      (Coinbase_try_get24hTicker ''BTCUSDT'') (returning (Coinbase_getMock24hTicker ''BTCUSDT''))
      ticker_conforms" by blast
  from T lim have a6: "absorbs_failures 1 (Coinbase_getKlines ''BTCUSDT'' ''1day'' 30)
      (Coinbase_try_getKlines ''BTCUSDT'' ''1day'' 30) (Coinbase_getMockKlines ''BTCUSDT'' 30)
      (list_all kline_conforms)" by blast
  from T have a7: "absorbs_failures 1 (Coinbase_getOrderbook ''BTCUSDT'' 20)
      (Coinbase_try_getOrderbook ''BTCUSDT'' 20) (returning (Coinbase_getMockOrderbook ''BTCUSDT''))
      orderbook_conforms" by blast
  have one: "(0 :: nat) < 1" and two: "(1 :: nat) < 2" by simp_all
  note e1 = absorbs_failuresD(1)[OF a1 one fetch_fails_answering(1)]
  note e2 = absorbs_failuresD(1)[OF a2 one fetch_fails_answering(2)]
  note e3 = absorbs_failuresD(1)[OF a3 one fetch_fails_answering(3)]
  note e4 = absorbs_failuresD(2)[OF a4 okx]
  note e5 = absorbs_failuresD(1)[OF a5 two fetch_fails_answering(4)]
  note e6 = absorbs_failuresD(2)[OF a6 cbk]
  note e7 = absorbs_failuresD(3)[OF a7 cbo]
  show ?thesis
    by (intro conjI) (fact lim fetch_fails_answering okx cbk cbo e1 e2 e3 e4 e5 e6 e7)+
qed








end
